theory Spec2Isabelle
  imports Complex_Main "HOL-Library.Word"
begin

unbundle bit_operations_syntax

section \<open>Catalog numbers\<close>

text \<open>
  \<^verbatim>\<open>AstroCatalog::IndexNumber\<close> is an unsigned 32-bit integer: arithmetic on it wraps
  around modulo \<open>2 ^ 32\<close>. \<^verbatim>\<open>AstroCatalog::InvalidIndex\<close> is its largest value.
\<close>

type_synonym IndexNumber = "32 word"

definition InvalidIndex :: IndexNumber where
  "InvalidIndex = 0xFFFFFFFF"

definition TYC3_MULTIPLIER :: IndexNumber where
  "TYC3_MULTIPLIER = 1000000000"

definition TYC2_MULTIPLIER :: IndexNumber where
  "TYC2_MULTIPLIER = 10000"

definition TYC123_MIN :: IndexNumber where
  "TYC123_MIN = 1"

definition TYC1_MAX :: IndexNumber where
  "TYC1_MAX = 9999"

definition TYC2_MAX :: IndexNumber where
  "TYC2_MAX = 99999"

definition TYC3_MAX :: IndexNumber where
  "TYC3_MAX = 3"

definition TDSC_TYC3_MAX :: IndexNumber where
  "TDSC_TYC3_MAX = 4"

definition TDSC_TYC3_MAX_RANGE_TYC1 :: IndexNumber where
  "TDSC_TYC3_MAX_RANGE_TYC1 = 2907"

section \<open>Parsing catalog number strings\<close>

text \<open>
  Characters are bytes. The helpers below are the library routines the parsers of
  \<^verbatim>\<open>stardb.cpp\<close> call.
\<close>

definition isDigit :: "char \<Rightarrow> bool" where
  "isDigit c = (48 \<le> (of_char c :: nat) \<and> (of_char c :: nat) \<le> 57)"

definition digitValue :: "char \<Rightarrow> nat" where
  "digitValue c = (of_char c :: nat) - 48"

definition isBlank :: "char \<Rightarrow> bool" where
  \<comment> \<open>membership in the set \<^verbatim>\<open>" \t"\<close> given to \<^verbatim>\<open>find_first_not_of\<close>\<close>
  "isBlank c = (c = CHR '' '' \<or> c = CHR 0x09)"

definition toUpper :: "char \<Rightarrow> char" where
  "toUpper c = (if 97 \<le> (of_char c :: nat) \<and> (of_char c :: nat) \<le> 122
                then char_of ((of_char c :: nat) - 32) else c)"

definition decimalValue :: "string \<Rightarrow> nat" where
  "decimalValue ds = foldl (\<lambda>n c. 10 * n + digitValue c) 0 ds"

text \<open>
  \<^verbatim>\<open>from_chars\<close> for an unsigned 32-bit target (the C++ standard's
  \<^verbatim>\<open>std::from_chars\<close>, which \<^verbatim>\<open>celestia::compat::from_chars\<close> stands for): the longest
  run of decimal digits is read, with no sign and no leading white space. No digit is
  \<^verbatim>\<open>invalid_argument\<close>, a value that does not fit 32 bits is
  \<^verbatim>\<open>result_out_of_range\<close>; both are \<open>None\<close> here, since every caller only tests
  \<^verbatim>\<open>ec == std::errc{}\<close>. On success the value and the unread rest are returned.
\<close>

definition from_chars :: "string \<Rightarrow> (IndexNumber \<times> string) option" where
  "from_chars s =
     (let ds = takeWhile isDigit s; rest = dropWhile isDigit s in
      if ds = [] then None
      else if decimalValue ds \<ge> 2 ^ 32 then None
      else Some (of_nat (decimalValue ds), rest))"

text \<open>
  Modelled from the spec: \<^verbatim>\<open>compareIgnoringCase(name, prefix, n)\<close> of
  \<^verbatim>\<open>celutil/stringutils.h\<close> is not among the sources; the specification describes each
  grammar as a "case-insensitive literal prefix". The result \<open>True\<close> stands for the
  return value \<open>0\<close>.
\<close>

definition compareIgnoringCaseEq :: "string \<Rightarrow> string \<Rightarrow> nat \<Rightarrow> bool" where
  "compareIgnoringCaseEq name prefix n =
     (map toUpper (take n name) = map toUpper (take n prefix))"

definition TychoCatalogPrefix :: string where
  "TychoCatalogPrefix = ''TYC ''"

definition HIPPARCOSCatalogPrefix :: string where
  "HIPPARCOSCatalogPrefix = ''HIP ''"

definition HDCatalogPrefix :: string where
  "HDCatalogPrefix = ''HD ''"

definition SAOCatalogPrefix :: string where
  "SAOCatalogPrefix = ''SAO ''"

text \<open>
  \<^verbatim>\<open>name.find_first_not_of(" \t", pos)\<close> is \<^verbatim>\<open>npos\<close> exactly when nothing but blanks
  follows position \<open>pos\<close>; otherwise the text from the position found is
  \<open>dropWhile isBlank (drop pos name)\<close>.
\<close>

definition parseSimpleCatalogNumber :: "string \<Rightarrow> string \<Rightarrow> IndexNumber option" where
  "parseSimpleCatalogNumber name prefix =
     (if \<not> compareIgnoringCaseEq name prefix (length prefix) then None
      else let s = dropWhile isBlank (drop (length prefix) name) in
        if s = [] then None
        else case from_chars s of
               None \<Rightarrow> None
             | Some (catalogNumber, rest) \<Rightarrow>
                 if dropWhile isBlank rest = [] then Some catalogNumber else None)"

definition parseHIPPARCOSCatalogNumber :: "string \<Rightarrow> IndexNumber option" where
  "parseHIPPARCOSCatalogNumber name = parseSimpleCatalogNumber name HIPPARCOSCatalogPrefix"

definition parseHDCatalogNumber :: "string \<Rightarrow> IndexNumber option" where
  "parseHDCatalogNumber name = parseSimpleCatalogNumber name HDCatalogPrefix"

definition parseTychoCatalogNumber :: "string \<Rightarrow> IndexNumber option" where
  "parseTychoCatalogNumber name =
     (if \<not> compareIgnoringCaseEq name TychoCatalogPrefix (length TychoCatalogPrefix) then None
      else let s = dropWhile isBlank (drop (length TychoCatalogPrefix) name) in
        if s = [] then None
        else (case from_chars s of
          None \<Rightarrow> None
        | Some (tyc0, r0) \<Rightarrow>
            if tyc0 < TYC123_MIN \<or> tyc0 > TYC1_MAX \<or> r0 = [] \<or> hd r0 \<noteq> CHR ''-'' then None
            else (case from_chars (tl r0) of
              None \<Rightarrow> None
            | Some (tyc1, r1) \<Rightarrow>
                if tyc1 < TYC123_MIN \<or> tyc1 > TYC2_MAX \<or> r1 = [] \<or> hd r1 \<noteq> CHR ''-'' then None
                else (case from_chars (tl r1) of
                  None \<Rightarrow> None
                | Some (tyc2, r2) \<Rightarrow>
                    if tyc2 \<ge> TYC123_MIN
                       \<and> (tyc2 \<le> TYC3_MAX
                            \<or> (tyc2 = TDSC_TYC3_MAX \<and> tyc0 \<le> TDSC_TYC3_MAX_RANGE_TYC1))
                    then (if dropWhile isBlank r2 \<noteq> [] then None
                          else Some (tyc2 * TYC3_MULTIPLIER + tyc1 * TYC2_MULTIPLIER + tyc0))
                    else None))))"

definition parseCelestiaCatalogNumber :: "string \<Rightarrow> IndexNumber option" where
  "parseCelestiaCatalogNumber name =
     (if name = [] \<or> hd name \<noteq> CHR ''#'' then None
      else case from_chars (tl name) of
             None \<Rightarrow> None
           | Some (catalogNumber, rest) \<Rightarrow>
               if dropWhile isBlank rest = [] then Some catalogNumber else None)"

section \<open>Formatting catalog numbers\<close>

text \<open>\<^verbatim>\<open>fmt::format("{}", n)\<close> for an unsigned integer: its decimal digits.\<close>

definition digitChar :: "nat \<Rightarrow> char" where
  "digitChar d = ''0123456789'' ! d"

fun formatNat :: "nat \<Rightarrow> string" where
  "formatNat n =
     (if n < 10 then [digitChar n]
      else formatNat (n div 10) @ [digitChar (n mod 10)])"

declare formatNat.simps [simp del]

text \<open>
  \<^verbatim>\<open>StarDatabase::MAX_HIPPARCOS_NUMBER\<close> is declared in \<^verbatim>\<open>stardb.h\<close>, which is not among
  the sources: it is the parameter \<open>maxHip\<close>.
\<close>

definition catalogNumberToString :: "IndexNumber \<Rightarrow> IndexNumber \<Rightarrow> string" where
  "catalogNumberToString maxHip catalogNumber =
     (if catalogNumber \<le> maxHip then ''HIP '' @ formatNat (unat catalogNumber)
      else
        let tyc3 = catalogNumber div TYC3_MULTIPLIER;
            c1 = catalogNumber - tyc3 * TYC3_MULTIPLIER;
            tyc2 = c1 div TYC2_MULTIPLIER;
            c2 = c1 - tyc2 * TYC2_MULTIPLIER;
            tyc1 = c2
        in ''TYC '' @ formatNat (unat tyc1) @ ''-'' @ formatNat (unat tyc2)
             @ ''-'' @ formatNat (unat tyc3))"

section \<open>Stars and the database\<close>

text \<open>
  Values of the C++ types \<^verbatim>\<open>float\<close> and \<^verbatim>\<open>double\<close> are modelled as real numbers: the
  order of the operations and the branches taken are those of the source, the rounding
  of each operation is not modelled.
\<close>

type_synonym vec3 = "real \<times> real \<times> real"

definition norm3 :: "vec3 \<Rightarrow> real" where
  \<comment> \<open>\<^verbatim>\<open>Eigen::Vector3f::norm()\<close>\<close>
  "norm3 v = (case v of (x, y, z) \<Rightarrow> sqrt (x * x + y * y + z * z))"

datatype Knowledge = KnowTexture | KnowRotation | KnowRadius

text \<open>
  \<^verbatim>\<open>StarDetails\<close> and \<^verbatim>\<open>Star\<close> are declared in \<^verbatim>\<open>star.h\<close>, which is not among the
  sources. The records hold the fields that \<^verbatim>\<open>stardb.cpp\<close> reads and writes through
  their accessors. A star owns its details record by value; \<open>shared\<close> tells whether the
  record is the one shared by all stars of a spectral class. Texture and geometry
  handles are the resource names, orbits and rotation models are opaque handles.
\<close>

record StarDetails =
  shared :: bool
  getSpectralType :: string
  getTemperature :: real
  getBolometricCorrection :: real
  getTexture :: string
  getGeometry :: string
  getEllipsoidSemiAxes :: vec3
  getRadius :: real
  getKnowledge :: "Knowledge set"
  getOrbit :: "nat option"
  getRotationModel :: "nat option"
  getInfoURL :: string
  getVisibility :: bool

text \<open>
  Modelled from the spec: \<^verbatim>\<open>StarDetails::clone\<close> is not among the sources; a shared
  classification record "must first be cloned into an exclusively-owned copy".
\<close>

definition clone :: "StarDetails \<Rightarrow> StarDetails" where
  "clone d = d\<lparr>shared := False\<rparr>"

text \<open>
  A \<^verbatim>\<open>Star*\<close> is the position of the star in the array it points into
  (\<^verbatim>\<open>unsortedStars\<close> while loading, \<^verbatim>\<open>stars\<close> after \<^verbatim>\<open>finish\<close>).
  Modelled from the spec: an entry carries "an optional back-reference to an orbit
  barycenter entry and a forward list of entries orbiting it", the fields behind
  \<^verbatim>\<open>setOrbitBarycenter\<close> and \<^verbatim>\<open>addOrbitingStar\<close>.
\<close>

record Star =
  getIndex :: IndexNumber
  getPosition :: vec3
  getAbsoluteMagnitude :: real
  getExtinction :: real
  getDetails :: "StarDetails option"
  getOrbitBarycenter :: "nat option"
  getOrbitingStars :: "nat list"
  getCategories :: "string list"

text \<open>
  An owning pointer to a heap object is null, points to a live object, or still holds
  the address of an object that \<^verbatim>\<open>delete\<close> has freed. \<^verbatim>\<open>delete\<close> of a null pointer
  does nothing; \<^verbatim>\<open>delete\<close> never changes the pointer itself.
\<close>

datatype 'a Ptr = Null | Live 'a | Freed

text \<open>
  What the model reports instead of undefined behaviour or an aborted process:
  reading through a pointer to a freed object, freeing an object twice, reading through
  a null pointer, and an \<^verbatim>\<open>assert\<close> that fails in a build that compiles assertions in.
\<close>

datatype Fault = UseAfterFree | DoubleFree | NullDereference | AssertionFailed

definition delete :: "'a Ptr \<Rightarrow> Fault + 'a Ptr" where
  "delete p = (case p of Null \<Rightarrow> Inr Null | Live x \<Rightarrow> Inr Freed | Freed \<Rightarrow> Inl DoubleFree)"

datatype LogLevel = LogError | LogWarn | LogInfo | LogDebug

text \<open>A log entry is the level and the format string; the arguments are not recorded.\<close>

type_synonym LogEntry = "LogLevel \<times> string"

text \<open>
  The fields \<^verbatim>\<open>catalogNumber\<close> and \<^verbatim>\<open>celCatalogNumber\<close> of a cross-index entry, and
  \<^verbatim>\<open>catNo\<close> and \<^verbatim>\<open>barycenterCatNo\<close> of a pending barycenter, carry a prefix here
  because the functions below use the same names for local variables.
\<close>

record CrossIndexEntry =
  ent_catalogNumber :: IndexNumber
  ent_celCatalogNumber :: IndexNumber

record BarycenterUsage =
  bc_catNo :: IndexNumber
  bc_barycenterCatNo :: IndexNumber

record StarDatabase =
  nStars :: nat
  unsortedStars :: "Star list"
  binFileCatalogNumberIndex :: "nat list Ptr"
  binFileStarCount :: nat
  stcFileCatalogNumberIndex :: "IndexNumber \<rightharpoonup> nat"
  nextAutoCatalogNumber :: IndexNumber
  barycenters :: "BarycenterUsage list"
  stars :: "Star list"
  catalogNumberIndex :: "nat list"
  crossIndexes :: "CrossIndexEntry list Ptr list"
  namesDB :: "(IndexNumber \<times> string) list option"
  logged :: "LogEntry list"

definition logMsg :: "LogLevel \<Rightarrow> string \<Rightarrow> StarDatabase \<Rightarrow> StarDatabase" where
  "logMsg lvl msg db = db\<lparr>logged := logged db @ [(lvl, msg)]\<rparr>"

text \<open>
  The external catalogs. \<^verbatim>\<open>enum Catalog\<close> is declared in \<^verbatim>\<open>stardb.h\<close>, which is not among
  the sources; a catalog is the number its enumerator casts to. Nothing below depends
  on the two values but that they differ.
\<close>

type_synonym Catalog = nat

definition HenryDraper :: Catalog where
  "HenryDraper = 0"

definition SAO :: Catalog where
  "SAO = 2"

section \<open>Collaborators\<close>

text \<open>
  Modelled from the spec: the property-list parser is a collaborator "producing an
  abstract key-value property map per block", read through "typed accessors (angle,
  length-with-unit-conversion, vector, string, boolean, number) with missing key
  returning an explicit absence". \<^verbatim>\<open>Hash\<close> and \<^verbatim>\<open>Value\<close> are not among the sources. A
  number stored under a key is taken to be in the accessor's default unit already.
\<close>

datatype Value =
    NumberValue real
  | StringValue string
  | VectorValue vec3
  | BooleanValue bool
  | HashValue "string \<Rightarrow> Value option"

type_synonym Hash = "string \<Rightarrow> Value option"

datatype DataDisposition = Add | Replace | Modify

text \<open>
  Everything \<^verbatim>\<open>stardb.cpp\<close> calls but does not define is a field of the environment:
  \<^item> \<open>NDEBUG\<close>: whether the build compiles \<^verbatim>\<open>assert\<close> out;
  \<^item> \<open>defaultStar\<close>: a default-constructed \<^verbatim>\<open>Star\<close>;
  \<^item> \<open>octreeOrder\<close>: the order in which \<^verbatim>\<open>DynamicStarOctree::rebuildAndSort\<close> writes
    the stars inserted into the octree;
  \<^item> \<open>starDetailsV1\<close>: \<^verbatim>\<open>StellarClass::unpackV1\<close> followed by
    \<^verbatim>\<open>StarDetails::GetStarDetails\<close> (\<open>None\<close> when either fails);
  \<^item> \<open>floatOfBits\<close>: the \<^verbatim>\<open>float\<close> with a given little-endian bit pattern;
  \<^item> \<open>spectralDetails\<close>: \<^verbatim>\<open>StellarClass::parse\<close> followed by
    \<^verbatim>\<open>StarDetails::GetStarDetails\<close>;
  \<^item> \<open>GetBarycenterDetails\<close>, \<open>CreateOrbit\<close>, \<open>CreateRotationModel\<close>,
    \<open>equatorialToCelestialCart\<close>, \<open>appToAbsMag\<close>, \<open>J2000Obliquity\<close>,
    \<open>DEG_PER_HRA\<close>: the functions and constants of these names;
  \<^item> \<open>namesFindCatalogNumberByName\<close>: \<^verbatim>\<open>StarNameDatabase::findCatalogNumberByName\<close>
    on the names held by the name database;
  \<^item> \<open>loadCategories\<close>: \<^verbatim>\<open>Star::loadCategories\<close>, acting on the star's categories;
  \<^item> \<open>MaxCatalog\<close>: the number of external catalogs (the enumerator of this name);
  \<^item> \<open>firstAutoCatalogNumber\<close>: the initial value of \<^verbatim>\<open>nextAutoCatalogNumber\<close>.
\<close>

record Env =
  NDEBUG :: bool
  defaultStar :: Star
  octreeOrder :: "Star list \<Rightarrow> Star list"
  starDetailsV1 :: "16 word \<Rightarrow> StarDetails option"
  floatOfBits :: "32 word \<Rightarrow> real"
  spectralDetails :: "string \<Rightarrow> StarDetails option"
  GetBarycenterDetails :: StarDetails
  CreateOrbit :: "Hash \<Rightarrow> nat option"
  CreateRotationModel :: "Hash \<Rightarrow> nat option"
  equatorialToCelestialCart :: "real \<Rightarrow> real \<Rightarrow> real \<Rightarrow> vec3"
  appToAbsMag :: "real \<Rightarrow> real \<Rightarrow> real"
  J2000Obliquity :: real
  DEG_PER_HRA :: real
  namesFindCatalogNumberByName :: "(IndexNumber \<times> string) list \<Rightarrow> string \<Rightarrow> IndexNumber"
  loadCategories :: "Hash \<Rightarrow> DataDisposition \<Rightarrow> string list \<Rightarrow> string list"
  MaxCatalog :: nat
  firstAutoCatalogNumber :: IndexNumber

section \<open>Searching and sorting\<close>

text \<open>
  \<^verbatim>\<open>std::lower_bound\<close> over the range \<open>[first, first + len)\<close> of \<open>xs\<close> with the
  comparison \<open>cmp\<close>, as the standard library implements it: a binary search.
\<close>

function lower_bound :: "('a \<Rightarrow> 'b \<Rightarrow> bool) \<Rightarrow> 'a list \<Rightarrow> nat \<Rightarrow> nat \<Rightarrow> 'b \<Rightarrow> nat" where
  "lower_bound cmp xs first len v =
     (if len = 0 then first
      else let half = len div 2; mid = first + half in
        if cmp (xs ! mid) v then lower_bound cmp xs (mid + 1) (len - half - 1) v
        else lower_bound cmp xs first half v)"
  by pat_completeness auto
termination
  by (relation "measure (\<lambda>(cmp, xs, first, len, v). len)") auto

declare lower_bound.simps [simp del]

text \<open>
  \<^verbatim>\<open>std::sort\<close> by a key. The standard leaves the order of elements with equal keys
  open; the model takes the stable order of \<open>sort_key\<close>.
\<close>

definition stdSort :: "('a \<Rightarrow> IndexNumber) \<Rightarrow> 'a list \<Rightarrow> 'a list" where
  "stdSort key xs = sort_key key xs"

section \<open>Lookup by catalog number\<close>

text \<open>\<^verbatim>\<open>StarDatabase::find(catalogNumber)\<close>; \<open>None\<close> is the null pointer.\<close>

definition find_star :: "StarDatabase \<Rightarrow> IndexNumber \<Rightarrow> nat option" where
  "find_star db catalogNumber =
     (let pos = lower_bound (\<lambda>star catNum. getIndex (stars db ! star) < catNum)
                   (catalogNumberIndex db) 0 (nStars db) catalogNumber
      in if pos \<noteq> nStars db \<and> getIndex (stars db ! (catalogNumberIndex db ! pos)) = catalogNumber
         then Some (catalogNumberIndex db ! pos)
         else None)"

definition findWhileLoading :: "StarDatabase \<Rightarrow> IndexNumber \<Rightarrow> Fault + nat option" where
  "findWhileLoading db catalogNumber =
     (let stc = stcFileCatalogNumberIndex db catalogNumber in
      case binFileCatalogNumberIndex db of
        Null \<Rightarrow> Inr stc
      | Freed \<Rightarrow> Inl UseAfterFree
      | Live idx \<Rightarrow>
          (let pos = lower_bound (\<lambda>star catNum. getIndex (unsortedStars db ! star) < catNum)
                        idx 0 (binFileStarCount db) catalogNumber
           in if pos \<noteq> binFileStarCount db
                 \<and> getIndex (unsortedStars db ! (idx ! pos)) = catalogNumber
              then Inr (Some (idx ! pos))
              else Inr stc))"

section \<open>Input streams\<close>

text \<open>
  A \<^verbatim>\<open>std::istream\<close>: the bytes not yet read, whether the device under it fails, and
  the \<^verbatim>\<open>badbit\<close>. A read of \<open>n\<close> bytes is good when \<open>n\<close> bytes are left; when fewer are
  left it delivers them (\<^verbatim>\<open>gcount\<close> is their number) and sets \<^verbatim>\<open>eofbit\<close> and
  \<^verbatim>\<open>failbit\<close>; on a failing device, or on a stream that is bad already, it delivers
  nothing and \<^verbatim>\<open>badbit\<close> is set. No function below reads again after a read that was
  not good.
\<close>

type_synonym byte = "8 word"

record istream =
  content :: "byte list"
  deviceFails :: bool
  badbit :: bool

datatype ReadResult = ReadGood "byte list" | ReadEof "byte list" | ReadBad

definition readBytes :: "nat \<Rightarrow> istream \<Rightarrow> ReadResult \<times> istream" where
  "readBytes n inp =
     (if deviceFails inp \<or> badbit inp then (ReadBad, inp\<lparr>badbit := True\<rparr>)
      else if n \<le> length (content inp)
        then (ReadGood (take n (content inp)), inp\<lparr>content := drop n (content inp)\<rparr>)
        else (ReadEof (content inp), inp\<lparr>content := []\<rparr>))"

text \<open>
  \<^verbatim>\<open>memcpy\<close> out of the buffer followed by \<^verbatim>\<open>LE_TO_CPU_INT16\<close> or \<^verbatim>\<open>LE_TO_CPU_INT32\<close>:
  the value of the bytes in little-endian order.
\<close>

definition le16 :: "byte list \<Rightarrow> 16 word" where
  "le16 bs = of_nat (unat (bs ! 0) + 256 * unat (bs ! 1))"

definition le32 :: "byte list \<Rightarrow> 32 word" where
  "le32 bs = of_nat (unat (bs ! 0) + 256 * unat (bs ! 1) + 65536 * unat (bs ! 2)
                     + 16777216 * unat (bs ! 3))"

definition bytesOf :: "string \<Rightarrow> byte list" where
  "bytesOf s = map (\<lambda>c. of_nat (of_char c)) s"

definition STARSDAT_MAGIC :: "byte list" where
  "STARSDAT_MAGIC = bytesOf ''CELSTARS''"

definition CROSSINDEX_MAGIC :: "byte list" where
  "CROSSINDEX_MAGIC = bytesOf ''CELINDEX''"

section \<open>The binary star catalog\<close>

text \<open>
  The structures are packed. \<^verbatim>\<open>StarsDatHeader\<close> has 14 bytes: \<^verbatim>\<open>magic\<close> at offset 0,
  \<^verbatim>\<open>version\<close> at 8, \<^verbatim>\<open>counter\<close> at 10. \<^verbatim>\<open>StarsDatRecord\<close> has 20 bytes: \<^verbatim>\<open>catNo\<close> at
  offset 0, \<^verbatim>\<open>x\<close>, \<^verbatim>\<open>y\<close>, \<^verbatim>\<open>z\<close> at 4, 8 and 12, \<^verbatim>\<open>absMag\<close> at 16, \<^verbatim>\<open>spectralType\<close> at 18.
\<close>

definition sizeof_StarsDatHeader :: nat where
  "sizeof_StarsDatHeader = 8 + 2 + 4"

definition sizeof_StarsDatRecord :: nat where
  "sizeof_StarsDatRecord = 4 + 4 + 4 + 4 + 2 + 2"

definition BUFFER_RECORDS :: nat where
  "BUFFER_RECORDS = 4096 div sizeof_StarsDatRecord"

text \<open>
  The body of the \<^verbatim>\<open>for\<close> loop of \<^verbatim>\<open>loadBinary\<close> up to the test of \<^verbatim>\<open>details\<close>: the
  star decoded from the record at \<open>ptr\<close>, or \<open>None\<close> when its spectral type is bad.
\<close>

definition decodeStarsDatRecord :: "Env \<Rightarrow> byte list \<Rightarrow> Star option" where
  "decodeStarsDatRecord env ptr =
     (let catNo = le32 (drop 0 ptr);
          x = floatOfBits env (le32 (drop 4 ptr));
          y = floatOfBits env (le32 (drop 8 ptr));
          z = floatOfBits env (le32 (drop 12 ptr));
          absMag = le16 (drop 16 ptr);
          spectralType = le16 (drop 18 ptr)
      in case starDetailsV1 env spectralType of
           None \<Rightarrow> None
         | Some details \<Rightarrow>
             Some ((defaultStar env)\<lparr>getPosition := (x, y, z),
                     getAbsoluteMagnitude := real_of_int (sint absMag) / 256,
                     getDetails := Some details,
                     getIndex := catNo\<rparr>))"

text \<open>The \<^verbatim>\<open>for\<close> loop over the records of one buffer.\<close>

fun decodeRecords :: "Env \<Rightarrow> nat \<Rightarrow> byte list \<Rightarrow> StarDatabase \<Rightarrow> bool \<times> StarDatabase" where
  "decodeRecords env 0 ptr db = (True, db)"
| "decodeRecords env (Suc n) ptr db =
     (case decodeStarsDatRecord env ptr of
        None \<Rightarrow>
          (False, logMsg LogError ''Bad spectral type in star database, star #{}'' db)
      | Some star \<Rightarrow>
          decodeRecords env n (drop sizeof_StarsDatRecord ptr)
            (db\<lparr>unsortedStars := unsortedStars db @ [star], nStars := nStars db + 1\<rparr>))"

text \<open>The \<^verbatim>\<open>while (nStarsRemaining > 0)\<close> loop.\<close>

function readStars :: "Env \<Rightarrow> nat \<Rightarrow> istream \<Rightarrow> StarDatabase \<Rightarrow> bool \<times> istream \<times> StarDatabase" where
  "readStars env nStarsRemaining inp db =
     (if nStarsRemaining = 0 then (True, inp, db)
      else
        let recordsToRead = min BUFFER_RECORDS nStarsRemaining in
        case readBytes (sizeof_StarsDatRecord * recordsToRead) inp of
          (ReadGood buffer, inp') \<Rightarrow>
            (case decodeRecords env recordsToRead buffer db of
               (False, db') \<Rightarrow> (False, inp', db')
             | (True, db') \<Rightarrow> readStars env (nStarsRemaining - recordsToRead) inp' db')
        | (ReadEof buffer, inp') \<Rightarrow> (False, inp', db)
        | (ReadBad, inp') \<Rightarrow> (False, inp', db))"
  by pat_completeness auto
termination
  by (relation "measure (\<lambda>(env, nStarsRemaining, inp, db). nStarsRemaining)")
     (auto simp: BUFFER_RECORDS_def sizeof_StarsDatRecord_def)

declare readStars.simps [simp del]

text \<open>
  The temporary index of the stars by catalog number, built at the end of
  \<^verbatim>\<open>loadBinary\<close>: pointers to all of \<^verbatim>\<open>unsortedStars\<close>, sorted.
\<close>

definition buildBinFileIndex :: "StarDatabase \<Rightarrow> StarDatabase" where
  "buildBinFileIndex db =
     (if length (unsortedStars db) > 0
      then db\<lparr>binFileStarCount := length (unsortedStars db),
               binFileCatalogNumberIndex :=
                 Live (stdSort (\<lambda>i. getIndex (unsortedStars db ! i))
                         [0..<length (unsortedStars db)])\<rparr>
      else db)"

definition loadBinary :: "Env \<Rightarrow> istream \<Rightarrow> StarDatabase \<Rightarrow> bool \<times> istream \<times> StarDatabase" where
  "loadBinary env inp db =
     (case readBytes sizeof_StarsDatHeader inp of
        (ReadGood header, inp1) \<Rightarrow>
          if take 8 header \<noteq> STARSDAT_MAGIC then (False, inp1, db)
          else if le16 (drop 8 header) \<noteq> 0x0100 then (False, inp1, db)
          else
            (let nStarsInFile = le32 (drop 10 header) in
             case readStars env (unat nStarsInFile) inp1 db of
               (False, inp2, db2) \<Rightarrow> (False, inp2, db2)
             | (True, inp2, db2) \<Rightarrow>
                 if badbit inp2 then (False, inp2, db2)
                 else
                   (let db3 = logMsg LogDebug ''StarDatabase::read: nStars = {}, time = {} ms'' db2;
                        db4 = logMsg LogInfo ''{} stars in binary database'' db3
                    in (True, inp2, buildBinFileIndex db4)))
      | (ReadEof header, inp1) \<Rightarrow> (False, inp1, db)
      | (ReadBad, inp1) \<Rightarrow> (False, inp1, db))"

section \<open>Cross-index tables\<close>

text \<open>
  \<^verbatim>\<open>CrossIndexHeader\<close> has 10 bytes (\<^verbatim>\<open>magic\<close> at 0, \<^verbatim>\<open>version\<close> at 8),
  \<^verbatim>\<open>CrossIndexRecord\<close> has 8 bytes (\<^verbatim>\<open>catalogNumber\<close> at 0, \<^verbatim>\<open>celCatalogNumber\<close> at 4).
\<close>

definition sizeof_CrossIndexHeader :: nat where
  "sizeof_CrossIndexHeader = 8 + 2"

definition sizeof_CrossIndexRecord :: nat where
  "sizeof_CrossIndexRecord = 4 + 4"

definition XBUFFER_RECORDS :: nat where
  \<comment> \<open>the constant \<^verbatim>\<open>BUFFER_RECORDS\<close> local to \<^verbatim>\<open>loadCrossIndex\<close>\<close>
  "XBUFFER_RECORDS = 4096 div sizeof_CrossIndexRecord"

text \<open>The inner \<^verbatim>\<open>while (remainingRecords-- > 0)\<close> loop: the entries are appended.\<close>

fun decodeCrossIndexRecords :: "nat \<Rightarrow> byte list \<Rightarrow> CrossIndexEntry list \<Rightarrow> CrossIndexEntry list" where
  "decodeCrossIndexRecords 0 ptr xindex = xindex"
| "decodeCrossIndexRecords (Suc n) ptr xindex =
     decodeCrossIndexRecords n (drop sizeof_CrossIndexRecord ptr)
       (xindex @ [\<lparr>ent_catalogNumber = le32 (drop 0 ptr),
                   ent_celCatalogNumber = le32 (drop 4 ptr)\<rparr>])"

text \<open>
  The \<^verbatim>\<open>while (hasMoreRecords)\<close> loop. \<open>Inl msg\<close> is a failure with the message logged;
  the table built so far is deleted.
\<close>

function readCrossIndexRecords :: "istream \<Rightarrow> CrossIndexEntry list \<Rightarrow> (string + CrossIndexEntry list) \<times> istream" where
  "readCrossIndexRecords inp xindex =
     (case readBytes (sizeof_CrossIndexRecord * XBUFFER_RECORDS) inp of
        (ReadBad, inp') \<Rightarrow> (Inl ''Loading cross index failed'', inp')
      | (ReadEof buffer, inp') \<Rightarrow>
          (let bytesRead = length buffer;
               remainingRecords = bytesRead div sizeof_CrossIndexRecord
           in if bytesRead mod sizeof_CrossIndexRecord \<noteq> 0
              then (Inl ''Loading cross index failed - unexpected EOF'', inp')
              else (Inr (decodeCrossIndexRecords remainingRecords buffer xindex), inp'))
      | (ReadGood buffer, inp') \<Rightarrow>
          readCrossIndexRecords inp' (decodeCrossIndexRecords XBUFFER_RECORDS buffer xindex))"
  by pat_completeness auto
termination
  by (relation "measure (\<lambda>(inp, xindex). length (content inp))")
     (auto simp: readBytes_def XBUFFER_RECORDS_def sizeof_CrossIndexRecord_def
           split: if_splits)

declare readCrossIndexRecords.simps [simp del]

text \<open>
  \<^verbatim>\<open>loadCrossIndex\<close>. The table in the slot is deleted first, before the header is
  read; the slot is assigned only at the end.
\<close>

definition loadCrossIndex :: "Catalog \<Rightarrow> istream \<Rightarrow> StarDatabase \<Rightarrow> Fault + (bool \<times> istream \<times> StarDatabase)" where
  "loadCrossIndex catalog inp db =
     (if catalog \<ge> length (crossIndexes db) then Inr (False, inp, db)
      else case (if crossIndexes db ! catalog \<noteq> Null then delete (crossIndexes db ! catalog)
                 else Inr (crossIndexes db ! catalog)) of
        Inl f \<Rightarrow> Inl f
      | Inr p \<Rightarrow>
         (let db0 = db\<lparr>crossIndexes := (crossIndexes db)[catalog := p]\<rparr> in
          case readBytes sizeof_CrossIndexHeader inp of
            (ReadGood header, inp1) \<Rightarrow>
              if take 8 header \<noteq> CROSSINDEX_MAGIC
              then Inr (False, inp1, logMsg LogError ''Bad header for cross index'' db0)
              else if le16 (drop 8 header) \<noteq> 0x0100
              then Inr (False, inp1, logMsg LogError ''Bad version for cross index'' db0)
              else
                (case readCrossIndexRecords inp1 [] of
                   (Inl msg, inp2) \<Rightarrow> Inr (False, inp2, logMsg LogError msg db0)
                 | (Inr xindex, inp2) \<Rightarrow>
                     (let db1 = logMsg LogDebug ''Loaded xindex in {} ms'' db0
                      in Inr (True, inp2,
                              db1\<lparr>crossIndexes :=
                                    (crossIndexes db1)[catalog :=
                                       Live (stdSort ent_catalogNumber xindex)]\<rparr>)))
          | (ReadEof header, inp1) \<Rightarrow> Inr (False, inp1, db0)
          | (ReadBad, inp1) \<Rightarrow> Inr (False, inp1, db0)))"

text \<open>\<^verbatim>\<open>searchCrossIndexForCatalogNumber\<close>: the table of the slot is read through its pointer.\<close>

definition searchCrossIndexForCatalogNumber :: "StarDatabase \<Rightarrow> Catalog \<Rightarrow> IndexNumber \<Rightarrow> Fault + IndexNumber" where
  "searchCrossIndexForCatalogNumber db catalog number =
     (if catalog \<ge> length (crossIndexes db) then Inr InvalidIndex
      else case crossIndexes db ! catalog of
        Null \<Rightarrow> Inr InvalidIndex
      | Freed \<Rightarrow> Inl UseAfterFree
      | Live xindex \<Rightarrow>
          (let iter = lower_bound (\<lambda>e n. ent_catalogNumber e < n) xindex 0 (length xindex) number
           in if iter = length xindex \<or> ent_catalogNumber (xindex ! iter) \<noteq> number
              then Inr InvalidIndex
              else Inr (ent_celCatalogNumber (xindex ! iter))))"

text \<open>\<^verbatim>\<open>crossIndex\<close>: the reverse lookup, a linear search.\<close>

definition crossIndex :: "StarDatabase \<Rightarrow> Catalog \<Rightarrow> IndexNumber \<Rightarrow> Fault + IndexNumber" where
  "crossIndex db catalog celCatalogNumber =
     (if catalog \<ge> length (crossIndexes db) then Inr InvalidIndex
      else case crossIndexes db ! catalog of
        Null \<Rightarrow> Inr InvalidIndex
      | Freed \<Rightarrow> Inl UseAfterFree
      | Live xindex \<Rightarrow>
          (case List.find (\<lambda>e. celCatalogNumber = ent_celCatalogNumber e) xindex of
             Some e \<Rightarrow> Inr (ent_catalogNumber e)
           | None \<Rightarrow> Inr InvalidIndex))"

section \<open>Resolving names to catalog numbers\<close>

definition findCatalogNumberByName :: "Env \<Rightarrow> StarDatabase \<Rightarrow> string \<Rightarrow> Fault + IndexNumber" where
  "findCatalogNumberByName env db name =
     (if name = [] then Inr InvalidIndex
      else
        let byName = (case namesDB db of
                        None \<Rightarrow> InvalidIndex
                      | Some names \<Rightarrow> namesFindCatalogNumberByName env names name)
        in if byName \<noteq> InvalidIndex then Inr byName
           else (case parseCelestiaCatalogNumber name of
             Some n \<Rightarrow> Inr n
           | None \<Rightarrow>
              (case parseHIPPARCOSCatalogNumber name of
                 Some n \<Rightarrow> Inr n
               | None \<Rightarrow>
                  (case parseTychoCatalogNumber name of
                     Some n \<Rightarrow> Inr n
                   | None \<Rightarrow>
                      (case parseHDCatalogNumber name of
                         Some n \<Rightarrow> searchCrossIndexForCatalogNumber db HenryDraper n
                       | None \<Rightarrow>
                          (case parseSimpleCatalogNumber name SAOCatalogPrefix of
                             Some n \<Rightarrow> searchCrossIndexForCatalogNumber db SAO n
                           | None \<Rightarrow> Inr InvalidIndex))))))"

section \<open>Textual star definitions\<close>

definition getNumber :: "Hash \<Rightarrow> string \<Rightarrow> real option" where
  "getNumber h k = (case h k of Some (NumberValue x) \<Rightarrow> Some x | _ \<Rightarrow> None)"

definition getString :: "Hash \<Rightarrow> string \<Rightarrow> string option" where
  "getString h k = (case h k of Some (StringValue x) \<Rightarrow> Some x | _ \<Rightarrow> None)"

definition getLengthVector :: "Hash \<Rightarrow> string \<Rightarrow> vec3 option" where
  "getLengthVector h k = (case h k of Some (VectorValue v) \<Rightarrow> Some v | _ \<Rightarrow> None)"

definition getAngle :: "Hash \<Rightarrow> string \<Rightarrow> real option" where
  "getAngle h k = getNumber h k"

definition getLength :: "Hash \<Rightarrow> string \<Rightarrow> real option" where
  "getLength h k = getNumber h k"

text \<open>
  \<^verbatim>\<open>static_cast<AstroCatalog::IndexNumber>\<close> of a \<^verbatim>\<open>double\<close>: the fractional part is
  discarded, so the value is truncated toward zero (\<open>-0.5\<close> gives 0). When the truncated
  value is not below \<open>2\<^sup>3\<^sup>2\<close> or is negative, the conversion is undefined in C++; the
  model then takes the value modulo \<open>2\<^sup>3\<^sup>2\<close>.
\<close>

definition truncateToZero :: "real \<Rightarrow> int" where
  "truncateToZero x = (if 0 \<le> x then \<lfloor>x\<rfloor> else \<lceil>x\<rceil>)"

definition toIndexNumber :: "real \<Rightarrow> IndexNumber" where
  "toIndexNumber x = word_of_int (truncateToZero x)"

definition getIndexNumber :: "Hash \<Rightarrow> string \<Rightarrow> IndexNumber option" where
  \<comment> \<open>\<^verbatim>\<open>getNumber<AstroCatalog::IndexNumber>\<close>\<close>
  "getIndexNumber h k = map_option toIndexNumber (getNumber h k)"

record CustomStarDetails =
  hasCustomDetails :: bool
  modelName :: "string option"
  textureName :: "string option"
  orbit :: "nat option"
  rm :: "nat option"
  semiAxes :: "vec3 option"
  radius :: "real option"
  temperature :: real
  bolometricCorrection :: "real option"
  infoURL :: "string option"

definition parseCustomStarDetails :: "Env \<Rightarrow> Hash \<Rightarrow> CustomStarDetails" where
  "parseCustomStarDetails env starData =
     (let modelName' = getString starData ''Mesh'';
          textureName' = getString starData ''Texture'';
          orbit' = CreateOrbit env starData;
          rm' = CreateRotationModel env starData;
          semiAxes' = getLengthVector starData ''SemiAxes'';
          radius' = getLength starData ''Radius'';
          temperature' = (case getNumber starData ''Temperature'' of Some t \<Rightarrow> t | None \<Rightarrow> 0);
          bolometricCorrection' = getNumber starData ''BoloCorrection'';
          infoURL' = getString starData ''InfoURL''
      in \<lparr>hasCustomDetails =
             (modelName' \<noteq> None \<or> textureName' \<noteq> None \<or> orbit' \<noteq> None \<or> rm' \<noteq> None
              \<or> semiAxes' \<noteq> None \<or> radius' \<noteq> None \<or> temperature' > 0
              \<or> bolometricCorrection' \<noteq> None \<or> infoURL' \<noteq> None),
          modelName = modelName', textureName = textureName', orbit = orbit', rm = rm',
          semiAxes = semiAxes', radius = radius', temperature = temperature',
          bolometricCorrection = bolometricCorrection', infoURL = infoURL'\<rparr>)"

text \<open>
  \<^verbatim>\<open>modifyStarDetails\<close>. The \<^verbatim>\<open>assert\<close> on the existing details guards the reads
  through the pointer that follow it.
\<close>

definition modifyStarDetails :: "Env \<Rightarrow> Star \<Rightarrow> StarDetails option \<Rightarrow> bool \<Rightarrow> Fault + Star" where
  "modifyStarDetails env star referenceDetails hasCustom =
     (case getDetails star of
        None \<Rightarrow> Inl (if NDEBUG env then NullDereference else AssertionFailed)
      | Some existingDetails \<Rightarrow>
          if shared existingDetails then
            (if hasCustom then
               Inr (star\<lparr>getDetails :=
                      Some (case referenceDetails of
                              None \<Rightarrow> clone existingDetails
                            | Some r \<Rightarrow> clone r)\<rparr>)
             else (case referenceDetails of
                     None \<Rightarrow> Inr star
                   | Some r \<Rightarrow> Inr (star\<lparr>getDetails := Some r\<rparr>)))
          else (case referenceDetails of
                  None \<Rightarrow> Inr star
                | Some r \<Rightarrow>
                    Inr (star\<lparr>getDetails := Some (existingDetails
                      \<lparr>getSpectralType := getSpectralType r,
                       getTemperature := getTemperature r,
                       getBolometricCorrection := getBolometricCorrection r,
                       getTexture := (if KnowTexture \<notin> getKnowledge existingDetails
                                      then getTexture r else getTexture existingDetails),
                       getRotationModel := (if KnowRotation \<notin> getKnowledge existingDetails
                                            then getRotationModel r
                                            else getRotationModel existingDetails),
                       getVisibility := getVisibility r\<rparr>)\<rparr>)))"

text \<open>
  The lines of \<^verbatim>\<open>applyOrbit\<close> that read \<^verbatim>\<open>OrbitBarycenter\<close>: \<open>None\<close> when no barycenter
  is defined, otherwise \<^verbatim>\<open>barycenterCatNo\<close>, from the name if the property is a string
  and from the number if it is one.
\<close>

definition orbitBarycenterNumber :: "Env \<Rightarrow> StarDatabase \<Rightarrow> Hash \<Rightarrow> Fault + IndexNumber option" where
  "orbitBarycenterNumber env db starData =
     (case getString starData ''OrbitBarycenter'' of
        Some barycenterName \<Rightarrow>
          (case findCatalogNumberByName env db barycenterName of
             Inl f \<Rightarrow> Inl f
           | Inr n \<Rightarrow> Inr (Some n))
      | None \<Rightarrow> Inr (getIndexNumber starData ''OrbitBarycenter''))"

text \<open>
  \<^verbatim>\<open>applyOrbit\<close>. The result holds the return value, the details record as mutated,
  the database (pending barycenters and log) and \<^verbatim>\<open>barycenterPosition\<close>.
\<close>

definition applyOrbit :: "Env \<Rightarrow> StarDatabase \<Rightarrow> IndexNumber \<Rightarrow> Hash \<Rightarrow> StarDetails \<Rightarrow> CustomStarDetails \<Rightarrow> Fault + (bool \<times> StarDetails \<times> StarDatabase \<times> vec3 option)" where
  "applyOrbit env db catalogNumber starData details customDetails =
     (case orbit customDetails of
        None \<Rightarrow> Inr (True, details, db, None)
      | Some orb \<Rightarrow>
         (let details1 = details\<lparr>getOrbit := Some orb\<rparr>
          in case orbitBarycenterNumber env db starData of
               Inl f \<Rightarrow> Inl f
             | Inr None \<Rightarrow> Inr (True, details1, db, None)
             | Inr (Some barycenterCatNo) \<Rightarrow>
                 if barycenterCatNo \<noteq> InvalidIndex then
                   (let db1 = db\<lparr>barycenters := barycenters db
                                 @ [\<lparr>bc_catNo = catalogNumber,
                                      bc_barycenterCatNo = barycenterCatNo\<rparr>]\<rparr>
                    in case findWhileLoading db1 barycenterCatNo of
                         Inl f \<Rightarrow> Inl f
                       | Inr (Some barycenter) \<Rightarrow>
                           Inr (True, details1, db1,
                                Some (getPosition (unsortedStars db1 ! barycenter)))
                       | Inr None \<Rightarrow>
                           Inr (False, details1,
                                logMsg LogError ''Barycenter {} does not exist.'' db1, None))
                 else Inr (False, details1,
                           logMsg LogError ''Barycenter {} does not exist.'' db, None)))"

definition applyCustomStarDetails :: "Env \<Rightarrow> StarDatabase \<Rightarrow> Star \<Rightarrow> IndexNumber \<Rightarrow> Hash \<Rightarrow> CustomStarDetails \<Rightarrow> Fault + (bool \<times> Star \<times> StarDatabase \<times> vec3 option)" where
  "applyCustomStarDetails env db star catalogNumber starData customDetails =
     (if \<not> hasCustomDetails customDetails then Inr (True, star, db, None)
      else case getDetails star of
        None \<Rightarrow> Inl NullDereference
      | Some details \<Rightarrow>
          if shared details \<and> \<not> NDEBUG env then Inl AssertionFailed
          else
            (let d1 = (case textureName customDetails of
                         None \<Rightarrow> details
                       | Some t \<Rightarrow> details\<lparr>getTexture := t,
                            getKnowledge := insert KnowTexture (getKnowledge details)\<rparr>);
                 d2 = (case modelName customDetails of
                         None \<Rightarrow> d1
                       | Some m \<Rightarrow> d1\<lparr>getGeometry := m\<rparr>);
                 d3 = (case semiAxes customDetails of
                         None \<Rightarrow> d2
                       | Some a \<Rightarrow> d2\<lparr>getEllipsoidSemiAxes := a\<rparr>);
                 d4 = (case radius customDetails of
                         None \<Rightarrow> d3
                       | Some r \<Rightarrow> d3\<lparr>getRadius := r,
                            getKnowledge := insert KnowRadius (getKnowledge d3)\<rparr>);
                 d5 = (if temperature customDetails > 0 then
                         (let d = d4\<lparr>getTemperature := temperature customDetails\<rparr> in
                          if bolometricCorrection customDetails = None then
                            (let logT = log 10 (temperature customDetails) - 4;
                                 bc = - 8.499 * logT ^ 4 + 13.421 * logT ^ 3
                                      - 8.131 * logT * logT - 3.901 * logT - 0.438
                             in d\<lparr>getBolometricCorrection := bc\<rparr>)
                          else d)
                       else d4);
                 d6 = (case bolometricCorrection customDetails of
                         None \<Rightarrow> d5
                       | Some b \<Rightarrow> d5\<lparr>getBolometricCorrection := b\<rparr>);
                 d7 = (case infoURL customDetails of
                         None \<Rightarrow> d6
                       | Some u \<Rightarrow> d6\<lparr>getInfoURL := u\<rparr>)
             in case applyOrbit env db catalogNumber starData d7 customDetails of
                  Inl f \<Rightarrow> Inl f
                | Inr (ok, d8, db', barycenterPosition) \<Rightarrow>
                    if \<not> ok then Inr (False, star\<lparr>getDetails := Some d8\<rparr>, db', barycenterPosition)
                    else
                      (let d9 = (case rm customDetails of
                                   None \<Rightarrow> d8
                                 | Some r \<Rightarrow> d8\<lparr>getRotationModel := Some r\<rparr>)
                       in Inr (True, star\<lparr>getDetails := Some d9\<rparr>, db', barycenterPosition))))"

definition createOrUpdateStarDetails :: "Env \<Rightarrow> StarDatabase \<Rightarrow> Star \<Rightarrow> DataDisposition \<Rightarrow> IndexNumber \<Rightarrow> Hash \<Rightarrow> bool \<Rightarrow> Fault + (bool \<times> Star \<times> StarDatabase \<times> vec3 option)" where
  "createOrUpdateStarDetails env db star disposition catalogNumber starData isBarycenter =
     (case (if isBarycenter then Inr (Some (GetBarycenterDetails env))
            else (case getString starData ''SpectralType'' of
                    Some spectralType \<Rightarrow>
                      (case spectralDetails env spectralType of
                         None \<Rightarrow> Inl ''Invalid star: bad spectral type.''
                       | Some d \<Rightarrow> Inr (Some d))
                  | None \<Rightarrow>
                      if disposition \<noteq> Modify
                      then Inl ''Invalid star: missing spectral type.''
                      else Inr None)) of
        Inl msg \<Rightarrow> Inr (False, star, logMsg LogError msg db, None)
      | Inr referenceDetails \<Rightarrow>
          (let customDetails = parseCustomStarDetails env starData in
           case (if disposition = Modify
                 then modifyStarDetails env star referenceDetails (hasCustomDetails customDetails)
                 else (case referenceDetails of
                         None \<Rightarrow> Inl NullDereference
                       | Some r \<Rightarrow>
                           Inr (star\<lparr>getDetails :=
                                  Some (if hasCustomDetails customDetails then clone r else r)\<rparr>))) of
             Inl f \<Rightarrow> Inl f
           | Inr star1 \<Rightarrow>
               applyCustomStarDetails env db star1 catalogNumber starData customDetails))"

text \<open>
  The library functions behind the conversion of an existing position to right
  ascension, declination and distance: \<^verbatim>\<open>Eigen::AngleAxis\<close> about the x axis,
  \<^verbatim>\<open>std::atan2\<close>, \<^verbatim>\<open>celmath::radToDeg\<close>, \<^verbatim>\<open>Vector3f::normalize\<close>.
\<close>

definition rotateX :: "real \<Rightarrow> vec3 \<Rightarrow> vec3" where
  "rotateX a v = (case v of (x, y, z) \<Rightarrow> (x, y * cos a - z * sin a, y * sin a + z * cos a))"

definition atan2 :: "real \<Rightarrow> real \<Rightarrow> real" where
  "atan2 y x = Arg (Complex x y)"

definition radToDeg :: "real \<Rightarrow> real" where
  "radToDeg r = r * 180 / pi"

definition normalize3 :: "vec3 \<Rightarrow> vec3" where
  "normalize3 v = (case v of (x, y, z) \<Rightarrow> (x / norm3 v, y / norm3 v, z / norm3 v))"

text \<open>
  The block of \<^verbatim>\<open>createStar\<close> under \<^verbatim>\<open>if (disposition == DataDisposition::Modify)\<close>:
  right ascension, declination and distance of a star at \<open>pos\<close>.
\<close>

definition existingCoordinates :: "Env \<Rightarrow> vec3 \<Rightarrow> real \<times> real \<times> real" where
  "existingCoordinates env pos =
     (case pos of (px, py, pz) \<Rightarrow>
        (let v = rotateX (J2000Obliquity env) (px, - pz, py);
             distance = norm3 v
         in if distance > 0
            then (case normalize3 v of (vx, vy, vz) \<Rightarrow>
                    (radToDeg (atan2 vy vx) / DEG_PER_HRA env, radToDeg (arcsin vz), distance))
            else (0, 0, distance)))"

text \<open>
  The part of \<^verbatim>\<open>createStar\<close> that computes the position (from the comment "Compute the
  position in rectangular coordinates" on). \<open>Inl msg\<close> is \<^verbatim>\<open>return false\<close> after the
  error \<open>msg\<close> has been logged.
\<close>

definition starPosition :: "Env \<Rightarrow> Star \<Rightarrow> DataDisposition \<Rightarrow> Hash \<Rightarrow> vec3 option \<Rightarrow> string + Star" where
  "starPosition env star disposition starData barycenterPosition =
     (case barycenterPosition of
        Some p \<Rightarrow> Inr (star\<lparr>getPosition := p\<rparr>)
      | None \<Rightarrow>
         (case getLengthVector starData ''Position'' of
            Some rectangularPos \<Rightarrow> Inr (star\<lparr>getPosition := rectangularPos\<rparr>)
          | None \<Rightarrow>
             (case (if disposition = Modify then existingCoordinates env (getPosition star)
                    else (0, 0, 0)) of
                (ra0, dec0, distance0) \<Rightarrow>
                  (let raValue = getAngle starData ''RA'';
                       decValue = getAngle starData ''Dec'';
                       dist = getLength starData ''Distance''
                   in if raValue = None \<and> disposition \<noteq> Modify
                        then Inl ''Invalid star: missing right ascension''
                      else if decValue = None \<and> disposition \<noteq> Modify
                        then Inl ''Invalid star: missing declination.''
                      else if dist = None \<and> disposition \<noteq> Modify
                        then Inl ''Invalid star: missing distance.''
                      else
                        (let ra = (case raValue of Some r \<Rightarrow> r | None \<Rightarrow> ra0);
                             dec = (case decValue of Some d \<Rightarrow> d | None \<Rightarrow> dec0);
                             distance = (case dist of Some d \<Rightarrow> d | None \<Rightarrow> distance0);
                             modifyPosition = (raValue \<noteq> None \<or> decValue \<noteq> None \<or> dist \<noteq> None)
                         in if modifyPosition
                            then Inr (star\<lparr>getPosition :=
                                        equatorialToCelestialCart env ra dec distance\<rparr>)
                            else Inr star)))))"

text \<open>
  The rest of \<^verbatim>\<open>createStar\<close>, from \<^verbatim>\<open>if (isBarycenter)\<close> on: the absolute magnitude
  and the extinction.
\<close>

definition starMagnitude :: "Env \<Rightarrow> Star \<Rightarrow> DataDisposition \<Rightarrow> Hash \<Rightarrow> bool \<Rightarrow> string + Star" where
  "starMagnitude env star disposition starData isBarycenter =
     (if isBarycenter then Inr (star\<lparr>getAbsoluteMagnitude := 30\<rparr>)
      else
        case (case getNumber starData ''AbsMag'' of
                Some m \<Rightarrow> Inr (Some m, True)
              | None \<Rightarrow>
                 (case getNumber starData ''AppMag'' of
                    Some appMag \<Rightarrow>
                      (let distance = norm3 (getPosition star) in
                       if distance < 1 / 100000
                       then Inl ''Invalid star: absolute (not apparent) magnitude must be specified for star near origin''
                       else Inr (Some (appToAbsMag env appMag distance), False))
                  | None \<Rightarrow>
                      if disposition \<noteq> Modify then Inl ''Invalid star: missing magnitude.''
                      else Inr (None, False))) of
          Inl msg \<Rightarrow> Inl msg
        | Inr (magnitude, absoluteDefined) \<Rightarrow>
           (let star1 = (case magnitude of
                           Some m \<Rightarrow> star\<lparr>getAbsoluteMagnitude := m\<rparr>
                         | None \<Rightarrow> star)
            in case getNumber starData ''Extinction'' of
                 None \<Rightarrow> Inr star1
               | Some extinction \<Rightarrow>
                  (let distance = norm3 (getPosition star1);
                       star2 = (if distance \<noteq> 0
                                then star1\<lparr>getExtinction := extinction / distance\<rparr>
                                else star1);
                       extinction' = (if distance \<noteq> 0 then extinction else 0)
                   in if \<not> absoluteDefined
                      then Inr (star2\<lparr>getAbsoluteMagnitude :=
                                  getAbsoluteMagnitude star2 - extinction'\<rparr>)
                      else Inr star2)))"

text \<open>
  \<^verbatim>\<open>createStar\<close>: the return value, the star as mutated (also when the function
  returns false) and the database.
\<close>

definition createStar :: "Env \<Rightarrow> StarDatabase \<Rightarrow> Star \<Rightarrow> DataDisposition \<Rightarrow> IndexNumber \<Rightarrow> Hash \<Rightarrow> bool \<Rightarrow> Fault + (bool \<times> Star \<times> StarDatabase)" where
  "createStar env db star disposition catalogNumber starData isBarycenter =
     (case createOrUpdateStarDetails env db star disposition catalogNumber starData isBarycenter of
        Inl f \<Rightarrow> Inl f
      | Inr (ok, star1, db1, barycenterPosition) \<Rightarrow>
          if \<not> ok then Inr (False, star1, db1)
          else
            (let star2 = (if disposition \<noteq> Modify then star1\<lparr>getIndex := catalogNumber\<rparr>
                          else star1)
             in case starPosition env star2 disposition starData barycenterPosition of
                  Inl msg \<Rightarrow> Inr (False, star2, logMsg LogError msg db1)
                | Inr star3 \<Rightarrow>
                    (case starMagnitude env star3 disposition starData isBarycenter of
                       Inl msg \<Rightarrow> Inr (False, star3, logMsg LogError msg db1)
                     | Inr star4 \<Rightarrow> Inr (True, star4, db1))))"

section \<open>Loading textual star definitions\<close>

text \<open>
  The tokenizer and the parser are collaborators. One block is what they deliver for one
  definition \<^verbatim>\<open>[disposition] [object type] [catalog number] [name] { ... }\<close>: the
  disposition name if one of the three stands first, the name token after it if there
  is one, the number and the string token if present, whether \<^verbatim>\<open>TokenBeginGroup\<close>
  follows, and the hash \<^verbatim>\<open>parser.readValue().getHash()\<close> yields (\<open>None\<close> is the null
  pointer).
\<close>

record StcBlock =
  dispositionToken :: "DataDisposition option"
  objectTypeToken :: "string option"
  numberToken :: "real option"
  stringToken :: "string option"
  beginGroup :: bool
  groupHash :: "Hash option"

text \<open>
  The \<^verbatim>\<open>switch (disposition)\<close> of \<^verbatim>\<open>load\<close>: the catalog number of the definition, the
  existing star found for it (\<open>None\<close> is the null pointer) and the database, whose next
  automatic catalog number may have been taken. The result \<open>Inr None\<close> is the
  \<^verbatim>\<open>return false\<close> of the \<^verbatim>\<open>Add\<close> case.
\<close>

definition selectStar :: "Env \<Rightarrow> DataDisposition \<Rightarrow> bool \<Rightarrow> IndexNumber \<Rightarrow> string \<Rightarrow> StarDatabase \<Rightarrow> Fault + (IndexNumber \<times> nat option \<times> StarDatabase) option" where
  "selectStar env disposition isStar catalogNumber firstName db =
     (case disposition of
        Add \<Rightarrow>
          if catalogNumber = InvalidIndex then
            (if \<not> isStar \<and> firstName = [] then Inr None
             else Inr (Some (nextAutoCatalogNumber db, None,
                             db\<lparr>nextAutoCatalogNumber := nextAutoCatalogNumber db - 1\<rparr>)))
          else (case findWhileLoading db catalogNumber of
                  Inl f \<Rightarrow> Inl f
                | Inr star \<Rightarrow> Inr (Some (catalogNumber, star, db)))
      | Replace \<Rightarrow>
          (case (if catalogNumber = InvalidIndex \<and> firstName \<noteq> []
                 then findCatalogNumberByName env db firstName
                 else Inr catalogNumber) of
             Inl f \<Rightarrow> Inl f
           | Inr catalogNumber1 \<Rightarrow>
               if catalogNumber1 = InvalidIndex
               then Inr (Some (nextAutoCatalogNumber db, None,
                               db\<lparr>nextAutoCatalogNumber := nextAutoCatalogNumber db - 1\<rparr>))
               else (case findWhileLoading db catalogNumber1 of
                       Inl f \<Rightarrow> Inl f
                     | Inr star \<Rightarrow> Inr (Some (catalogNumber1, star, db))))
      | Modify \<Rightarrow>
          (case (if catalogNumber = InvalidIndex \<and> firstName \<noteq> []
                 then findCatalogNumberByName env db firstName
                 else Inr catalogNumber) of
             Inl f \<Rightarrow> Inl f
           | Inr catalogNumber1 \<Rightarrow>
               if catalogNumber1 \<noteq> InvalidIndex
               then (case findWhileLoading db catalogNumber1 of
                       Inl f \<Rightarrow> Inl f
                     | Inr star \<Rightarrow> Inr (Some (catalogNumber1, star, db)))
               else Inr (Some (catalogNumber1, None, db))))"

text \<open>The names of a definition, delimited by \<^verbatim>\<open>:\<close>.\<close>

fun splitNames :: "string \<Rightarrow> string \<Rightarrow> string list" where
  "splitNames acc [] = [acc]"
| "splitNames acc (c # cs) =
     (if c = CHR '':'' then acc # splitNames [] cs else splitNames (acc @ [c]) cs)"

text \<open>
  Modelled from the spec: \<^verbatim>\<open>StarNameDatabase::erase\<close> and \<^verbatim>\<open>add\<close> are not among the
  sources. "Many names may map to one catalog number", iterated "in an order
  determined by insertion"; \<^verbatim>\<open>add\<close> skips empty names (the comment in \<^verbatim>\<open>load\<close>).
\<close>

definition namesErase :: "IndexNumber \<Rightarrow> (IndexNumber \<times> string) list \<Rightarrow> (IndexNumber \<times> string) list" where
  "namesErase catalogNumber names = filter (\<lambda>e. fst e \<noteq> catalogNumber) names"

definition namesAdd :: "IndexNumber \<Rightarrow> string \<Rightarrow> (IndexNumber \<times> string) list \<Rightarrow> (IndexNumber \<times> string) list" where
  "namesAdd catalogNumber name names =
     (if name = [] then names else names @ [(catalogNumber, name)])"

definition updateNames :: "IndexNumber \<Rightarrow> string \<Rightarrow> StarDatabase \<Rightarrow> StarDatabase" where
  "updateNames catalogNumber objName db =
     (case namesDB db of
        None \<Rightarrow> db
      | Some names \<Rightarrow>
          if objName = [] then db
          else db\<lparr>namesDB :=
                 Some (foldl (\<lambda>ns starName. namesAdd catalogNumber starName ns)
                         (namesErase catalogNumber names) (splitNames [] objName))\<rparr>)"

text \<open>
  The catalog number, the names and the first name that \<^verbatim>\<open>load\<close> takes from the
  tokens of a block, and the disposition (\<^verbatim>\<open>Add\<close> when none is written).
\<close>

definition blockDisposition :: "StcBlock \<Rightarrow> DataDisposition" where
  "blockDisposition blk = (case dispositionToken blk of None \<Rightarrow> Add | Some d \<Rightarrow> d)"

definition blockCatalogNumber :: "StcBlock \<Rightarrow> IndexNumber" where
  "blockCatalogNumber blk =
     (case numberToken blk of None \<Rightarrow> InvalidIndex | Some x \<Rightarrow> toIndexNumber x)"

definition blockObjName :: "StcBlock \<Rightarrow> string" where
  "blockObjName blk = (case stringToken blk of None \<Rightarrow> [] | Some n \<Rightarrow> n)"

definition blockFirstName :: "StcBlock \<Rightarrow> string" where
  "blockFirstName blk = takeWhile (\<lambda>c. c \<noteq> CHR '':'') (blockObjName blk)"

definition blockIsStar :: "StcBlock \<Rightarrow> bool option" where
  \<comment> \<open>\<open>None\<close>: an unrecognized object type\<close>
  "blockIsStar blk =
     (case objectTypeToken blk of
        None \<Rightarrow> Some True
      | Some t \<Rightarrow> if t = ''Star'' then Some True
                  else if t = ''Barycenter'' then Some False
                  else None)"

text \<open>
  One turn of the \<^verbatim>\<open>while\<close> loop of \<^verbatim>\<open>load\<close>. The result \<open>Inr (False, db)\<close> is
  \<^verbatim>\<open>return false\<close>; \<open>Inr (True, db)\<close> goes on to the next definition. An existing star
  is mutated in place, also when \<^verbatim>\<open>createStar\<close> fails.
\<close>

definition loadBlock :: "Env \<Rightarrow> StcBlock \<Rightarrow> StarDatabase \<Rightarrow> Fault + (bool \<times> StarDatabase)" where
  "loadBlock env blk db =
     (let disposition = blockDisposition blk in
      case blockIsStar blk of
        None \<Rightarrow> Inr (False, logMsg LogError ''Error in .stc file (line {}): {}'' db)
      | Some isStar \<Rightarrow>
         (let catalogNumber0 = blockCatalogNumber blk;
              objName = blockObjName blk;
              firstName = blockFirstName blk
          in if \<not> beginGroup blk
             then Inr (False, logMsg LogError ''Unexpected token at line {}!'' db)
             else
               case selectStar env disposition isStar catalogNumber0 firstName db of
                 Inl f \<Rightarrow> Inl f
               | Inr None \<Rightarrow>
                   Inr (False, logMsg LogError
                     ''Bad barycenter: neither catalog number nor name set at line {}.'' db)
               | Inr (Some (catalogNumber, star, db1)) \<Rightarrow>
                  (let isNewStar = (star = None) in
                   case groupHash blk of
                     None \<Rightarrow>
                       Inr (False, logMsg LogError ''Bad star definition at line {}.'' db1)
                   | Some starData \<Rightarrow>
                       if isNewStar \<and> disposition = Modify then
                         Inr (True,
                              logMsg LogInfo ''Bad star definition--will continue parsing file.''
                                (logMsg LogWarn ''Modify requested for nonexistent star.'' db1))
                       else
                         (case createStar env db1
                                 (case star of
                                    None \<Rightarrow> defaultStar env
                                  | Some i \<Rightarrow> unsortedStars db1 ! i)
                                 disposition catalogNumber starData (\<not> isStar) of
                            Inl f \<Rightarrow> Inl f
                          | Inr (ok, star1, db2) \<Rightarrow>
                             (let star2 = star1\<lparr>getCategories :=
                                    loadCategories env starData disposition (getCategories star1)\<rparr>;
                                  db3 = (case star of
                                           None \<Rightarrow> db2
                                         | Some i \<Rightarrow>
                                             db2\<lparr>unsortedStars := (unsortedStars db2)[i := star2]\<rparr>)
                              in if ok then
                                   (let db4 = (if isNewStar
                                               then db3\<lparr>unsortedStars := unsortedStars db3 @ [star2],
                                                        nStars := nStars db3 + 1,
                                                        stcFileCatalogNumberIndex :=
                                                          (stcFileCatalogNumberIndex db3)
                                                            (catalogNumber \<mapsto> length (unsortedStars db3))\<rparr>
                                               else db3)
                                    in Inr (True, updateNames catalogNumber objName db4))
                                 else
                                   Inr (True,
                                        logMsg LogInfo
                                          ''Bad star definition--will continue parsing file.'' db3))))))"

fun load :: "Env \<Rightarrow> StcBlock list \<Rightarrow> StarDatabase \<Rightarrow> Fault + (bool \<times> StarDatabase)" where
  "load env [] db = Inr (True, db)"
| "load env (blk # blks) db =
     (case loadBlock env blk db of
        Inl f \<Rightarrow> Inl f
      | Inr (ok, db') \<Rightarrow> if ok then load env blks db' else Inr (False, db'))"

section \<open>Finishing the load\<close>

text \<open>Log messages are recorded without their trailing newline.\<close>

definition buildOctree :: "Env \<Rightarrow> StarDatabase \<Rightarrow> StarDatabase" where
  "buildOctree env db =
     (let db1 = logMsg LogDebug ''Sorting stars into octree . . .'' db;
          db2 = logMsg LogDebug
                  ''Spatially sorting stars for improved locality of reference . . .'' db1;
          sortedStars = octreeOrder env (unsortedStars db2);
          db3 = logMsg LogDebug ''{} stars total\<newline>Octree has {} nodes and {} stars.'' db2
      in db3\<lparr>unsortedStars := [], stars := sortedStars\<rparr>)"

definition buildIndexes :: "StarDatabase \<Rightarrow> StarDatabase" where
  "buildIndexes db =
     (let db1 = logMsg LogInfo ''Building catalog number indexes . . .'' db
      in db1\<lparr>catalogNumberIndex :=
                 stdSort (\<lambda>i. getIndex (stars db1 ! i)) [0..<nStars db1]\<rparr>)"

definition setOrbitBarycenter :: "nat \<Rightarrow> Star \<Rightarrow> Star" where
  "setOrbitBarycenter barycenter star = star\<lparr>getOrbitBarycenter := Some barycenter\<rparr>"

definition addOrbitingStar :: "nat \<Rightarrow> Star \<Rightarrow> Star" where
  "addOrbitingStar star barycenter =
     barycenter\<lparr>getOrbitingStars := getOrbitingStars barycenter @ [star]\<rparr>"

text \<open>
  One turn of the loop over \<^verbatim>\<open>barycenters\<close> in \<^verbatim>\<open>finish\<close>. The two
  \<^verbatim>\<open>assert\<close>s abort the process unless \<open>NDEBUG\<close> is defined.
\<close>

definition resolveBarycenter :: "Env \<Rightarrow> BarycenterUsage \<Rightarrow> StarDatabase \<Rightarrow> Fault + StarDatabase" where
  "resolveBarycenter env b db =
     (let star = find_star db (bc_catNo b);
          barycenter = find_star db (bc_barycenterCatNo b)
      in if \<not> NDEBUG env \<and> star = None then Inl AssertionFailed
         else if \<not> NDEBUG env \<and> barycenter = None then Inl AssertionFailed
         else (case star of
                 None \<Rightarrow> Inr db
               | Some s \<Rightarrow>
                   (case barycenter of
                      None \<Rightarrow> Inr db
                    | Some bc \<Rightarrow>
                        (let stars1 = (stars db)[s := setOrbitBarycenter bc (stars db ! s)];
                             stars2 = stars1[bc := addOrbitingStar s (stars1 ! bc)]
                         in Inr (db\<lparr>stars := stars2\<rparr>)))))"

fun resolveBarycenters :: "Env \<Rightarrow> BarycenterUsage list \<Rightarrow> StarDatabase \<Rightarrow> Fault + StarDatabase" where
  "resolveBarycenters env [] db = Inr db"
| "resolveBarycenters env (b # bs) db =
     (case resolveBarycenter env b db of
        Inl f \<Rightarrow> Inl f
      | Inr db' \<Rightarrow> resolveBarycenters env bs db')"

definition finish :: "Env \<Rightarrow> StarDatabase \<Rightarrow> Fault + StarDatabase" where
  "finish env db =
     (let db1 = logMsg LogInfo ''Total star count: {}'' db;
          db2 = buildOctree env db1;
          db3 = buildIndexes db2
      in case delete (binFileCatalogNumberIndex db3) of
           Inl f \<Rightarrow> Inl f
         | Inr p \<Rightarrow>
             (let db4 = db3\<lparr>binFileCatalogNumberIndex := p,
                            stcFileCatalogNumberIndex := Map.empty\<rparr>
              in case resolveBarycenters env (barycenters db4) db4 of
                   Inl f \<Rightarrow> Inl f
                 | Inr db5 \<Rightarrow> Inr (db5\<lparr>barycenters := []\<rparr>)))"

section \<open>The empty database and a sample environment\<close>

text \<open>The constructor \<^verbatim>\<open>StarDatabase::StarDatabase\<close> and the members' initial values.\<close>

definition newStarDatabase :: "Env \<Rightarrow> StarDatabase" where
  "newStarDatabase env =
     \<lparr>nStars = 0, unsortedStars = [], binFileCatalogNumberIndex = Null,
      binFileStarCount = 0, stcFileCatalogNumberIndex = Map.empty,
      nextAutoCatalogNumber = firstAutoCatalogNumber env, barycenters = [],
      stars = [], catalogNumberIndex = [],
      crossIndexes = replicate (MaxCatalog env) Null, namesDB = None, logged = []\<rparr>"

text \<open>
  One choice of the collaborators, on which the model runs on concrete inputs. The
  octree writes the stars in the order of their insertion; a spectral code is known
  unless its star type is 15; the name database matches names exactly.
\<close>

definition sampleDetails :: StarDetails where
  "sampleDetails =
     \<lparr>shared = True, getSpectralType = ''G2V'', getTemperature = 5780,
      getBolometricCorrection = 0, getTexture = [], getGeometry = [],
      getEllipsoidSemiAxes = (1, 1, 1), getRadius = 0, getKnowledge = {},
      getOrbit = None, getRotationModel = None, getInfoURL = [], getVisibility = True\<rparr>"

definition sampleStar :: Star where
  "sampleStar =
     \<lparr>getIndex = InvalidIndex, getPosition = (0, 0, 0), getAbsoluteMagnitude = 4.83,
      getExtinction = 0, getDetails = None, getOrbitBarycenter = None,
      getOrbitingStars = [], getCategories = []\<rparr>"

definition sampleFloat :: "32 word \<Rightarrow> real" where
  \<comment> \<open>the finite binary32 value of a bit pattern\<close>
  "sampleFloat w =
     (let n = unat w; s = n div 2 ^ 31; e = (n div 2 ^ 23) mod 256; m = n mod 2 ^ 23;
          sign = (if s = 0 then 1 else - 1)
      in if e = 0 then sign * real m * 2 powr (- 149)
         else sign * (1 + real m / 2 ^ 23) * 2 powr (real e - 127))"

definition sampleEnv :: Env where
  "sampleEnv =
     \<lparr>NDEBUG = True,
      defaultStar = sampleStar,
      octreeOrder = (\<lambda>xs. xs),
      starDetailsV1 = (\<lambda>st. if unat st div 4096 = 15 then None else Some sampleDetails),
      floatOfBits = sampleFloat,
      spectralDetails = (\<lambda>st. if st = [] then None
                               else Some (sampleDetails\<lparr>getSpectralType := st\<rparr>)),
      GetBarycenterDetails = sampleDetails\<lparr>getSpectralType := ''Bary'', getVisibility := False\<rparr>,
      CreateOrbit = (\<lambda>h. case h ''EllipticalOrbit'' of Some (HashValue x) \<Rightarrow> Some 1 | _ \<Rightarrow> None),
      CreateRotationModel = (\<lambda>h. case h ''UniformRotation'' of Some (HashValue x) \<Rightarrow> Some 2 | _ \<Rightarrow> None),
      equatorialToCelestialCart =
        (\<lambda>ra dec distance.
           (let theta = ra / 24 * pi * 2 + pi; phi = (dec / 90 - 1) * pi / 2
            in rotateX (- (23.4392911 * pi / 180))
                 (cos theta * sin phi * distance, cos phi * distance,
                  - sin theta * sin phi * distance))),
      appToAbsMag = (\<lambda>appMag lyrs. appMag + 5 - 5 * log 10 (lyrs / 3.26167)),
      J2000Obliquity = 23.4392911 * pi / 180,
      DEG_PER_HRA = 15,
      namesFindCatalogNumberByName =
        (\<lambda>names name. case List.find (\<lambda>e. snd e = name) names of
                          Some e \<Rightarrow> fst e
                        | None \<Rightarrow> InvalidIndex),
      loadCategories =
        (\<lambda>h disposition cats.
           (if disposition = Replace then [] else cats)
           @ (case h ''Category'' of Some (StringValue c) \<Rightarrow> [c] | _ \<Rightarrow> [])),
      MaxCatalog = 3,
      firstAutoCatalogNumber = 0xFFFFFFFE\<rparr>"

definition streamOf :: "byte list \<Rightarrow> istream" where
  \<comment> \<open>a stream over bytes held in memory\<close>
  "streamOf bs = \<lparr>content = bs, deviceFails = False, badbit = False\<rparr>"

text \<open>A cross-index file with the one record (1, 7), and the database that has loaded it.\<close>

definition sampleCrossIndexFile :: "byte list" where
  "sampleCrossIndexFile = CROSSINDEX_MAGIC @ [0x00, 0x01] @ [1, 0, 0, 0, 7, 0, 0, 0]"

definition loadedOnce :: StarDatabase where
  "loadedOnce =
     (newStarDatabase sampleEnv)
       \<lparr>crossIndexes := [Live [\<lparr>ent_catalogNumber = 1, ent_celCatalogNumber = 7\<rparr>], Null, Null],
        logged := [(LogDebug, ''Loaded xindex in {} ms'')]\<rparr>"

text \<open>
  A database holding two stars, numbers 7 and 9, as the binary catalog delivers them,
  and textual definitions to run against it.
\<close>

definition sampleStar7 :: Star where
  "sampleStar7 =
     sampleStar\<lparr>getIndex := 7, getPosition := (2, 0, 0), getAbsoluteMagnitude := 5,
                getDetails := Some sampleDetails\<rparr>"

definition sampleStar9 :: Star where
  "sampleStar9 =
     sampleStar\<lparr>getIndex := 9, getPosition := (0, 0, 0), getAbsoluteMagnitude := 1,
                getExtinction := 1 / 4, getDetails := Some sampleDetails\<rparr>"

definition sampleCatalog :: StarDatabase where
  "sampleCatalog =
     (newStarDatabase sampleEnv)
       \<lparr>nStars := 2,
        unsortedStars := [sampleStar7, sampleStar9],
        binFileCatalogNumberIndex := Live [0, 1],
        binFileStarCount := 2\<rparr>"

definition hashOf :: "(string \<times> Value) list \<Rightarrow> Hash" where
  "hashOf kvs = map_of kvs"

definition stcBlock :: "DataDisposition \<Rightarrow> real option \<Rightarrow> string option \<Rightarrow> (string \<times> Value) list \<Rightarrow> StcBlock" where
  \<comment> \<open>the block \<^verbatim>\<open>disposition number "name" { properties }\<close>\<close>
  "stcBlock d n nm kvs =
     \<lparr>dispositionToken = Some d, objectTypeToken = None, numberToken = n,
      stringToken = nm, beginGroup = True, groupHash = Some (hashOf kvs)\<rparr>"

definition sampleOrbitProperties :: "(string \<times> Value) list" where
  \<comment> \<open>\<^verbatim>\<open>{ SpectralType "G2V" EllipticalOrbit { } OrbitBarycenter 55 }\<close>\<close>
  "sampleOrbitProperties =
     [(''SpectralType'', StringValue ''G2V''),
      (''EllipticalOrbit'', HashValue (\<lambda>k. None)),
      (''OrbitBarycenter'', NumberValue 55)]"

definition sampleOrbitDetails :: StarDetails where
  \<comment> \<open>the details that these properties give a star before its barycenter is looked up\<close>
  "sampleOrbitDetails =
     sampleDetails\<lparr>getSpectralType := ''G2V'', shared := False, getOrbit := Some 1\<rparr>"



definition sampleExtinction :: "(string \<times> Value) list" where
  \<comment> \<open>\<^verbatim>\<open>{ Extinction 1 }\<close>\<close>
  "sampleExtinction = [(''Extinction'', NumberValue 1)]"

section \<open>Auxiliary notions\<close>

text \<open>
  Two database states that differ at most in the pending barycenters and the log.
\<close>

definition sameCatalog :: "StarDatabase \<Rightarrow> StarDatabase \<Rightarrow> bool" where
  "sameCatalog db db' =
     (nStars db' = nStars db \<and> unsortedStars db' = unsortedStars db
      \<and> binFileCatalogNumberIndex db' = binFileCatalogNumberIndex db
      \<and> binFileStarCount db' = binFileStarCount db
      \<and> stcFileCatalogNumberIndex db' = stcFileCatalogNumberIndex db
      \<and> nextAutoCatalogNumber db' = nextAutoCatalogNumber db
      \<and> stars db' = stars db \<and> catalogNumberIndex db' = catalogNumberIndex db
      \<and> crossIndexes db' = crossIndexes db \<and> namesDB db' = namesDB db)"


text \<open>
  The range of an index is partitioned by a comparison against \<open>v\<close> when the elements
  that compare below \<open>v\<close> come first: what \<^verbatim>\<open>std::lower_bound\<close> requires of its range.
\<close>

definition partitioned :: "('a \<Rightarrow> 'b \<Rightarrow> bool) \<Rightarrow> 'a list \<Rightarrow> 'b \<Rightarrow> bool" where
  "partitioned cmp xs v = (\<forall>i j. i \<le> j \<and> j < length xs \<and> cmp (xs ! j) v \<longrightarrow> cmp (xs ! i) v)"

text \<open>Lookup in an index sorted by key.\<close>

definition indexLookup :: "('a \<Rightarrow> IndexNumber) \<Rightarrow> 'a list \<Rightarrow> nat \<Rightarrow> IndexNumber \<Rightarrow> 'a option" where
  "indexLookup key idx n v =
     (let pos = lower_bound (\<lambda>star catNum. key star < catNum) idx 0 n v
      in if pos \<noteq> n \<and> key (idx ! pos) = v then Some (idx ! pos) else None)"

text \<open>
  The fields that \<^verbatim>\<open>applyCustomStarDetails\<close> writes into the details before it calls
  \<^verbatim>\<open>applyOrbit\<close>.
\<close>

definition customFields :: "CustomStarDetails \<Rightarrow> StarDetails \<Rightarrow> StarDetails" where
  "customFields cd details =
     (let d1 = (case textureName cd of
                  None \<Rightarrow> details
                | Some t \<Rightarrow> details\<lparr>getTexture := t,
                     getKnowledge := insert KnowTexture (getKnowledge details)\<rparr>);
          d2 = (case modelName cd of
                  None \<Rightarrow> d1
                | Some m \<Rightarrow> d1\<lparr>getGeometry := m\<rparr>);
          d3 = (case semiAxes cd of
                  None \<Rightarrow> d2
                | Some a \<Rightarrow> d2\<lparr>getEllipsoidSemiAxes := a\<rparr>);
          d4 = (case radius cd of
                  None \<Rightarrow> d3
                | Some r \<Rightarrow> d3\<lparr>getRadius := r,
                     getKnowledge := insert KnowRadius (getKnowledge d3)\<rparr>);
          d5 = (if temperature cd > 0 then
                  (let d = d4\<lparr>getTemperature := temperature cd\<rparr> in
                   if bolometricCorrection cd = None then
                     (let logT = log 10 (temperature cd) - 4;
                          bc = - 8.499 * logT ^ 4 + 13.421 * logT ^ 3
                               - 8.131 * logT * logT - 3.901 * logT - 0.438
                      in d\<lparr>getBolometricCorrection := bc\<rparr>)
                   else d)
                else d4);
          d6 = (case bolometricCorrection cd of
                  None \<Rightarrow> d5
                | Some b \<Rightarrow> d5\<lparr>getBolometricCorrection := b\<rparr>)
      in (case infoURL cd of
            None \<Rightarrow> d6
          | Some u \<Rightarrow> d6\<lparr>getInfoURL := u\<rparr>))"

text \<open>
  The details that a definition refers to: those of a barycenter, or those of its
  spectral type.
\<close>

definition referenceDetails :: "Env \<Rightarrow> Hash \<Rightarrow> bool \<Rightarrow> StarDetails option" where
  "referenceDetails env h isStar =
     (if \<not> isStar then Some (GetBarycenterDetails env)
      else case getString h ''SpectralType'' of
             Some st \<Rightarrow> spectralDetails env st
           | None \<Rightarrow> None)"





text \<open>
  The index that \<^verbatim>\<open>buildIndexes\<close> leaves: one position for each of the \<open>nStars\<close> stars,
  sorted by catalog number.
\<close>

definition indexOK :: "StarDatabase \<Rightarrow> bool" where
  "indexOK db =
     (nStars db = length (stars db)
      \<and> catalogNumberIndex db
          = stdSort (\<lambda>i. getIndex (stars db ! i)) [0..<length (stars db)])"

text \<open>The two assignments that \<^verbatim>\<open>finish\<close> makes for a pair it resolves.\<close>

definition linkStars :: "nat \<Rightarrow> nat \<Rightarrow> Star list \<Rightarrow> Star list" where
  "linkStars s bc xs =
     (xs[s := setOrbitBarycenter bc (xs ! s)])
       [bc := addOrbitingStar s ((xs[s := setOrbitBarycenter bc (xs ! s)]) ! bc)]"

text \<open>
  The pending pair \<open>b\<close> resolves in \<open>db\<close>: \<^verbatim>\<open>find\<close> returns the star at \<open>s\<close> for its
  first number and the star at \<open>bc\<close> for its second.
\<close>

definition resolves :: "StarDatabase \<Rightarrow> BarycenterUsage \<Rightarrow> nat \<Rightarrow> nat \<Rightarrow> bool" where
  "resolves db b s bc =
     (find_star db (bc_catNo b) = Some s \<and> find_star db (bc_barycenterCatNo b) = Some bc)"

text \<open>
  The pending pair \<open>b\<close> can be resolved: each of its two numbers is the number of a
  star that the octree returns.
\<close>

definition resolvable :: "Env \<Rightarrow> StarDatabase \<Rightarrow> BarycenterUsage \<Rightarrow> bool" where
  "resolvable env db b =
     (bc_catNo b \<in> getIndex ` set (octreeOrder env (unsortedStars db))
      \<and> bc_barycenterCatNo b \<in> getIndex ` set (octreeOrder env (unsortedStars db)))"

text \<open>Everything that \<^verbatim>\<open>finish\<close> logs, and the database after its first three steps.\<close>

definition finishLog :: "LogEntry list" where
  "finishLog =
     [(LogInfo, ''Total star count: {}''),
      (LogDebug, ''Sorting stars into octree . . .''),
      (LogDebug, ''Spatially sorting stars for improved locality of reference . . .''),
      (LogDebug, ''{} stars total\<newline>Octree has {} nodes and {} stars.''),
      (LogInfo, ''Building catalog number indexes . . .'')]"

definition indexed :: "Env \<Rightarrow> StarDatabase \<Rightarrow> StarDatabase" where
  "indexed env db = buildIndexes (buildOctree env (logMsg LogInfo ''Total star count: {}'' db))"

text \<open>A stream on which a read can be good: the device works and \<^verbatim>\<open>badbit\<close> is clear.\<close>

definition readable :: "istream \<Rightarrow> bool" where
  "readable inp = (\<not> deviceFails inp \<and> \<not> badbit inp)"

definition spectralTypeAt :: "byte list \<Rightarrow> nat \<Rightarrow> 16 word" where
  \<comment> \<open>the spectral code of the record that starts at offset \<open>off\<close>\<close>
  "spectralTypeAt bytes off = of_nat (unat (bytes ! (off + 18)) + 256 * unat (bytes ! (off + 19)))"

definition recordsKnown :: "Env \<Rightarrow> nat \<Rightarrow> nat \<Rightarrow> byte list \<Rightarrow> bool" where
  \<comment> \<open>the \<open>n\<close> records from offset \<open>off\<close> on have spectral codes that decode\<close>
  "recordsKnown env off n bytes =
     list_all (\<lambda>i. starDetailsV1 env (spectralTypeAt bytes (off + 20 * i)) \<noteq> None) [0..<n]"

definition nStarsInFile :: "byte list \<Rightarrow> nat" where
  \<comment> \<open>the \<^verbatim>\<open>counter\<close> field of the header\<close>
  "nStarsInFile bytes = unat (le32 (drop 10 bytes))"

text \<open>
  A well-formed binary catalog: the 14 bytes of a header with the magic and the version
  0x0100, then at least as many 20-byte records as the header declares, each of the
  declared records with a spectral code that decodes.
\<close>

definition wellFormedCatalog :: "Env \<Rightarrow> byte list \<Rightarrow> bool" where
  "wellFormedCatalog env bytes =
     (14 \<le> length bytes
      \<and> take 8 bytes = STARSDAT_MAGIC
      \<and> le16 (drop 8 bytes) = 0x0100
      \<and> 14 + 20 * nStarsInFile bytes \<le> length bytes
      \<and> recordsKnown env 14 (nStarsInFile bytes) bytes)"

text \<open>
  The lookup indexes and the sorted stars are the same in two states, and the stars
  stored in the first are still the first stars of the second.
\<close>

definition sameIndexes :: "StarDatabase \<Rightarrow> StarDatabase \<Rightarrow> bool" where
  "sameIndexes db db' =
     (binFileCatalogNumberIndex db' = binFileCatalogNumberIndex db
      \<and> binFileStarCount db' = binFileStarCount db
      \<and> catalogNumberIndex db' = catalogNumberIndex db
      \<and> stars db' = stars db
      \<and> take (length (unsortedStars db)) (unsortedStars db') = unsortedStars db)"

section \<open>Sample binary catalogs\<close>

definition starsDatHeader :: "byte \<Rightarrow> byte list" where
  \<comment> \<open>the header of a version-0x0100 catalog that declares \<open>count\<close> records\<close>
  "starsDatHeader count = STARSDAT_MAGIC @ [0x00, 0x01] @ [count, 0, 0, 0]"

definition sampleRecord :: "byte \<Rightarrow> byte \<Rightarrow> byte \<Rightarrow> byte list" where
  \<comment> \<open>a record: catalog number, position (0, 0, 0), magnitude \<open>mag\<close>, spectral code \<open>256 * st\<close>\<close>
  "sampleRecord catNo mag st =
     [catNo, 0, 0, 0,  0, 0, 0, 0,  0, 0, 0, 0,  0, 0, 0, 0,  0, mag,  0, st]"

definition sampleBinStar :: "IndexNumber \<Rightarrow> real \<Rightarrow> Star" where
  \<comment> \<open>the star decoded from a sample record\<close>
  "sampleBinStar catNo mag =
     sampleStar\<lparr>getPosition := (0, 0, 0), getAbsoluteMagnitude := mag,
                getDetails := Some sampleDetails, getIndex := catNo\<rparr>"

text \<open>
  Four files: one record; one record cut to 18 bytes; two records, the second with a
  spectral code of star type 15; two records with the same catalog number.
\<close>

definition oneRecordFile :: "byte list" where
  "oneRecordFile = starsDatHeader 1 @ sampleRecord 7 5 0"

definition shortRecordFile :: "byte list" where
  "shortRecordFile = starsDatHeader 1 @ take 18 (sampleRecord 7 5 0)"

definition badSpectralFile :: "byte list" where
  "badSpectralFile = starsDatHeader 2 @ sampleRecord 7 5 0 @ sampleRecord 9 1 0xF0"

definition duplicateFile :: "byte list" where
  "duplicateFile = starsDatHeader 2 @ sampleRecord 7 5 0 @ sampleRecord 7 3 0"

definition binaryLog :: "LogEntry list" where
  \<comment> \<open>what a successful \<^verbatim>\<open>loadBinary\<close> logs\<close>
  "binaryLog = [(LogDebug, ''StarDatabase::read: nStars = {}, time = {} ms''),
                (LogInfo, ''{} stars in binary database'')]"

definition duplicateLoaded :: StarDatabase where
  \<comment> \<open>the database that has loaded \<open>duplicateFile\<close>\<close>
  "duplicateLoaded =
     (newStarDatabase sampleEnv)
       \<lparr>nStars := 2,
        unsortedStars := [sampleBinStar 7 5, sampleBinStar 7 3],
        binFileCatalogNumberIndex := Live [0, 1],
        binFileStarCount := 2,
        logged := binaryLog\<rparr>"

definition badSpectralLoaded :: StarDatabase where
  \<comment> \<open>the database after the failed load of \<open>badSpectralFile\<close>\<close>
  "badSpectralLoaded =
     (newStarDatabase sampleEnv)
       \<lparr>nStars := 1,
        unsortedStars := [sampleBinStar 7 5],
        logged := [(LogError, ''Bad spectral type in star database, star #{}'')]\<rparr>"

section \<open>Sample databases after the finish pass\<close>

definition finishedFrom :: "StarDatabase \<Rightarrow> Star list \<Rightarrow> StarDatabase" where
  \<comment> \<open>a database of two stars in the order of their numbers after \<^verbatim>\<open>finish\<close>, with \<open>xs\<close> as its stars\<close>
  "finishedFrom db xs =
     db\<lparr>unsortedStars := [], stars := xs, catalogNumberIndex := [0, 1],
        binFileCatalogNumberIndex := Freed, stcFileCatalogNumberIndex := Map.empty,
        barycenters := [], logged := logged db @ finishLog\<rparr>"

definition duplicateFinished :: StarDatabase where
  "duplicateFinished = finishedFrom duplicateLoaded [sampleBinStar 7 5, sampleBinStar 7 3]"

text \<open>
  The sample catalog with two pending pairs: star 9 orbits star 7, and a pair left by a
  rejected definition, neither of whose numbers is in the catalog.
\<close>

definition pendingCatalog :: StarDatabase where
  "pendingCatalog =
     sampleCatalog\<lparr>barycenters := [\<lparr>bc_catNo = 9, bc_barycenterCatNo = 7\<rparr>,
                                   \<lparr>bc_catNo = 100, bc_barycenterCatNo = 55\<rparr>]\<rparr>"

definition pendingFinished :: StarDatabase where
  "pendingFinished =
     finishedFrom pendingCatalog
       [sampleStar7\<lparr>getOrbitingStars := [1]\<rparr>, sampleStar9\<lparr>getOrbitBarycenter := Some 0\<rparr>]"

definition resolvedCatalog :: StarDatabase where
  \<comment> \<open>the sample catalog with the one pending pair: star 9 orbits star 7\<close>
  "resolvedCatalog = sampleCatalog\<lparr>barycenters := [\<lparr>bc_catNo = 9, bc_barycenterCatNo = 7\<rparr>]\<rparr>"

definition resolvedFinished :: StarDatabase where
  "resolvedFinished =
     finishedFrom resolvedCatalog
       [sampleStar7\<lparr>getOrbitingStars := [1]\<rparr>, sampleStar9\<lparr>getOrbitBarycenter := Some 0\<rparr>]"

section \<open>Binary search on a sorted index\<close>

lemma lower_bound_0: "lower_bound cmp xs first 0 v = first"
  by (subst lower_bound.simps) simp

lemma lower_bound_right:
  "len \<noteq> 0 \<Longrightarrow> cmp (xs ! (first + len div 2)) v \<Longrightarrow>
   lower_bound cmp xs first len v = lower_bound cmp xs (first + len div 2 + 1) (len - len div 2 - 1) v"
  by (subst lower_bound.simps) (simp add: Let_def)

lemma lower_bound_left:
  "len \<noteq> 0 \<Longrightarrow> \<not> cmp (xs ! (first + len div 2)) v \<Longrightarrow>
   lower_bound cmp xs first len v = lower_bound cmp xs first (len div 2) v"
  by (subst lower_bound.simps) (simp add: Let_def)


lemma lower_bound_range:
  assumes "first + len \<le> length xs" "partitioned cmp xs v"
    and "\<forall>i<first. cmp (xs ! i) v"
    and "\<forall>i. first + len \<le> i \<and> i < length xs \<longrightarrow> \<not> cmp (xs ! i) v"
  shows "first \<le> lower_bound cmp xs first len v \<and> lower_bound cmp xs first len v \<le> first + len
       \<and> (\<forall>i<lower_bound cmp xs first len v. cmp (xs ! i) v)
       \<and> (\<forall>i. lower_bound cmp xs first len v \<le> i \<and> i < length xs \<longrightarrow> \<not> cmp (xs ! i) v)"
  using assms
proof (induction len arbitrary: first rule: less_induct)
  case (less len)
  show ?case
  proof (cases "len = 0")
    case True
    with less.prems show ?thesis by (simp add: lower_bound_0)
  next
    case False
    define half where "half = len div 2"
    define mid where "mid = first + half"
    have hl: "half < len" using False by (simp add: half_def)
    have midlt: "mid < length xs" using hl less.prems(1) by (simp add: mid_def)
    show ?thesis
    proof (cases "cmp (xs ! mid) v")
      case True
      have lb: "lower_bound cmp xs first len v = lower_bound cmp xs (mid + 1) (len - half - 1) v"
        using lower_bound_right[OF False, of cmp xs first v] True by (simp add: half_def mid_def)
      have before: "\<forall>i<mid + 1. cmp (xs ! i) v"
      proof (intro allI impI)
        fix i assume "i < mid + 1"
        then have "i \<le> mid" by simp
        with midlt True less.prems(2) show "cmp (xs ! i) v"
          unfolding partitioned_def by blast
      qed
      have eq: "mid + 1 + (len - half - 1) = first + len" using hl by (simp add: mid_def)
      have lt: "len - half - 1 < len" using hl by simp
      have p1: "mid + 1 + (len - half - 1) \<le> length xs" using eq less.prems(1) by simp
      have p4: "\<forall>i. mid + 1 + (len - half - 1) \<le> i \<and> i < length xs \<longrightarrow> \<not> cmp (xs ! i) v"
        using eq less.prems(4) by simp
      note IH = less.IH[OF lt p1 less.prems(2) before p4]
      have "first \<le> mid + 1" by (simp add: mid_def)
      with IH eq show ?thesis unfolding lb by force
    next
      case Fls: False
      have lb: "lower_bound cmp xs first len v = lower_bound cmp xs first half v"
        using lower_bound_left[OF False, of cmp xs first v] Fls by (simp add: half_def mid_def)
      have after: "\<forall>i. first + half \<le> i \<and> i < length xs \<longrightarrow> \<not> cmp (xs ! i) v"
      proof (intro allI impI notI)
        fix i assume a: "first + half \<le> i \<and> i < length xs" and c: "cmp (xs ! i) v"
        then have "mid \<le> i \<and> i < length xs \<and> cmp (xs ! i) v" by (simp add: mid_def)
        then have "cmp (xs ! mid) v"
          using less.prems(2) unfolding partitioned_def by blast
        with Fls show False by simp
      qed
      have p1: "first + half \<le> length xs" using hl less.prems(1) by simp
      note IH = less.IH[OF hl p1 less.prems(2,3) after]
      have "first + half \<le> first + len" using hl by simp
      with IH show ?thesis unfolding lb by force
    qed
  qed
qed


lemma sorted_partitioned:
  assumes "sorted (map key idx)"
  shows "partitioned (\<lambda>star catNum. key star < (catNum::IndexNumber)) idx v"
  unfolding partitioned_def
proof (intro allI impI)
  fix i j assume a: "i \<le> j \<and> j < length idx \<and> key (idx ! j) < v"
  then have "map key idx ! i \<le> map key idx ! j"
    using sorted_nth_mono[OF assms, of i j] by simp
  with a show "key (idx ! i) < v" by (simp add: order.strict_trans1)
qed

lemma lower_bound_sorted:
  fixes v :: IndexNumber
  assumes "sorted (map key idx)"
  shows "lower_bound (\<lambda>star catNum. key star < catNum) idx 0 (length idx) v \<le> length idx"
    and "\<forall>i<lower_bound (\<lambda>star catNum. key star < catNum) idx 0 (length idx) v. key (idx ! i) < v"
    and "\<forall>i. lower_bound (\<lambda>star catNum. key star < catNum) idx 0 (length idx) v \<le> i \<and> i < length idx
           \<longrightarrow> \<not> key (idx ! i) < v"
proof -
  have a: "0 + length idx \<le> length idx" by simp
  have b: "\<forall>i<(0::nat). key (idx ! i) < v" by simp
  have c: "\<forall>i. 0 + length idx \<le> i \<and> i < length idx \<longrightarrow> \<not> key (idx ! i) < v" by auto
  note R = lower_bound_range[of 0 "length idx" idx "\<lambda>star catNum. key star < catNum" v,
      OF a sorted_partitioned[OF assms(1)] b c]
  from R show "lower_bound (\<lambda>star catNum. key star < catNum) idx 0 (length idx) v \<le> length idx"
    by simp
  from R show "\<forall>i<lower_bound (\<lambda>star catNum. key star < catNum) idx 0 (length idx) v. key (idx ! i) < v"
    by blast
  from R show "\<forall>i. lower_bound (\<lambda>star catNum. key star < catNum) idx 0 (length idx) v \<le> i \<and> i < length idx
           \<longrightarrow> \<not> key (idx ! i) < v"
    by blast
qed

lemma indexLookup_Some:
  assumes "sorted (map key idx)" "indexLookup key idx (length idx) v = Some p"
  shows "p \<in> set idx \<and> key p = v"
proof -
  define r where "r = lower_bound (\<lambda>star catNum. key star < catNum) idx 0 (length idx) v"
  from assms(2) have "r \<noteq> length idx \<and> key (idx ! r) = v \<and> p = idx ! r"
    by (auto simp: indexLookup_def r_def Let_def split: if_splits)
  moreover have "r \<le> length idx"
    unfolding r_def by (rule lower_bound_sorted(1)[OF assms(1)])
  ultimately show ?thesis by simp
qed

lemma indexLookup_present:
  assumes "sorted (map key idx)" "p \<in> set idx" "key p = v"
  shows "\<exists>q. indexLookup key idx (length idx) v = Some q \<and> q \<in> set idx \<and> key q = v"
proof -
  define r where "r = lower_bound (\<lambda>star catNum. key star < catNum) idx 0 (length idx) v"
  have R: "r \<le> length idx \<and> (\<forall>i<r. key (idx ! i) < v)
           \<and> (\<forall>i. r \<le> i \<and> i < length idx \<longrightarrow> \<not> key (idx ! i) < v)"
    unfolding r_def using lower_bound_sorted[OF assms(1), of v] by blast
  from assms(2) obtain j where j: "j < length idx" "idx ! j = p" by (auto simp: in_set_conv_nth)
  have rj: "r \<le> j"
  proof (rule ccontr)
    assume "\<not> r \<le> j"
    then have "key (idx ! j) < v" using R by simp
    with j assms(3) show False by simp
  qed
  then have rlt: "r < length idx" using j by simp
  have "map key idx ! r \<le> map key idx ! j"
    using sorted_nth_mono[OF assms(1) rj] j by simp
  then have "key (idx ! r) \<le> v" using rlt j assms(3) by simp
  moreover have "\<not> key (idx ! r) < v" using R rlt by simp
  ultimately have "key (idx ! r) = v" by simp
  then show ?thesis using rlt by (simp add: indexLookup_def r_def[symmetric] Let_def)
qed

lemma indexLookup_absent:
  assumes "sorted (map key idx)" "\<forall>p\<in>set idx. key p \<noteq> v"
  shows "indexLookup key idx (length idx) v = None"
proof (cases "indexLookup key idx (length idx) v")
  case None then show ?thesis .
next
  case (Some p)
  from indexLookup_Some[OF assms(1) Some] assms(2) show ?thesis by blast
qed

lemma indexLookup_exact:
  assumes "sorted (map key idx)" "inj_on key (set idx)" "p \<in> set idx"
  shows "indexLookup key idx (length idx) (key p) = Some p"
proof -
  from indexLookup_present[OF assms(1,3) refl]
  obtain q where q: "indexLookup key idx (length idx) (key p) = Some q" "q \<in> set idx" "key q = key p"
    by blast
  with assms(2,3) have "q = p" by (auto dest: inj_onD)
  with q show ?thesis by simp
qed

lemma find_star_indexLookup:
  "find_star db v = indexLookup (\<lambda>i. getIndex (stars db ! i)) (catalogNumberIndex db) (nStars db) v"
  by (simp add: find_star_def indexLookup_def)

section \<open>Reloading a cross-index table\<close>

lemma readCrossIndexRecords_eof:
  assumes "\<not> deviceFails inp" "\<not> badbit inp"
    and "length (content inp) < 4096" "length (content inp) mod 8 = 0"
  shows "readCrossIndexRecords inp xindex
         = (Inr (decodeCrossIndexRecords (length (content inp) div 8) (content inp) xindex),
            inp\<lparr>content := []\<rparr>)"
  using assms
  by (subst readCrossIndexRecords.simps)
     (simp add: readBytes_def XBUFFER_RECORDS_def sizeof_CrossIndexRecord_def Let_def)

lemma readCrossIndexRecords_sample:
  "readCrossIndexRecords (streamOf [1, 0, 0, 0, 7, 0, 0, 0]) []
    = (Inr [\<lparr>ent_catalogNumber = 1, ent_celCatalogNumber = 7\<rparr>], streamOf [])"
  by (subst readCrossIndexRecords_eof)
     (simp_all add: streamOf_def sizeof_CrossIndexRecord_def le32_def)

lemma loadCrossIndex_first:
  "loadCrossIndex HenryDraper (streamOf sampleCrossIndexFile) (newStarDatabase sampleEnv)
   = Inr (True, streamOf [], loadedOnce)"
proof -
  have hdr: "readBytes sizeof_CrossIndexHeader (streamOf sampleCrossIndexFile)
     = (ReadGood (CROSSINDEX_MAGIC @ [0x00, 0x01]), streamOf [1, 0, 0, 0, 7, 0, 0, 0])"
    by (simp add: readBytes_def sizeof_CrossIndexHeader_def streamOf_def sampleCrossIndexFile_def
         CROSSINDEX_MAGIC_def bytesOf_def)
  show ?thesis
    unfolding loadCrossIndex_def loadedOnce_def
    by (simp add: hdr readCrossIndexRecords_sample Let_def CROSSINDEX_MAGIC_def bytesOf_def le16_def)
       (simp add: newStarDatabase_def sampleEnv_def HenryDraper_def logMsg_def stdSort_def
          numeral_3_eq_3)
qed

lemma loadCrossIndex_second:
  "loadCrossIndex HenryDraper (streamOf []) loadedOnce
   = Inr (False, streamOf [], loadedOnce\<lparr>crossIndexes := [Freed, Null, Null]\<rparr>)"
  by (simp add: loadCrossIndex_def HenryDraper_def delete_def readBytes_def streamOf_def
        sizeof_CrossIndexHeader_def newStarDatabase_def loadedOnce_def)

lemma search_loadedOnce:
  "searchCrossIndexForCatalogNumber loadedOnce HenryDraper 1 = Inr 7"
  by (simp add: searchCrossIndexForCatalogNumber_def HenryDraper_def InvalidIndex_def
       lower_bound_0 lower_bound_left Let_def loadedOnce_def)

lemma search_freed:
  "searchCrossIndexForCatalogNumber (loadedOnce\<lparr>crossIndexes := [Freed, Null, Null]\<rparr>)
     HenryDraper 1 = Inl UseAfterFree"
  by (simp add: searchCrossIndexForCatalogNumber_def HenryDraper_def loadedOnce_def)

text \<open>
  Whatever makes the reload fail (a short or bad header, a wrong version, a partial
  trailing record, a failing device), the table that was in the slot has been freed and
  the slot still points to it.
\<close>

lemma loadCrossIndex_failure_frees:
  assumes "catalog < length (crossIndexes db)" "crossIndexes db ! catalog = Live t"
    and "loadCrossIndex catalog inp db = Inr (False, inp', db')"
  shows "crossIndexes db' ! catalog = Freed"
  using assms
  by (auto simp: loadCrossIndex_def delete_def logMsg_def Let_def
           split: prod.splits ReadResult.splits if_splits sum.splits)

section \<open>What loading a definition leaves alone\<close>

lemma sameCatalog_refl: "sameCatalog db db"
  by (simp add: sameCatalog_def)

lemma sameCatalog_logMsg: "sameCatalog db db' \<Longrightarrow> sameCatalog db (logMsg l m db')"
  by (simp add: sameCatalog_def logMsg_def)

lemma sameCatalog_barycenters:
  "sameCatalog db db' \<Longrightarrow> sameCatalog db (db'\<lparr>barycenters := bs\<rparr>)"
  by (simp add: sameCatalog_def)

lemma findWhileLoading_sameCatalog:
  "sameCatalog db db' \<Longrightarrow> findWhileLoading db' n = findWhileLoading db n"
  by (auto simp: sameCatalog_def findWhileLoading_def Let_def split: Ptr.splits)

lemma applyOrbit_sameCatalog:
  "applyOrbit env db n starData details cd = Inr (ok, details', db', bp) \<Longrightarrow> sameCatalog db db'"
  unfolding applyOrbit_def Let_def
  by (auto simp: sameCatalog_refl sameCatalog_logMsg sameCatalog_barycenters
           split: option.splits sum.splits if_splits)


lemma applyCustomStarDetails_sameCatalog:
  assumes "applyCustomStarDetails env db star n starData cd = Inr (ok, star', db', bp)"
  shows "sameCatalog db db'"
proof (cases "hasCustomDetails cd")
  case False
  with assms show ?thesis by (simp add: applyCustomStarDetails_def sameCatalog_refl)
next
  case True
  show ?thesis
  proof (cases "getDetails star")
    case None
    with assms True show ?thesis by (simp add: applyCustomStarDetails_def)
  next
    case (Some details)
    with assms True obtain d7 ok' d8 where
      "applyOrbit env db n starData d7 cd = Inr (ok', d8, db', bp)"
      unfolding applyCustomStarDetails_def Let_def
      by (auto split: if_splits sum.splits prod.splits)
    then show ?thesis by (rule applyOrbit_sameCatalog)
  qed
qed

lemma createOrUpdateStarDetails_sameCatalog:
  assumes "createOrUpdateStarDetails env db star d n starData b = Inr (ok, star', db', bp)"
  shows "sameCatalog db db'"
  using assms unfolding createOrUpdateStarDetails_def Let_def
  by (auto simp: sameCatalog_refl sameCatalog_logMsg split: sum.splits
           dest: applyCustomStarDetails_sameCatalog)

lemma createStar_sameCatalog:
  assumes "createStar env db star d n starData b = Inr (ok, star', db')"
  shows "sameCatalog db db'"
  using assms unfolding createStar_def Let_def
  by (auto simp: sameCatalog_logMsg split: sum.splits prod.splits if_splits
           dest: createOrUpdateStarDetails_sameCatalog)


section \<open>A definition whose orbit barycenter is missing\<close>

lemma applyOrbit_missing_barycenter:
  assumes "orbit cd = Some orb" "orbitBarycenterNumber env db starData = Inr (Some bno)"
    and "bno \<noteq> InvalidIndex" "findWhileLoading db bno = Inr None"
  shows "applyOrbit env db n starData details cd
         = Inr (False, details\<lparr>getOrbit := Some orb\<rparr>,
                logMsg LogError ''Barycenter {} does not exist.''
                  (db\<lparr>barycenters := barycenters db
                        @ [\<lparr>bc_catNo = n, bc_barycenterCatNo = bno\<rparr>]\<rparr>), None)"
proof -
  have "sameCatalog db (db\<lparr>barycenters := barycenters db @ [\<lparr>bc_catNo = n, bc_barycenterCatNo = bno\<rparr>]\<rparr>)"
    by (simp add: sameCatalog_def)
  then have "findWhileLoading (db\<lparr>barycenters := barycenters db @ [\<lparr>bc_catNo = n, bc_barycenterCatNo = bno\<rparr>]\<rparr>) bno
             = Inr None"
    using assms(4) by (simp add: findWhileLoading_sameCatalog)
  then show ?thesis using assms(1-3) by (simp add: applyOrbit_def Let_def)
qed

lemma parseCustomStarDetails_orbit:
  "orbit (parseCustomStarDetails env starData) = CreateOrbit env starData"
  by (simp add: parseCustomStarDetails_def Let_def)

lemma parseCustomStarDetails_hasCustom:
  "CreateOrbit env starData = Some orb \<Longrightarrow> hasCustomDetails (parseCustomStarDetails env starData)"
  by (simp add: parseCustomStarDetails_def Let_def)

lemma selectStar_found_frame:
  assumes "selectStar env d isStar n nm db = Inr (Some (cn, Some i, db1))"
  shows "db1 = db \<and> findWhileLoading db cn = Inr (Some i)"
  using assms
  by (auto simp: selectStar_def split: DataDisposition.splits if_splits sum.splits)

lemma selectStar_Modify_frame:
  assumes "selectStar env Modify isStar n nm db = Inr (Some (cn, found, db1))"
  shows "db1 = db"
  using assms
  by (auto simp: selectStar_def split: if_splits sum.splits)

text \<open>
  With custom details in the definition, \<^verbatim>\<open>createOrUpdateStarDetails\<close> gives the star
  details of its own, not shared, and hands it to \<^verbatim>\<open>applyCustomStarDetails\<close>.
\<close>

lemma createOrUpdateStarDetails_custom:
  assumes "isBarycenter
           \<or> (\<exists>st d. getString starData ''SpectralType'' = Some st
                    \<and> spectralDetails env st = Some d)
           \<or> (disposition = Modify \<and> getString starData ''SpectralType'' = None)"
    and "disposition = Modify \<longrightarrow> getDetails star \<noteq> None"
    and "hasCustomDetails (parseCustomStarDetails env starData)"
  shows "\<exists>base. \<not> shared base
           \<and> createOrUpdateStarDetails env db star disposition n starData isBarycenter
             = applyCustomStarDetails env db (star\<lparr>getDetails := Some base\<rparr>) n starData
                 (parseCustomStarDetails env starData)"
proof -
  let ?cd = "parseCustomStarDetails env starData"
  let ?ref = "(if isBarycenter then Inr (Some (GetBarycenterDetails env))
            else (case getString starData ''SpectralType'' of
                    Some spectralType \<Rightarrow>
                      (case spectralDetails env spectralType of
                         None \<Rightarrow> Inl ''Invalid star: bad spectral type.''
                       | Some d \<Rightarrow> Inr (Some d))
                  | None \<Rightarrow>
                      if disposition \<noteq> Modify
                      then Inl ''Invalid star: missing spectral type.''
                      else Inr None))"
  from assms(1) obtain r where r: "?ref = Inr r" "disposition \<noteq> Modify \<longrightarrow> r \<noteq> None"
    by (cases isBarycenter) auto
  show ?thesis
  proof (cases "disposition = Modify")
    case False
    with r obtain r' where r': "r = Some r'" by auto
    have "createOrUpdateStarDetails env db star disposition n starData isBarycenter
          = applyCustomStarDetails env db (star\<lparr>getDetails := Some (clone r')\<rparr>) n starData ?cd"
      unfolding createOrUpdateStarDetails_def using r(1) r' False assms(3) by (simp add: Let_def)
    moreover have "\<not> shared (clone r')" by (simp add: clone_def)
    ultimately show ?thesis by blast
  next
    case True
    with assms(2) obtain e where e: "getDetails star = Some e" by auto
    have c: "createOrUpdateStarDetails env db star disposition n starData isBarycenter
          = (case modifyStarDetails env star r True of
               Inl f \<Rightarrow> Inl f
             | Inr star1 \<Rightarrow> applyCustomStarDetails env db star1 n starData ?cd)"
      unfolding createOrUpdateStarDetails_def using r(1) True assms(3) by (simp add: Let_def)
    have "\<exists>base. \<not> shared base \<and> modifyStarDetails env star r True
                    = Inr (star\<lparr>getDetails := Some base\<rparr>)"
    proof (cases "shared e")
      case True
      then have "modifyStarDetails env star r True
                 = Inr (star\<lparr>getDetails := Some (clone (case r of None \<Rightarrow> e | Some r' \<Rightarrow> r'))\<rparr>)"
        using e by (cases r) (simp_all add: modifyStarDetails_def)
      moreover have "\<not> shared (clone (case r of None \<Rightarrow> e | Some r' \<Rightarrow> r'))"
        by (simp add: clone_def)
      ultimately show ?thesis by blast
    next
      case False
      show ?thesis
      proof (cases r)
        case None
        with False e have "modifyStarDetails env star r True = Inr (star\<lparr>getDetails := Some e\<rparr>)"
          by (simp add: modifyStarDetails_def)
        with False show ?thesis by blast
      next
        case (Some r')
        let ?x = "e\<lparr>getSpectralType := getSpectralType r',
                       getTemperature := getTemperature r',
                       getBolometricCorrection := getBolometricCorrection r',
                       getTexture := (if KnowTexture \<notin> getKnowledge e
                                      then getTexture r' else getTexture e),
                       getRotationModel := (if KnowRotation \<notin> getKnowledge e
                                            then getRotationModel r'
                                            else getRotationModel e),
                       getVisibility := getVisibility r'\<rparr>"
        have "modifyStarDetails env star r True = Inr (star\<lparr>getDetails := Some ?x\<rparr>)"
          using Some False e by (simp add: modifyStarDetails_def)
        moreover have "\<not> shared ?x" using False by simp
        ultimately show ?thesis by blast
      qed
    qed
    then obtain base where "\<not> shared base"
      "modifyStarDetails env star r True = Inr (star\<lparr>getDetails := Some base\<rparr>)" by blast
    with c show ?thesis by auto
  qed
qed

lemma applyCustomStarDetails_unfold:
  assumes "hasCustomDetails cd" "getDetails star = Some details" "\<not> shared details"
  shows "applyCustomStarDetails env db star n starData cd =
     (case applyOrbit env db n starData (customFields cd details) cd of
        Inl f \<Rightarrow> Inl f
      | Inr (ok, d8, db', barycenterPosition) \<Rightarrow>
          if \<not> ok then Inr (False, star\<lparr>getDetails := Some d8\<rparr>, db', barycenterPosition)
          else Inr (True,
                    star\<lparr>getDetails := Some (case rm cd of
                                               None \<Rightarrow> d8
                                             | Some r \<Rightarrow> d8\<lparr>getRotationModel := Some r\<rparr>)\<rparr>,
                    db', barycenterPosition))"
  using assms unfolding applyCustomStarDetails_def customFields_def Let_def
  by (simp split: sum.splits prod.splits)

lemma applyCustomStarDetails_missing_barycenter_star:
  assumes "hasCustomDetails cd" "\<not> shared details"
    and "orbit cd = Some orb" "orbitBarycenterNumber env db starData = Inr (Some bno)"
    and "bno \<noteq> InvalidIndex" "findWhileLoading db bno = Inr None"
  shows "applyCustomStarDetails env db (star\<lparr>getDetails := Some details\<rparr>) n starData cd
         = Inr (False, star\<lparr>getDetails := Some ((customFields cd details)\<lparr>getOrbit := Some orb\<rparr>)\<rparr>,
                logMsg LogError ''Barycenter {} does not exist.''
                  (db\<lparr>barycenters := barycenters db
                        @ [\<lparr>bc_catNo = n, bc_barycenterCatNo = bno\<rparr>]\<rparr>), None)"
  by (subst applyCustomStarDetails_unfold[OF assms(1) _ assms(2)])
     (simp_all add: applyOrbit_missing_barycenter[OF assms(3-6)])

lemma createStar_missing_barycenter_star:
  assumes "isBarycenter
           \<or> (\<exists>st d. getString starData ''SpectralType'' = Some st
                    \<and> spectralDetails env st = Some d)
           \<or> (disposition = Modify \<and> getString starData ''SpectralType'' = None)"
    and "disposition = Modify \<longrightarrow> getDetails star \<noteq> None"
    and "CreateOrbit env starData = Some orb"
    and "orbitBarycenterNumber env db starData = Inr (Some bno)"
    and "bno \<noteq> InvalidIndex" "findWhileLoading db bno = Inr None"
  shows "\<exists>d. createStar env db star disposition n starData isBarycenter
         = Inr (False, star\<lparr>getDetails := Some d\<rparr>,
                logMsg LogError ''Barycenter {} does not exist.''
                  (db\<lparr>barycenters := barycenters db
                        @ [\<lparr>bc_catNo = n, bc_barycenterCatNo = bno\<rparr>]\<rparr>))
           \<and> getOrbit d = Some orb"
proof -
  let ?cd = "parseCustomStarDetails env starData"
  have hc: "hasCustomDetails ?cd" by (rule parseCustomStarDetails_hasCustom[OF assms(3)])
  have oc: "orbit ?cd = Some orb" by (simp add: parseCustomStarDetails_orbit assms(3))
  from createOrUpdateStarDetails_custom[OF assms(1,2) hc, of db n]
  obtain base where b: "\<not> shared base"
    and c: "createOrUpdateStarDetails env db star disposition n starData isBarycenter
             = applyCustomStarDetails env db (star\<lparr>getDetails := Some base\<rparr>) n starData ?cd"
    by blast
  note a = applyCustomStarDetails_missing_barycenter_star[OF hc b oc assms(4-6), of star n]
  from a c show ?thesis by (auto simp: createStar_def)
qed

lemma selectStar_new_frame:
  assumes "selectStar env d isStar n nm db = Inr (Some (cn, star, db1))"
  shows "db1 = db \<or> db1 = db\<lparr>nextAutoCatalogNumber := nextAutoCatalogNumber db - 1\<rparr>"
  using assms
  by (auto simp: selectStar_def split: DataDisposition.splits if_splits sum.splits)

section \<open>What a successful definition sets\<close>

lemma starPosition_shape:
  assumes "starPosition env s d h bp = Inr s'"
  shows "getIndex s' = getIndex s \<and> getAbsoluteMagnitude s' = getAbsoluteMagnitude s
         \<and> getExtinction s' = getExtinction s \<and> getDetails s' = getDetails s
         \<and> getOrbitBarycenter s' = getOrbitBarycenter s
         \<and> getOrbitingStars s' = getOrbitingStars s \<and> getCategories s' = getCategories s"
  using assms unfolding starPosition_def Let_def
  by (auto split: option.splits prod.splits if_splits)

lemma starMagnitude_shape:
  assumes "starMagnitude env s d h b = Inr s'"
  shows "getIndex s' = getIndex s \<and> getPosition s' = getPosition s
         \<and> getDetails s' = getDetails s \<and> getOrbitBarycenter s' = getOrbitBarycenter s
         \<and> getOrbitingStars s' = getOrbitingStars s \<and> getCategories s' = getCategories s"
  using assms unfolding starMagnitude_def Let_def
  by (auto split: option.splits prod.splits if_splits sum.splits)

lemma createStar_success_steps:
  assumes "createStar env db star d n starData b = Inr (True, star', db')"
  obtains star1 bp star3 where
    "createOrUpdateStarDetails env db star d n starData b = Inr (True, star1, db', bp)"
    "starPosition env (if d \<noteq> Modify then star1\<lparr>getIndex := n\<rparr> else star1) d starData bp
       = Inr star3"
    "starMagnitude env star3 d starData b = Inr star'"
  using assms unfolding createStar_def Let_def
  by (auto split: sum.splits prod.splits if_splits)

lemma createStar_sets_index:
  assumes "createStar env db star d n starData b = Inr (True, star', db')" "d \<noteq> Modify"
  shows "getIndex star' = n"
proof -
  from assms(1) obtain star1 bp star3 where
    p: "starPosition env (if d \<noteq> Modify then star1\<lparr>getIndex := n\<rparr> else star1) d starData bp
       = Inr star3"
    and m: "starMagnitude env star3 d starData b = Inr star'"
    by (rule createStar_success_steps)
  from starPosition_shape[OF p] starMagnitude_shape[OF m] assms(2) show ?thesis by auto
qed

lemma createStar_sets_magnitude:
  assumes "createStar env db star d n starData b = Inr (True, star', db')"
    and "\<not> b" "getNumber starData ''AbsMag'' = Some m"
  shows "getAbsoluteMagnitude star' = m"
proof -
  from assms(1) obtain star3 where
    m: "starMagnitude env star3 d starData b = Inr star'"
    by (rule createStar_success_steps)
  then show ?thesis using assms(2,3)
    unfolding starMagnitude_def Let_def
    by (auto split: option.splits if_splits)
qed

lemma applyOrbit_no_orbit:
  "orbit cd = None \<Longrightarrow> applyOrbit env db n starData details cd = Inr (True, details, db, None)"
  by (simp add: applyOrbit_def)

lemma createOrUpdateStarDetails_no_orbit:
  assumes "createOrUpdateStarDetails env db star d n starData b = Inr (ok, star1, db', bp)"
    and "CreateOrbit env starData = None"
  shows "bp = None"
proof -
  let ?cd = "parseCustomStarDetails env starData"
  have o: "orbit ?cd = None" using assms(2) by (simp add: parseCustomStarDetails_orbit)
  have ac: "\<And>s ok' s' db'' bp'. applyCustomStarDetails env db s n starData ?cd = Inr (ok', s', db'', bp')
            \<Longrightarrow> bp' = None"
  proof -
    fix s ok' s' db'' bp'
    assume a: "applyCustomStarDetails env db s n starData ?cd = Inr (ok', s', db'', bp')"
    show "bp' = None"
    proof (cases "hasCustomDetails ?cd")
      case False
      with a show ?thesis by (simp add: applyCustomStarDetails_def)
    next
      case True
      show ?thesis
      proof (cases "getDetails s")
        case None
        with a True show ?thesis by (simp add: applyCustomStarDetails_def)
      next
        case (Some details)
        with a True show ?thesis
          unfolding applyCustomStarDetails_def Let_def
          by (auto simp: applyOrbit_no_orbit[OF o] split: if_splits)
      qed
    qed
  qed
  from assms(1) show ?thesis
    unfolding createOrUpdateStarDetails_def Let_def
    by (auto split: sum.splits dest: ac)
qed

lemma createStar_sets_position:
  assumes "createStar env db star d n starData b = Inr (True, star', db')"
    and "CreateOrbit env starData = None" "getLengthVector starData ''Position'' = Some p"
  shows "getPosition star' = p"
proof -
  from assms(1) obtain star1 bp star3 where
    c: "createOrUpdateStarDetails env db star d n starData b = Inr (True, star1, db', bp)"
    and p: "starPosition env (if d \<noteq> Modify then star1\<lparr>getIndex := n\<rparr> else star1) d starData bp
       = Inr star3"
    and m: "starMagnitude env star3 d starData b = Inr star'"
    by (rule createStar_success_steps)
  have "bp = None" by (rule createOrUpdateStarDetails_no_orbit[OF c assms(2)])
  with p assms(3) have "getPosition star3 = p"
    by (auto simp: starPosition_def)
  with starMagnitude_shape[OF m] show ?thesis by auto
qed


section \<open>What an accepted definition writes\<close>















section \<open>The sample catalog\<close>

lemma findWhileLoading_sampleCatalog:
  "findWhileLoading sampleCatalog 7 = Inr (Some 0)"
  "findWhileLoading sampleCatalog 9 = Inr (Some 1)"
  "findWhileLoading sampleCatalog 42 = Inr None"
  "findWhileLoading sampleCatalog 55 = Inr None"
  "findWhileLoading sampleCatalog 100 = Inr None"
  "findWhileLoading sampleCatalog 0 = Inr None"
  by (simp_all add: findWhileLoading_def sampleCatalog_def newStarDatabase_def Let_def
          lower_bound_0 lower_bound_left lower_bound_right sampleStar7_def sampleStar9_def)




lemma sampleOrbitProperties_lookup:
  "getString (hashOf sampleOrbitProperties) ''SpectralType'' = Some ''G2V''"
  "spectralDetails sampleEnv ''G2V'' = Some (sampleDetails\<lparr>getSpectralType := ''G2V''\<rparr>)"
  "CreateOrbit sampleEnv (hashOf sampleOrbitProperties) = Some 1"
  "orbitBarycenterNumber sampleEnv db (hashOf sampleOrbitProperties) = Inr (Some 55)"
  "(55::IndexNumber) \<noteq> InvalidIndex"
  by (simp_all add: getString_def hashOf_def sampleOrbitProperties_def sampleEnv_def
        orbitBarycenterNumber_def getIndexNumber_def getNumber_def toIndexNumber_def
        truncateToZero_def InvalidIndex_def)

lemma parseCustomStarDetails_sampleOrbit:
  "parseCustomStarDetails sampleEnv (hashOf sampleOrbitProperties)
   = \<lparr>hasCustomDetails = True, modelName = None, textureName = None, orbit = Some 1,
      rm = None, semiAxes = None, radius = None, temperature = 0,
      bolometricCorrection = None, infoURL = None\<rparr>"
  by (simp add: parseCustomStarDetails_def Let_def getString_def getLengthVector_def
        getNumber_def getLength_def hashOf_def sampleOrbitProperties_def sampleEnv_def)

lemma createStar_sampleOrbit:
  assumes "d \<noteq> Modify" "findWhileLoading db 55 = Inr None"
  shows "createStar sampleEnv db s d n (hashOf sampleOrbitProperties) False
     = Inr (False, s\<lparr>getDetails := Some sampleOrbitDetails\<rparr>,
            logMsg LogError ''Barycenter {} does not exist.''
              (db\<lparr>barycenters := barycenters db
                    @ [\<lparr>bc_catNo = n, bc_barycenterCatNo = 55\<rparr>]\<rparr>))"
proof -
  let ?cd = "parseCustomStarDetails sampleEnv (hashOf sampleOrbitProperties)"
  let ?base = "clone (sampleDetails\<lparr>getSpectralType := ''G2V''\<rparr>)"
  have hc: "hasCustomDetails ?cd" "orbit ?cd = Some 1"
    by (simp_all add: parseCustomStarDetails_sampleOrbit)
  have nb: "\<not> shared ?base" by (simp add: clone_def)
  have cf: "(customFields ?cd ?base)\<lparr>getOrbit := Some 1\<rparr> = sampleOrbitDetails"
    by (simp add: parseCustomStarDetails_sampleOrbit customFields_def clone_def
          sampleOrbitDetails_def sampleDetails_def)
  have c: "createOrUpdateStarDetails sampleEnv db s d n (hashOf sampleOrbitProperties) False
        = applyCustomStarDetails sampleEnv db (s\<lparr>getDetails := Some ?base\<rparr>) n
            (hashOf sampleOrbitProperties) ?cd"
    using assms(1) hc(1)
    by (simp add: createOrUpdateStarDetails_def sampleOrbitProperties_lookup Let_def)
  show ?thesis
    unfolding createStar_def c
      applyCustomStarDetails_missing_barycenter_star[OF hc(1) nb hc(2)
        sampleOrbitProperties_lookup(4,5) assms(2)] cf
    by simp
qed

section \<open>Magnitude and extinction\<close>

lemma modifyStarDetails_keeps:
  assumes "modifyStarDetails env s r hc = Inr s1"
  shows "getIndex s1 = getIndex s \<and> getPosition s1 = getPosition s
       \<and> getAbsoluteMagnitude s1 = getAbsoluteMagnitude s \<and> getExtinction s1 = getExtinction s"
  using assms unfolding modifyStarDetails_def
  by (auto split: option.splits if_splits)

lemma applyCustomStarDetails_keeps:
  assumes "applyCustomStarDetails env db s n h cd = Inr (ok, s1, db', bp)"
  shows "getIndex s1 = getIndex s \<and> getPosition s1 = getPosition s
       \<and> getAbsoluteMagnitude s1 = getAbsoluteMagnitude s \<and> getExtinction s1 = getExtinction s"
proof (cases "hasCustomDetails cd")
  case False
  with assms show ?thesis by (simp add: applyCustomStarDetails_def)
next
  case True
  show ?thesis
  proof (cases "getDetails s")
    case None
    with assms True show ?thesis by (simp add: applyCustomStarDetails_def)
  next
    case (Some details)
    with assms True show ?thesis
      unfolding applyCustomStarDetails_def Let_def
      by (auto split: if_splits sum.splits prod.splits)
  qed
qed

lemma createOrUpdateStarDetails_keeps:
  assumes "createOrUpdateStarDetails env db s d n h b = Inr (ok, s1, db', bp)"
  shows "getIndex s1 = getIndex s \<and> getPosition s1 = getPosition s
       \<and> getAbsoluteMagnitude s1 = getAbsoluteMagnitude s \<and> getExtinction s1 = getExtinction s"
  using assms unfolding createOrUpdateStarDetails_def Let_def
  by (auto split: sum.splits if_splits option.splits
           dest!: modifyStarDetails_keeps applyCustomStarDetails_keeps)

lemma sampleExtinction_lookup:
  "getString (hashOf sampleExtinction) k = None"
  "getLengthVector (hashOf sampleExtinction) k = None"
  "getNumber (hashOf sampleExtinction) ''Extinction'' = Some 1"
  "k \<noteq> ''Extinction'' \<Longrightarrow> getNumber (hashOf sampleExtinction) k = None"
  "CreateOrbit sampleEnv (hashOf sampleExtinction) = None"
  "CreateRotationModel sampleEnv (hashOf sampleExtinction) = None"
  by (simp_all add: getString_def getLengthVector_def getNumber_def hashOf_def
        sampleExtinction_def sampleEnv_def)

lemma createStar_sampleExtinction:
  assumes "getDetails s = Some sampleDetails"
  shows "createStar sampleEnv db s Modify n (hashOf sampleExtinction) False
     = Inr (True,
            (if norm3 (getPosition s) \<noteq> 0
             then s\<lparr>getAbsoluteMagnitude := getAbsoluteMagnitude s - 1,
                    getExtinction := 1 / norm3 (getPosition s)\<rparr>
             else s\<lparr>getAbsoluteMagnitude := getAbsoluteMagnitude s - 0\<rparr>), db)"
proof -
  have hc: "hasCustomDetails (parseCustomStarDetails sampleEnv (hashOf sampleExtinction)) = False"
    by (simp add: parseCustomStarDetails_def Let_def sampleExtinction_lookup getLength_def)
  have sh: "shared sampleDetails" by (simp add: sampleDetails_def)
  have c: "createOrUpdateStarDetails sampleEnv db s Modify n (hashOf sampleExtinction) False
        = Inr (True, s, db, None)"
    by (simp add: createOrUpdateStarDetails_def sampleExtinction_lookup Let_def hc
          modifyStarDetails_def assms sh applyCustomStarDetails_def)
  have p: "starPosition sampleEnv s Modify (hashOf sampleExtinction) None = Inr s"
    by (simp add: starPosition_def sampleExtinction_lookup getAngle_def getLength_def Let_def
          split: prod.splits)
  have m: "starMagnitude sampleEnv s Modify (hashOf sampleExtinction) False
        = Inr (if norm3 (getPosition s) \<noteq> 0
             then s\<lparr>getAbsoluteMagnitude := getAbsoluteMagnitude s - 1,
                    getExtinction := 1 / norm3 (getPosition s)\<rparr>
             else s\<lparr>getAbsoluteMagnitude := getAbsoluteMagnitude s - 0\<rparr>)"
    by (simp add: starMagnitude_def sampleExtinction_lookup Let_def)
  show ?thesis
    by (simp add: createStar_def c p m)
qed

lemma sampleCatalog_stars:
  "unsortedStars sampleCatalog = [sampleStar7, sampleStar9]"
  by (simp add: sampleCatalog_def)

section \<open>The final index\<close>

lemma stdSort_props:
  "sorted (map key (stdSort key xs))"
  "set (stdSort key xs) = set xs" "length (stdSort key xs) = length xs"
  "distinct (stdSort key xs) = distinct xs"
  by (simp_all add: stdSort_def)

lemma linkStars_length: "length (linkStars s bc xs) = length xs"
  by (simp add: linkStars_def)

lemma linkStars_index: "getIndex (linkStars s bc xs ! i) = getIndex (xs ! i)"
proof (cases "i < length xs")
  case True
  then show ?thesis
    by (cases "i = s"; cases "i = bc")
       (auto simp: linkStars_def setOrbitBarycenter_def addOrbitingStar_def nth_list_update)
next
  case False
  then have "linkStars s bc xs ! i = xs ! i"
    by (cases "i = s"; cases "i = bc") (auto simp: linkStars_def list_update_beyond)
  then show ?thesis by simp
qed

lemma linkStars_barycenter:
  assumes "s < length xs"
  shows "getOrbitBarycenter (linkStars s bc xs ! s) = Some bc"
  using assms
  by (cases "s = bc")
     (auto simp: linkStars_def setOrbitBarycenter_def addOrbitingStar_def nth_list_update)

lemma linkStars_barycenter_other:
  assumes "i \<noteq> s"
  shows "getOrbitBarycenter (linkStars s bc xs ! i) = getOrbitBarycenter (xs ! i)"
proof (cases "i < length xs")
  case True
  with assms show ?thesis
    by (cases "i = bc")
       (auto simp: linkStars_def setOrbitBarycenter_def addOrbitingStar_def nth_list_update)
next
  case False
  then have "linkStars s bc xs ! i = xs ! i"
    by (cases "i = s"; cases "i = bc") (auto simp: linkStars_def list_update_beyond)
  then show ?thesis by simp
qed

lemma linkStars_orbiting:
  assumes "bc < length xs"
  shows "getOrbitingStars (linkStars s bc xs ! bc) = getOrbitingStars (xs ! bc) @ [s]"
  using assms
  by (cases "s = bc")
     (auto simp: linkStars_def setOrbitBarycenter_def addOrbitingStar_def nth_list_update)

lemma linkStars_orbiting_other:
  assumes "i \<noteq> bc"
  shows "getOrbitingStars (linkStars s bc xs ! i) = getOrbitingStars (xs ! i)"
proof (cases "i < length xs")
  case True
  with assms show ?thesis
    by (cases "i = s")
       (auto simp: linkStars_def setOrbitBarycenter_def addOrbitingStar_def nth_list_update)
next
  case False
  then have "linkStars s bc xs ! i = xs ! i"
    by (cases "i = s"; cases "i = bc") (auto simp: linkStars_def list_update_beyond)
  then show ?thesis by simp
qed

lemma find_star_cong:
  assumes "catalogNumberIndex db' = catalogNumberIndex db" "nStars db' = nStars db"
    and "\<And>i. getIndex (stars db' ! i) = getIndex (stars db ! i)"
  shows "find_star db' v = find_star db v"
proof -
  have "(\<lambda>star catNum. getIndex (stars db' ! star) < catNum)
        = (\<lambda>star catNum. getIndex (stars db ! star) < catNum)"
    by (intro ext) (simp add: assms(3))
  then show ?thesis by (simp add: find_star_def assms Let_def)
qed

lemma resolveBarycenter_cases:
  "resolveBarycenter env b db =
     (case find_star db (bc_catNo b) of
        None \<Rightarrow> if NDEBUG env then Inr db else Inl AssertionFailed
      | Some s \<Rightarrow>
          (case find_star db (bc_barycenterCatNo b) of
             None \<Rightarrow> if NDEBUG env then Inr db else Inl AssertionFailed
           | Some bc \<Rightarrow> Inr (db\<lparr>stars := linkStars s bc (stars db)\<rparr>)))"
  by (auto simp: resolveBarycenter_def linkStars_def Let_def split: option.splits)

lemma indexOK_facts:
  assumes "indexOK db"
  shows "length (catalogNumberIndex db) = nStars db"
    and "set (catalogNumberIndex db) = {0..<length (stars db)}"
    and "distinct (catalogNumberIndex db)"
    and "sorted (map (\<lambda>i. getIndex (stars db ! i)) (catalogNumberIndex db))"
  using assms by (simp_all add: indexOK_def stdSort_props)

lemma find_star_lookup:
  assumes "indexOK db"
  shows "find_star db v
         = indexLookup (\<lambda>i. getIndex (stars db ! i)) (catalogNumberIndex db)
             (length (catalogNumberIndex db)) v"
  using indexOK_facts(1)[OF assms] by (simp add: find_star_indexLookup)

lemma find_star_Some:
  assumes "indexOK db" "find_star db v = Some p"
  shows "p < length (stars db) \<and> getIndex (stars db ! p) = v"
  using indexLookup_Some[OF indexOK_facts(4)[OF assms(1)], of v p] assms(2)
    indexOK_facts(2)[OF assms(1)]
  by (simp add: find_star_lookup[OF assms(1)])

lemma find_star_present:
  assumes "indexOK db" "p < length (stars db)"
  shows "\<exists>q. find_star db (getIndex (stars db ! p)) = Some q"
  using indexLookup_present[OF indexOK_facts(4)[OF assms(1)], of p "getIndex (stars db ! p)"]
    assms(2) indexOK_facts(2)[OF assms(1)]
  by (auto simp: find_star_lookup[OF assms(1)])

lemma find_star_absent:
  assumes "indexOK db" "\<forall>p<length (stars db). getIndex (stars db ! p) \<noteq> v"
  shows "find_star db v = None"
  using indexLookup_absent[OF indexOK_facts(4)[OF assms(1)], of v]
    assms(2) indexOK_facts(2)[OF assms(1)]
  by (simp add: find_star_lookup[OF assms(1)])

lemma inj_on_keys:
  assumes "distinct (map getIndex xs)"
  shows "inj_on (\<lambda>i. getIndex (xs ! i)) {0..<length xs}"
proof (rule inj_onI)
  fix i j assume "i \<in> {0..<length xs}" "j \<in> {0..<length xs}"
    and e: "getIndex (xs ! i) = getIndex (xs ! j)"
  then have "i < length (map getIndex xs)" "j < length (map getIndex xs)"
    "map getIndex xs ! i = map getIndex xs ! j" by simp_all
  with assms show "i = j" using nth_eq_iff_index_eq by blast
qed

lemma find_star_exact:
  assumes "indexOK db" "distinct (map getIndex (stars db))" "p < length (stars db)"
  shows "find_star db (getIndex (stars db ! p)) = Some p"
proof -
  have inj: "inj_on (\<lambda>i. getIndex (stars db ! i)) (set (catalogNumberIndex db))"
    using inj_on_keys[OF assms(2)] indexOK_facts(2)[OF assms(1)] by simp
  have "p \<in> set (catalogNumberIndex db)"
    using assms(3) indexOK_facts(2)[OF assms(1)] by simp
  from indexLookup_exact[OF indexOK_facts(4)[OF assms(1)] inj this]
  show ?thesis by (simp add: find_star_lookup[OF assms(1)])
qed

lemma index_strictly_sorted:
  assumes "indexOK db" "distinct (map getIndex (stars db))"
  shows "sorted_wrt (<) (map (\<lambda>i. getIndex (stars db ! i)) (catalogNumberIndex db))"
proof -
  have inj: "inj_on (\<lambda>i. getIndex (stars db ! i)) (set (catalogNumberIndex db))"
    using inj_on_keys[OF assms(2)] indexOK_facts(2)[OF assms(1)] by simp
  have "distinct (map (\<lambda>i. getIndex (stars db ! i)) (catalogNumberIndex db))"
    using inj indexOK_facts(3)[OF assms(1)] by (simp add: distinct_map)
  with indexOK_facts(4)[OF assms(1)] show ?thesis
    by (simp add: strict_sorted_iff)
qed

lemma indexOK_link:
  assumes "indexOK db"
  shows "indexOK (db\<lparr>stars := linkStars s bc (stars db)\<rparr>)"
proof -
  have "(\<lambda>i. getIndex (linkStars s bc (stars db) ! i)) = (\<lambda>i. getIndex (stars db ! i))"
    by (intro ext) (rule linkStars_index)
  with assms show ?thesis by (simp add: indexOK_def linkStars_length)
qed

lemma find_star_link:
  "find_star (db\<lparr>stars := linkStars s bc (stars db)\<rparr>) v = find_star db v"
  by (rule find_star_cong) (simp_all add: linkStars_index)

section \<open>Resolving the pending barycenters\<close>

lemma resolves_link:
  "resolves (db\<lparr>stars := linkStars s0 bc0 (stars db)\<rparr>) b s bc = resolves db b s bc"
  by (simp add: resolves_def find_star_link)

lemma resolveBarycenter_step:
  assumes "resolveBarycenter env b db = Inr db1"
  shows "(db1 = db \<and> (\<forall>s bc. \<not> resolves db b s bc))
       \<or> (\<exists>s bc. resolves db b s bc \<and> db1 = db\<lparr>stars := linkStars s bc (stars db)\<rparr>)"
  using assms unfolding resolveBarycenter_cases resolves_def
  by (auto split: option.splits if_splits)

lemma resolves_range:
  assumes "indexOK db" "resolves db b s bc"
  shows "s < length (stars db)" "bc < length (stars db)"
  using assms find_star_Some[OF assms(1)] by (auto simp: resolves_def)

lemma resolveBarycenters_frame:
  assumes "indexOK db" "resolveBarycenters env bs db = Inr db'"
  shows "indexOK db' \<and> (\<forall>v. find_star db' v = find_star db v)
       \<and> length (stars db') = length (stars db)
       \<and> (\<forall>i. getIndex (stars db' ! i) = getIndex (stars db ! i))
       \<and> nStars db' = nStars db \<and> catalogNumberIndex db' = catalogNumberIndex db
       \<and> logged db' = logged db \<and> barycenters db' = barycenters db"
  using assms
proof (induction bs arbitrary: db)
  case Nil
  then show ?case by simp
next
  case (Cons b bs)
  from Cons.prems(2) obtain db1 where
    st: "resolveBarycenter env b db = Inr db1" and rest: "resolveBarycenters env bs db1 = Inr db'"
    by (auto split: sum.splits)
  from resolveBarycenter_step[OF st] have
    one: "indexOK db1 \<and> (\<forall>v. find_star db1 v = find_star db v)
       \<and> length (stars db1) = length (stars db)
       \<and> (\<forall>i. getIndex (stars db1 ! i) = getIndex (stars db ! i))
       \<and> nStars db1 = nStars db \<and> catalogNumberIndex db1 = catalogNumberIndex db
       \<and> logged db1 = logged db \<and> barycenters db1 = barycenters db"
    using Cons.prems(1)
    by (auto simp: indexOK_link find_star_link linkStars_length linkStars_index)
  with Cons.IH[OF _ rest] show ?case by simp
qed

lemma resolves_frame:
  assumes "indexOK db" "resolveBarycenter env b0 db = Inr db1"
  shows "resolves db1 b s bc = resolves db b s bc" "indexOK db1"
  using resolveBarycenter_step[OF assms(2)] assms(1)
  by (auto simp: resolves_link indexOK_link)

lemma resolveBarycenters_orbiting_mono:
  assumes "indexOK db" "resolveBarycenters env bs db = Inr db'"
  shows "set (getOrbitingStars (stars db ! c)) \<subseteq> set (getOrbitingStars (stars db' ! c))"
  using assms
proof (induction bs arbitrary: db)
  case Nil
  then show ?case by simp
next
  case (Cons b bs)
  from Cons.prems(2) obtain db1 where
    st: "resolveBarycenter env b db = Inr db1" and rest: "resolveBarycenters env bs db1 = Inr db'"
    by (auto split: sum.splits)
  have ok1: "indexOK db1" by (rule resolves_frame(2)[OF Cons.prems(1) st])
  have "set (getOrbitingStars (stars db ! c)) \<subseteq> set (getOrbitingStars (stars db1 ! c))"
  proof -
    from resolveBarycenter_step[OF st] show ?thesis
    proof (elim disjE exE conjE)
      assume "db1 = db" then show ?thesis by simp
    next
      fix s bc assume r: "resolves db b s bc"
        and d: "db1 = db\<lparr>stars := linkStars s bc (stars db)\<rparr>"
      show ?thesis
      proof (cases "c = bc")
        case True
        with d resolves_range(2)[OF Cons.prems(1) r] show ?thesis
          by (auto simp: linkStars_orbiting)
      next
        case False
        with d show ?thesis by (simp add: linkStars_orbiting_other)
      qed
    qed
  qed
  with Cons.IH[OF ok1 rest] show ?case by blast
qed

lemma resolveBarycenters_orbiting:
  assumes "indexOK db" "resolveBarycenters env bs db = Inr db'"
    and "b \<in> set bs" "resolves db b s bc"
  shows "s \<in> set (getOrbitingStars (stars db' ! bc))"
  using assms
proof (induction bs arbitrary: db)
  case Nil
  then show ?case by simp
next
  case (Cons b0 bs)
  from Cons.prems(2) obtain db1 where
    st: "resolveBarycenter env b0 db = Inr db1" and rest: "resolveBarycenters env bs db1 = Inr db'"
    by (auto split: sum.splits)
  have ok1: "indexOK db1" by (rule resolves_frame(2)[OF Cons.prems(1) st])
  have r1: "resolves db1 b s bc"
    using resolves_frame(1)[OF Cons.prems(1) st] Cons.prems(4) by simp
  show ?case
  proof (cases "b = b0")
    case True
    from resolveBarycenter_step[OF st] Cons.prems(4) True
    have d: "db1 = db\<lparr>stars := linkStars s bc (stars db)\<rparr>"
      by (auto simp: resolves_def)
    have "s \<in> set (getOrbitingStars (stars db1 ! bc))"
      using d resolves_range(2)[OF Cons.prems(1,4)] by (simp add: linkStars_orbiting)
    with resolveBarycenters_orbiting_mono[OF ok1 rest, of bc] show ?thesis by blast
  next
    case False
    with Cons.prems(3) have "b \<in> set bs" by simp
    from Cons.IH[OF ok1 rest this r1] show ?thesis .
  qed
qed

lemma resolveBarycenters_link:
  assumes "indexOK db" "resolveBarycenters env bs db = Inr db'"
  shows "if \<exists>b\<in>set bs. \<exists>bc. resolves db b s bc
         then \<exists>b\<in>set bs. \<exists>bc. resolves db b s bc
                \<and> getOrbitBarycenter (stars db' ! s) = Some bc
         else getOrbitBarycenter (stars db' ! s) = getOrbitBarycenter (stars db ! s)"
  using assms
proof (induction bs arbitrary: db)
  case Nil
  then show ?case by simp
next
  case (Cons b0 bs)
  from Cons.prems(2) obtain db1 where
    st: "resolveBarycenter env b0 db = Inr db1" and rest: "resolveBarycenters env bs db1 = Inr db'"
    by (auto split: sum.splits)
  have ok1: "indexOK db1" by (rule resolves_frame(2)[OF Cons.prems(1) st])
  have re: "\<And>b s bc. resolves db1 b s bc = resolves db b s bc"
    by (rule resolves_frame(1)[OF Cons.prems(1) st])
  note IH = Cons.IH[OF ok1 rest, unfolded re]
  show ?case
  proof (cases "\<exists>b\<in>set bs. \<exists>bc. resolves db b s bc")
    case True
    with IH show ?thesis by auto
  next
    case False
    with IH have keep: "getOrbitBarycenter (stars db' ! s) = getOrbitBarycenter (stars db1 ! s)"
      by simp
    from resolveBarycenter_step[OF st] show ?thesis
    proof (elim disjE exE conjE)
      assume "db1 = db" "\<forall>s bc. \<not> resolves db b0 s bc"
      with keep False show ?thesis by simp
    next
      fix s0 bc0 assume r: "resolves db b0 s0 bc0"
        and d: "db1 = db\<lparr>stars := linkStars s0 bc0 (stars db)\<rparr>"
      show ?thesis
      proof (cases "s0 = s")
        case True
        with d keep resolves_range(1)[OF Cons.prems(1) r]
        have "getOrbitBarycenter (stars db' ! s) = Some bc0"
          by (simp add: linkStars_barycenter)
        with r True show ?thesis by auto
      next
        case F: False
        with d keep have k: "getOrbitBarycenter (stars db' ! s) = getOrbitBarycenter (stars db ! s)"
          by (simp add: linkStars_barycenter_other)
        have "\<not> (\<exists>bc. resolves db b0 s bc)"
          using r F by (auto simp: resolves_def)
        with False k show ?thesis by simp
      qed
    qed
  qed
qed

lemma resolveBarycenters_release:
  assumes "NDEBUG env"
  shows "\<exists>db'. resolveBarycenters env bs db = Inr db'"
proof (induction bs arbitrary: db)
  case Nil
  then show ?case by simp
next
  case (Cons b bs)
  have "\<exists>db1. resolveBarycenter env b db = Inr db1"
    using assms unfolding resolveBarycenter_cases by (auto split: option.splits)
  then obtain db1 where "resolveBarycenter env b db = Inr db1" by blast
  with Cons.IH[of db1] show ?case by simp
qed

lemma resolveBarycenters_debug:
  assumes "\<not> NDEBUG env" "indexOK db" "b \<in> set bs"
    and "find_star db (bc_catNo b) = None \<or> find_star db (bc_barycenterCatNo b) = None"
  shows "resolveBarycenters env bs db = Inl AssertionFailed"
  using assms(2-4)
proof (induction bs arbitrary: db)
  case Nil
  then show ?case by simp
next
  case (Cons b0 bs)
  show ?case
  proof (cases "resolveBarycenter env b0 db")
    case (Inl f)
    then have "f = AssertionFailed"
      unfolding resolveBarycenter_cases by (auto split: option.splits if_splits)
    with Inl show ?thesis by simp
  next
    case (Inr db1)
    have ok1: "indexOK db1" by (rule resolves_frame(2)[OF Cons.prems(1) Inr])
    have fs: "\<And>v. find_star db1 v = find_star db v"
      using resolveBarycenter_step[OF Inr] by (auto simp: find_star_link)
    have "b \<noteq> b0"
    proof
      assume "b = b0"
      with Cons.prems(3) assms(1) have "resolveBarycenter env b0 db = Inl AssertionFailed"
        unfolding resolveBarycenter_cases by (auto split: option.splits)
      with Inr show False by simp
    qed
    with Cons.prems(2) have "b \<in> set bs" by simp
    from Cons.IH[OF ok1 this] Cons.prems(3) fs Inr show ?thesis by simp
  qed
qed

section \<open>The finish pass\<close>

lemma indexed_facts:
  "stars (indexed env db) = octreeOrder env (unsortedStars db)"
  "nStars (indexed env db) = nStars db"
  "catalogNumberIndex (indexed env db)
     = stdSort (\<lambda>i. getIndex (octreeOrder env (unsortedStars db) ! i)) [0..<nStars db]"
  "logged (indexed env db) = logged db @ finishLog"
  "barycenters (indexed env db) = barycenters db"
  "binFileCatalogNumberIndex (indexed env db) = binFileCatalogNumberIndex db"
  by (simp_all add: indexed_def buildIndexes_def buildOctree_def logMsg_def Let_def finishLog_def)

lemma finish_unfold:
  "finish env db =
     (case delete (binFileCatalogNumberIndex db) of
        Inl f \<Rightarrow> Inl f
      | Inr p \<Rightarrow>
          (case resolveBarycenters env (barycenters db)
                  ((indexed env db)\<lparr>binFileCatalogNumberIndex := p,
                                    stcFileCatalogNumberIndex := Map.empty\<rparr>) of
             Inl f \<Rightarrow> Inl f
           | Inr db5 \<Rightarrow> Inr (db5\<lparr>barycenters := []\<rparr>)))"
proof -
  have "finish env db =
     (case delete (binFileCatalogNumberIndex (indexed env db)) of
        Inl f \<Rightarrow> Inl f
      | Inr p \<Rightarrow>
          (case resolveBarycenters env
                  (barycenters ((indexed env db)\<lparr>binFileCatalogNumberIndex := p,
                                    stcFileCatalogNumberIndex := Map.empty\<rparr>))
                  ((indexed env db)\<lparr>binFileCatalogNumberIndex := p,
                                    stcFileCatalogNumberIndex := Map.empty\<rparr>) of
             Inl f \<Rightarrow> Inl f
           | Inr db5 \<Rightarrow> Inr (db5\<lparr>barycenters := []\<rparr>)))"
    unfolding finish_def indexed_def Let_def ..
  then show ?thesis
    by (simp add: indexed_facts cong: sum.case_cong)
qed

lemma indexOK_indexed:
  assumes "nStars db = length (unsortedStars db)"
    and "length (octreeOrder env (unsortedStars db)) = length (unsortedStars db)"
  shows "indexOK ((indexed env db)\<lparr>binFileCatalogNumberIndex := p,
                                    stcFileCatalogNumberIndex := m\<rparr>)"
  using assms by (simp add: indexOK_def indexed_facts)

lemma indexOK_barycenters: "indexOK (db\<lparr>barycenters := bs\<rparr>) = indexOK db"
  by (simp add: indexOK_def)

lemma find_star_barycenters: "find_star (db\<lparr>barycenters := bs\<rparr>) v = find_star db v"
  by (rule find_star_cong) simp_all

lemma resolves_barycenters: "resolves (db\<lparr>barycenters := bs\<rparr>) b s bc = resolves db b s bc"
  by (simp add: resolves_def find_star_barycenters)

lemma finish_steps:
  assumes "finish env db = Inr db'"
  obtains p db5 where "delete (binFileCatalogNumberIndex db) = Inr p"
    "resolveBarycenters env (barycenters db)
        ((indexed env db)\<lparr>binFileCatalogNumberIndex := p,
                          stcFileCatalogNumberIndex := Map.empty\<rparr>) = Inr db5"
    "db' = db5\<lparr>barycenters := []\<rparr>"
  using assms unfolding finish_unfold by (auto split: sum.splits)

lemma finish_indexOK:
  assumes "nStars db = length (unsortedStars db)"
    and "length (octreeOrder env (unsortedStars db)) = length (unsortedStars db)"
    and "finish env db = Inr db'"
  shows "indexOK db'"
proof -
  from assms(3) obtain p db5 where
    r: "resolveBarycenters env (barycenters db)
        ((indexed env db)\<lparr>binFileCatalogNumberIndex := p,
                          stcFileCatalogNumberIndex := Map.empty\<rparr>) = Inr db5"
    and d: "db' = db5\<lparr>barycenters := []\<rparr>"
    by (rule finish_steps)
  from resolveBarycenters_frame[OF indexOK_indexed[OF assms(1,2)] r]
  show ?thesis by (simp add: d indexOK_barycenters)
qed

section \<open>The finish pass on the sample catalogs\<close>

lemma indexed_two:
  assumes "unsortedStars db = [a, b]" "nStars db = 2"
  shows "indexed env db\<lparr>binFileCatalogNumberIndex := Freed,
           stcFileCatalogNumberIndex := Map.empty\<rparr>
   = (finishedFrom db (octreeOrder env [a, b]))
       \<lparr>catalogNumberIndex :=
          stdSort (\<lambda>i. getIndex (octreeOrder env [a, b] ! i)) [0..<2],
        barycenters := barycenters db\<rparr>"
  using assms
  by (simp add: indexed_def buildIndexes_def buildOctree_def logMsg_def Let_def finishLog_def
        finishedFrom_def)

lemma finish_two:
  assumes "unsortedStars db = [a, b]" "nStars db = 2" "binFileCatalogNumberIndex db = Live idx"
    and "octreeOrder env [a, b] = [a, b]" "getIndex a \<le> getIndex b"
  shows "finish env db =
     (case resolveBarycenters env (barycenters db)
             ((finishedFrom db [a, b])\<lparr>barycenters := barycenters db\<rparr>) of
        Inl f \<Rightarrow> Inl f
      | Inr db5 \<Rightarrow> Inr (db5\<lparr>barycenters := []\<rparr>))"
proof -
  have s: "stdSort (\<lambda>i. getIndex ([a, b] ! i)) [0..<2] = [0, 1]"
    using assms(5) by (simp add: stdSort_def upt_rec)
  have c: "(finishedFrom db [a, b])\<lparr>catalogNumberIndex := [0, 1], barycenters := barycenters db\<rparr>
           = (finishedFrom db [a, b])\<lparr>barycenters := barycenters db\<rparr>"
    by (simp add: finishedFrom_def)
  show ?thesis
    apply (subst finish_unfold)
    apply (simp only: assms(3) delete_def Ptr.case sum.case)
    apply (subst indexed_two[OF assms(1,2)])
    apply (simp only: assms(4) s c)
    done
qed

lemma finishedFrom_fields:
  "nStars (finishedFrom db xs) = nStars db" "stars (finishedFrom db xs) = xs"
  "catalogNumberIndex (finishedFrom db xs) = [0, 1]"
  "logged (finishedFrom db xs) = logged db @ finishLog"
  "barycenters (finishedFrom db xs) = []"
  by (simp_all add: finishedFrom_def)

lemma find_star_two:
  assumes "nStars db = 2" "catalogNumberIndex db = [0, 1]" "stars db = [a, b]"
    and "getIndex a = 7" "getIndex b = 9"
  shows "find_star db 7 = Some 0" "find_star db 9 = Some 1" "find_star db 42 = None"
    "find_star db 55 = None" "find_star db 100 = None"
  by (simp_all add: find_star_def assms lower_bound_0 lower_bound_left lower_bound_right Let_def)

lemma find_star_duplicate:
  assumes "nStars db = 2" "catalogNumberIndex db = [0, 1]" "stars db = [a, b]"
    and "getIndex a = 7" "getIndex b = 7"
  shows "find_star db 7 = Some 0"
  by (simp add: find_star_def assms lower_bound_0 lower_bound_left lower_bound_right Let_def)

lemma sample_indexes: "getIndex sampleStar7 = 7" "getIndex sampleStar9 = 9"
  "getIndex (sampleBinStar n m) = n"
  by (simp_all add: sampleStar7_def sampleStar9_def sampleBinStar_def)

lemma sort_two:
  "stdSort (\<lambda>i. getIndex ([a, b] ! i)) [0..<2] = (if getIndex a \<le> getIndex b then [0, 1] else [1, 0])"
  by (simp add: stdSort_def upt_rec)

lemma sampleCatalog_fields:
  "unsortedStars sampleCatalog = [sampleStar7, sampleStar9]" "nStars sampleCatalog = 2"
  "binFileCatalogNumberIndex sampleCatalog = Live [0, 1]" "barycenters sampleCatalog = []"
  "logged sampleCatalog = []"
  by (simp_all add: sampleCatalog_def newStarDatabase_def)

lemma duplicateLoaded_fields:
  "unsortedStars duplicateLoaded = [sampleBinStar 7 5, sampleBinStar 7 3]"
  "nStars duplicateLoaded = 2"
  "binFileCatalogNumberIndex duplicateLoaded = Live [0, 1]" "barycenters duplicateLoaded = []"
  "logged duplicateLoaded = binaryLog"
  by (simp_all add: duplicateLoaded_def newStarDatabase_def)

lemma pendingCatalog_fields:
  "unsortedStars pendingCatalog = [sampleStar7, sampleStar9]" "nStars pendingCatalog = 2"
  "binFileCatalogNumberIndex pendingCatalog = Live [0, 1]"
  "barycenters pendingCatalog = [\<lparr>bc_catNo = 9, bc_barycenterCatNo = 7\<rparr>,
                                 \<lparr>bc_catNo = 100, bc_barycenterCatNo = 55\<rparr>]"
  "logged pendingCatalog = []"
  by (simp_all add: pendingCatalog_def sampleCatalog_fields)

lemma sampleEnv_fields: "octreeOrder sampleEnv xs = xs" "NDEBUG sampleEnv"
  "octreeOrder (sampleEnv\<lparr>NDEBUG := False\<rparr>) xs = xs"
  by (simp_all add: sampleEnv_def)

lemma finishedFrom_barycenters:
  "finishedFrom db xs\<lparr>barycenters := []\<rparr> = finishedFrom db xs"
  by (simp add: finishedFrom_def)

lemma finish_sampleCatalog:
  "finish sampleEnv sampleCatalog = Inr (finishedFrom sampleCatalog [sampleStar7, sampleStar9])"
  by (subst finish_two[OF sampleCatalog_fields(1,2,3)])
     (simp_all add: sampleEnv_fields sample_indexes sampleCatalog_fields finishedFrom_barycenters)

lemma finish_duplicateLoaded:
  "finish sampleEnv duplicateLoaded = Inr duplicateFinished"
  by (subst finish_two[OF duplicateLoaded_fields(1,2,3)])
     (simp_all add: sampleEnv_fields sample_indexes duplicateLoaded_fields
        finishedFrom_barycenters duplicateFinished_def)

lemma finish_pendingCatalog:
  "finish sampleEnv pendingCatalog = Inr pendingFinished"
  "finish (sampleEnv\<lparr>NDEBUG := False\<rparr>) pendingCatalog = Inl AssertionFailed"
proof -
  show "finish sampleEnv pendingCatalog = Inr pendingFinished"
    apply (subst finish_two[OF pendingCatalog_fields(1,2,3)])
      apply (simp_all add: sampleEnv_fields sample_indexes pendingCatalog_fields)
    apply (simp add: resolveBarycenter_def find_star_two finishedFrom_fields sample_indexes
             pendingCatalog_fields sampleEnv_fields
             setOrbitBarycenter_def addOrbitingStar_def Let_def)
    apply (simp add: finishedFrom_def pendingFinished_def sampleStar7_def sampleStar_def)
    done
  show "finish (sampleEnv\<lparr>NDEBUG := False\<rparr>) pendingCatalog = Inl AssertionFailed"
    apply (subst finish_two[OF pendingCatalog_fields(1,2,3)])
      apply (simp_all add: sampleEnv_fields sample_indexes pendingCatalog_fields)
    apply (simp add: resolveBarycenter_def find_star_two finishedFrom_fields sample_indexes
             pendingCatalog_fields sampleEnv_fields
             setOrbitBarycenter_def addOrbitingStar_def Let_def)
    done
qed

lemma find_star_finished:
  "find_star (finishedFrom sampleCatalog [sampleStar7, sampleStar9]) 7 = Some 0"
  "find_star (finishedFrom sampleCatalog [sampleStar7, sampleStar9]) 9 = Some 1"
  "find_star (finishedFrom sampleCatalog [sampleStar7, sampleStar9]) 42 = None"
  "find_star duplicateFinished 7 = Some 0"
  "find_star pendingFinished 100 = None"
  "find_star pendingFinished 9 = Some 1"
  "find_star pendingFinished 7 = Some 0"
  by (simp_all add: find_star_two find_star_duplicate finishedFrom_fields sample_indexes
        sampleCatalog_fields duplicateLoaded_fields pendingCatalog_fields
        duplicateFinished_def pendingFinished_def)

section \<open>The finish pass in both builds\<close>

lemma find_star_found:
  assumes "indexOK db"
  shows "find_star db v \<noteq> None \<longleftrightarrow> v \<in> getIndex ` set (stars db)"
proof
  assume "find_star db v \<noteq> None"
  then obtain p where "find_star db v = Some p" by auto
  from find_star_Some[OF assms this] show "v \<in> getIndex ` set (stars db)"
    by (metis imageI nth_mem)
next
  assume "v \<in> getIndex ` set (stars db)"
  then obtain p where "p < length (stars db)" "getIndex (stars db ! p) = v"
    by (auto simp: in_set_conv_nth)
  with find_star_present[OF assms, of p] show "find_star db v \<noteq> None" by auto
qed

lemma resolveBarycenters_resolved:
  assumes "\<forall>b\<in>set bs. find_star db (bc_catNo b) \<noteq> None
                      \<and> find_star db (bc_barycenterCatNo b) \<noteq> None"
  shows "resolveBarycenters env bs db = resolveBarycenters (env\<lparr>NDEBUG := True\<rparr>) bs db"
  using assms
proof (induction bs arbitrary: db)
  case Nil
  show ?case by simp
next
  case (Cons b bs)
  from Cons.prems obtain s bc where
    f: "find_star db (bc_catNo b) = Some s" "find_star db (bc_barycenterCatNo b) = Some bc"
    by auto
  let ?db1 = "db\<lparr>stars := linkStars s bc (stars db)\<rparr>"
  have r: "resolveBarycenter env b db = Inr ?db1"
    "resolveBarycenter (env\<lparr>NDEBUG := True\<rparr>) b db = Inr ?db1"
    by (simp_all add: resolveBarycenter_cases f)
  have "\<forall>b\<in>set bs. find_star ?db1 (bc_catNo b) \<noteq> None
                      \<and> find_star ?db1 (bc_barycenterCatNo b) \<noteq> None"
    using Cons.prems by (simp add: find_star_link)
  from Cons.IH[OF this] r show ?case by simp
qed

lemma indexed_NDEBUG: "indexed (env\<lparr>NDEBUG := b\<rparr>) db = indexed env db"
  by (simp add: indexed_def buildOctree_def Let_def)

lemma resolvable_NDEBUG: "resolvable (env\<lparr>NDEBUG := b\<rparr>) db = resolvable env db"
  by (simp add: resolvable_def fun_eq_iff)

lemma resolvable_find:
  assumes "nStars db = length (unsortedStars db)"
    and "length (octreeOrder env (unsortedStars db)) = length (unsortedStars db)"
  shows "resolvable env db b
         \<longleftrightarrow> find_star ((indexed env db)\<lparr>binFileCatalogNumberIndex := p,
                                    stcFileCatalogNumberIndex := m\<rparr>) (bc_catNo b) \<noteq> None
             \<and> find_star ((indexed env db)\<lparr>binFileCatalogNumberIndex := p,
                                    stcFileCatalogNumberIndex := m\<rparr>) (bc_barycenterCatNo b) \<noteq> None"
proof -
  let ?D = "(indexed env db)\<lparr>binFileCatalogNumberIndex := p, stcFileCatalogNumberIndex := m\<rparr>"
  have ok: "indexOK ?D" by (rule indexOK_indexed[OF assms])
  have s: "stars ?D = octreeOrder env (unsortedStars db)" by (simp add: indexed_facts)
  show ?thesis
    unfolding find_star_found[OF ok] s resolvable_def ..
qed

text \<open>What \<^verbatim>\<open>finish\<close> returns when assertions are compiled out.\<close>

lemma finish_release:
  assumes "nStars db = length (unsortedStars db)"
    and "length (octreeOrder env (unsortedStars db)) = length (unsortedStars db)"
    and "binFileCatalogNumberIndex db \<noteq> Freed"
    and "NDEBUG env"
  shows "\<exists>db'. finish env db = Inr db'
              \<and> logged db' = logged db @ finishLog
              \<and> barycenters db' = []
              \<and> (\<forall>b\<in>set (barycenters db). resolvable env db b = (\<exists>s bc. resolves db' b s bc))
              \<and> (\<forall>b\<in>set (barycenters db). \<forall>s bc. resolves db' b s bc
                    \<longrightarrow> getIndex (stars db' ! s) = bc_catNo b
                      \<and> getIndex (stars db' ! bc) = bc_barycenterCatNo b
                      \<and> s \<in> set (getOrbitingStars (stars db' ! bc)))
              \<and> (\<forall>s. if \<exists>b\<in>set (barycenters db). \<exists>bc. resolves db' b s bc
                      then \<exists>b\<in>set (barycenters db). \<exists>bc. resolves db' b s bc
                             \<and> getOrbitBarycenter (stars db' ! s) = Some bc
                      else getOrbitBarycenter (stars db' ! s)
                           = getOrbitBarycenter (octreeOrder env (unsortedStars db) ! s))"
proof -
  from assms(3) obtain p where p: "delete (binFileCatalogNumberIndex db) = Inr p"
    by (cases "binFileCatalogNumberIndex db") (auto simp: delete_def)
  let ?D = "(indexed env db)\<lparr>binFileCatalogNumberIndex := p,
                            stcFileCatalogNumberIndex := Map.empty\<rparr>"
  have ok: "indexOK ?D" by (rule indexOK_indexed[OF assms(1,2)])
  from resolveBarycenters_release[OF assms(4)] obtain db5 where
    r: "resolveBarycenters env (barycenters db) ?D = Inr db5" by blast
  let ?db' = "db5\<lparr>barycenters := []\<rparr>"
  have f: "finish env db = Inr ?db'" by (simp add: finish_unfold p r)
  note fr = resolveBarycenters_frame[OF ok r]
  have ok': "indexOK ?db'" using fr by (simp add: indexOK_barycenters)
  have fs: "\<And>b s bc. resolves ?db' b s bc = resolves ?D b s bc"
    using fr by (simp add: resolves_def find_star_barycenters)
  have lg: "logged ?db' = logged db @ finishLog" using fr by (simp add: indexed_facts)
  have rs: "\<forall>b\<in>set (barycenters db). resolvable env db b = (\<exists>s bc. resolves ?db' b s bc)"
  proof
    fix b
    have "resolvable env db b
          = (find_star ?D (bc_catNo b) \<noteq> None \<and> find_star ?D (bc_barycenterCatNo b) \<noteq> None)"
      by (rule resolvable_find[OF assms(1,2)])
    also have "\<dots> = (\<exists>s bc. resolves ?D b s bc)" by (auto simp: resolves_def)
    finally show "resolvable env db b = (\<exists>s bc. resolves ?db' b s bc)" by (simp add: fs)
  qed
  have ix: "\<And>b s bc. resolves ?db' b s bc
              \<Longrightarrow> getIndex (stars ?db' ! s) = bc_catNo b
                \<and> getIndex (stars ?db' ! bc) = bc_barycenterCatNo b"
    using find_star_Some[OF ok'] unfolding resolves_def by blast
  have orb: "\<forall>b\<in>set (barycenters db). \<forall>s bc. resolves ?db' b s bc
                    \<longrightarrow> getIndex (stars ?db' ! s) = bc_catNo b
                      \<and> getIndex (stars ?db' ! bc) = bc_barycenterCatNo b
                      \<and> s \<in> set (getOrbitingStars (stars ?db' ! bc))"
  proof (intro ballI allI impI)
    fix b s bc assume b: "b \<in> set (barycenters db)" and r': "resolves ?db' b s bc"
    from resolveBarycenters_orbiting[OF ok r b] r' fs
    have "s \<in> set (getOrbitingStars (stars db5 ! bc))" by blast
    with ix[OF r'] show "getIndex (stars ?db' ! s) = bc_catNo b
                      \<and> getIndex (stars ?db' ! bc) = bc_barycenterCatNo b
                      \<and> s \<in> set (getOrbitingStars (stars ?db' ! bc))" by simp
  qed
  have lk: "\<forall>s. if \<exists>b\<in>set (barycenters db). \<exists>bc. resolves ?db' b s bc
                      then \<exists>b\<in>set (barycenters db). \<exists>bc. resolves ?db' b s bc
                             \<and> getOrbitBarycenter (stars ?db' ! s) = Some bc
                      else getOrbitBarycenter (stars ?db' ! s)
                           = getOrbitBarycenter (octreeOrder env (unsortedStars db) ! s)"
  proof
    fix s
    from resolveBarycenters_link[OF ok r, of s]
    show "if \<exists>b\<in>set (barycenters db). \<exists>bc. resolves ?db' b s bc
                      then \<exists>b\<in>set (barycenters db). \<exists>bc. resolves ?db' b s bc
                             \<and> getOrbitBarycenter (stars ?db' ! s) = Some bc
                      else getOrbitBarycenter (stars ?db' ! s)
                           = getOrbitBarycenter (octreeOrder env (unsortedStars db) ! s)"
      by (simp add: fs indexed_facts)
  qed
  have bz: "barycenters ?db' = []" by simp
  from f lg bz rs orb lk show ?thesis by blast
qed

text \<open>With every pending pair resolvable the assertions hold, and both builds do the same.\<close>

lemma finish_resolved:
  assumes "nStars db = length (unsortedStars db)"
    and "length (octreeOrder env (unsortedStars db)) = length (unsortedStars db)"
    and "\<forall>b\<in>set (barycenters db). resolvable env db b"
  shows "finish env db = finish (env\<lparr>NDEBUG := True\<rparr>) db"
proof (cases "delete (binFileCatalogNumberIndex db)")
  case (Inl f)
  then show ?thesis by (simp add: finish_unfold)
next
  case (Inr p)
  let ?D = "(indexed env db)\<lparr>binFileCatalogNumberIndex := p,
                            stcFileCatalogNumberIndex := Map.empty\<rparr>"
  have "\<forall>b\<in>set (barycenters db). find_star ?D (bc_catNo b) \<noteq> None
                      \<and> find_star ?D (bc_barycenterCatNo b) \<noteq> None"
    using assms(3) resolvable_find[OF assms(1,2), where p=p and m=Map.empty] by blast
  from resolveBarycenters_resolved[OF this, of env]
  show ?thesis by (simp add: finish_unfold Inr indexed_NDEBUG)
qed

lemma finish_asserts:
  assumes "nStars db = length (unsortedStars db)"
    and "length (octreeOrder env (unsortedStars db)) = length (unsortedStars db)"
    and "binFileCatalogNumberIndex db \<noteq> Freed"
    and "\<not> NDEBUG env" "b \<in> set (barycenters db)" "\<not> resolvable env db b"
  shows "finish env db = Inl AssertionFailed"
proof -
  from assms(3) obtain p where p: "delete (binFileCatalogNumberIndex db) = Inr p"
    by (cases "binFileCatalogNumberIndex db") (auto simp: delete_def)
  let ?D = "(indexed env db)\<lparr>binFileCatalogNumberIndex := p,
                            stcFileCatalogNumberIndex := Map.empty\<rparr>"
  have ok: "indexOK ?D" by (rule indexOK_indexed[OF assms(1,2)])
  have "find_star ?D (bc_catNo b) = None \<or> find_star ?D (bc_barycenterCatNo b) = None"
    using assms(6) resolvable_find[OF assms(1,2), where p=p and m=Map.empty and b=b] by blast
  from resolveBarycenters_debug[OF assms(4) ok assms(5) this]
  show ?thesis by (simp add: finish_unfold p)
qed

lemma resolvedCatalog_fields:
  "unsortedStars resolvedCatalog = [sampleStar7, sampleStar9]" "nStars resolvedCatalog = 2"
  "binFileCatalogNumberIndex resolvedCatalog = Live [0, 1]"
  "barycenters resolvedCatalog = [\<lparr>bc_catNo = 9, bc_barycenterCatNo = 7\<rparr>]"
  "logged resolvedCatalog = []"
  by (simp_all add: resolvedCatalog_def sampleCatalog_fields)

lemma finish_resolvedCatalog:
  "finish (sampleEnv\<lparr>NDEBUG := False\<rparr>) resolvedCatalog = Inr resolvedFinished"
  apply (subst finish_two[OF resolvedCatalog_fields(1,2,3)])
    apply (simp_all add: sampleEnv_fields sample_indexes resolvedCatalog_fields)
  apply (simp add: resolveBarycenter_def find_star_two finishedFrom_fields sample_indexes
           resolvedCatalog_fields sampleEnv_fields
           setOrbitBarycenter_def addOrbitingStar_def Let_def)
  apply (simp add: finishedFrom_def resolvedFinished_def sampleStar7_def sampleStar_def)
  done

lemma resolvable_sample:
  "resolvable (sampleEnv\<lparr>NDEBUG := b\<rparr>) resolvedCatalog \<lparr>bc_catNo = 9, bc_barycenterCatNo = 7\<rparr>"
  "resolvable sampleEnv pendingCatalog \<lparr>bc_catNo = 9, bc_barycenterCatNo = 7\<rparr>"
  "\<not> resolvable (sampleEnv\<lparr>NDEBUG := b\<rparr>) pendingCatalog \<lparr>bc_catNo = 100, bc_barycenterCatNo = 55\<rparr>"
  by (simp_all add: resolvable_def sampleEnv_def resolvedCatalog_fields pendingCatalog_fields
        sample_indexes)

section \<open>The binary catalog\<close>

lemma recordsKnown_iff:
  "recordsKnown env off n bytes
   \<longleftrightarrow> (\<forall>i<n. starDetailsV1 env (spectralTypeAt bytes (off + 20 * i)) \<noteq> None)"
  by (auto simp: recordsKnown_def list_all_iff)

lemma readBytes_good:
  assumes "readable inp" "n \<le> length (content inp)"
  shows "readBytes n inp = (ReadGood (take n (content inp)), inp\<lparr>content := drop n (content inp)\<rparr>)"
  using assms by (simp add: readBytes_def readable_def)

lemma readBytes_short:
  assumes "readable inp" "\<not> n \<le> length (content inp)"
  shows "readBytes n inp = (ReadEof (content inp), inp\<lparr>content := []\<rparr>)"
  using assms by (simp add: readBytes_def readable_def)

lemma readBytes_bad:
  assumes "\<not> readable inp"
  shows "readBytes n inp = (ReadBad, inp\<lparr>badbit := True\<rparr>)"
  using assms by (auto simp: readBytes_def readable_def)

lemma le16_drop:
  assumes "j + 1 < length bs"
  shows "le16 (drop j bs) = of_nat (unat (bs ! j) + 256 * unat (bs ! (j + 1)))"
  using assms by (simp add: le16_def)

lemma decode_known:
  assumes "off + 20 \<le> length bytes"
  shows "decodeStarsDatRecord env (drop off bytes) \<noteq> None
         \<longleftrightarrow> starDetailsV1 env (spectralTypeAt bytes off) \<noteq> None"
proof -
  have "le16 (drop 18 (drop off bytes)) = spectralTypeAt bytes off"
    using assms by (simp add: le16_def spectralTypeAt_def add.commute)
  then show ?thesis
    by (auto simp: decodeStarsDatRecord_def Let_def split: option.splits)
qed

text \<open>The records of one buffer: all are decoded, or the first bad one stops the load.\<close>

lemma decodeRecords_ok:
  assumes "off + 20 * n \<le> length bytes"
  shows "fst (decodeRecords env n (drop off bytes) db) \<longleftrightarrow> recordsKnown env off n bytes"
  using assms
proof (induction n arbitrary: off db)
  case 0
  then show ?case by (simp add: recordsKnown_iff)
next
  case (Suc n)
  have dk: "decodeStarsDatRecord env (drop off bytes) \<noteq> None
         \<longleftrightarrow> starDetailsV1 env (spectralTypeAt bytes off) \<noteq> None"
    using Suc.prems by (intro decode_known) simp
  have split: "recordsKnown env off (Suc n) bytes
      \<longleftrightarrow> starDetailsV1 env (spectralTypeAt bytes off) \<noteq> None
          \<and> recordsKnown env (off + 20) n bytes"
  proof -
    have "(\<forall>i<Suc n. starDetailsV1 env (spectralTypeAt bytes (off + 20 * i)) \<noteq> None)
        \<longleftrightarrow> (starDetailsV1 env (spectralTypeAt bytes off) \<noteq> None
           \<and> (\<forall>i<n. starDetailsV1 env (spectralTypeAt bytes (off + 20 + 20 * i)) \<noteq> None))"
      (is "?L \<longleftrightarrow> ?R")
    proof
      assume l: ?L
      then have "starDetailsV1 env (spectralTypeAt bytes (off + 20 * 0)) \<noteq> None" by blast
      moreover have "\<forall>i<n. starDetailsV1 env (spectralTypeAt bytes (off + 20 + 20 * i)) \<noteq> None"
      proof (intro allI impI)
        fix i assume "i < n"
        then have "Suc i < Suc n" by simp
        with l have "starDetailsV1 env (spectralTypeAt bytes (off + 20 * Suc i)) \<noteq> None" by blast
        then show "starDetailsV1 env (spectralTypeAt bytes (off + 20 + 20 * i)) \<noteq> None"
          by (simp add: add.assoc)
      qed
      ultimately show ?R by simp
    next
      assume r: ?R
      show ?L
      proof (intro allI impI)
        fix i assume "i < Suc n"
        show "starDetailsV1 env (spectralTypeAt bytes (off + 20 * i)) \<noteq> None"
        proof (cases i)
          case 0
          with r show ?thesis by simp
        next
          case (Suc j)
          with \<open>i < Suc n\<close> have "j < n" by simp
          with r have "starDetailsV1 env (spectralTypeAt bytes (off + 20 + 20 * j)) \<noteq> None" by blast
          with Suc show ?thesis by (simp add: add.assoc)
        qed
      qed
    qed
    then show ?thesis by (simp add: recordsKnown_iff)
  qed
  show ?case
  proof (cases "decodeStarsDatRecord env (drop off bytes)")
    case None
    with dk split show ?thesis by simp
  next
    case (Some star)
    have "fst (decodeRecords env n (drop (off + 20) bytes)
               (db\<lparr>unsortedStars := unsortedStars db @ [star], nStars := nStars db + 1\<rparr>))
          \<longleftrightarrow> recordsKnown env (off + 20) n bytes"
      using Suc.prems by (intro Suc.IH) simp
    with Some dk split show ?thesis
      by (simp add: sizeof_StarsDatRecord_def add.commute)
  qed
qed

lemma decodeRecords_counts:
  assumes "decodeRecords env n ptr db = (True, db')"
  shows "nStars db' = nStars db + n \<and> length (unsortedStars db') = length (unsortedStars db) + n"
  using assms
proof (induction n arbitrary: ptr db)
  case 0
  then show ?case by simp
next
  case (Suc n)
  then show ?case by (auto split: option.splits)
qed

lemma recordsKnown_split:
  assumes "k \<le> n"
  shows "recordsKnown env off n bytes
         \<longleftrightarrow> recordsKnown env off k bytes \<and> recordsKnown env (off + 20 * k) (n - k) bytes"
proof
  assume a: "recordsKnown env off n bytes"
  have "\<forall>i<n - k. starDetailsV1 env (spectralTypeAt bytes (off + 20 * k + 20 * i)) \<noteq> None"
  proof (intro allI impI)
    fix i assume "i < n - k"
    then have "k + i < n" by simp
    with a have "starDetailsV1 env (spectralTypeAt bytes (off + 20 * (k + i))) \<noteq> None"
      unfolding recordsKnown_iff by blast
    then show "starDetailsV1 env (spectralTypeAt bytes (off + 20 * k + 20 * i)) \<noteq> None"
      by (simp add: algebra_simps)
  qed
  with a assms show "recordsKnown env off k bytes \<and> recordsKnown env (off + 20 * k) (n - k) bytes"
    by (simp add: recordsKnown_iff)
next
  assume a: "recordsKnown env off k bytes \<and> recordsKnown env (off + 20 * k) (n - k) bytes"
  show "recordsKnown env off n bytes"
    unfolding recordsKnown_iff
  proof (intro allI impI)
    fix i assume i: "i < n"
    show "starDetailsV1 env (spectralTypeAt bytes (off + 20 * i)) \<noteq> None"
    proof (cases "i < k")
      case True
      with a show ?thesis by (simp add: recordsKnown_iff)
    next
      case False
      then have "i - k < n - k" using i by simp
      with a have "starDetailsV1 env (spectralTypeAt bytes (off + 20 * k + 20 * (i - k))) \<noteq> None"
        by (simp add: recordsKnown_iff)
      moreover have "off + 20 * k + 20 * (i - k) = off + 20 * i" using False by simp
      ultimately show ?thesis by simp
    qed
  qed
qed

lemma recordsKnown_take:
  assumes "20 * n \<le> m" "off \<le> length bytes"
  shows "recordsKnown env 0 n (take m (drop off bytes)) \<longleftrightarrow> recordsKnown env off n bytes"
proof -
  have "\<And>i. i < n \<Longrightarrow> spectralTypeAt (take m (drop off bytes)) (0 + 20 * i)
                         = spectralTypeAt bytes (off + 20 * i)"
  proof -
    fix i assume "i < n"
    then have "20 * i + 19 < m" using assms by simp
    with assms(2) show "spectralTypeAt (take m (drop off bytes)) (0 + 20 * i)
                         = spectralTypeAt bytes (off + 20 * i)"
      by (simp add: spectralTypeAt_def add.assoc)
  qed
  then show ?thesis by (simp add: recordsKnown_iff)
qed

lemma BUFFER_RECORDS_value: "BUFFER_RECORDS = 204"
  by (simp add: BUFFER_RECORDS_def sizeof_StarsDatRecord_def)

lemma readStars_0: "readStars env 0 inp db = (True, inp, db)"
  by (subst readStars.simps) simp

lemma readStars_short_value:
  assumes "n \<noteq> 0" "readable inp" "\<not> 20 * min 204 n \<le> length (content inp)"
  shows "readStars env n inp db = (False, inp\<lparr>content := []\<rparr>, db)"
  using assms
  by (subst readStars.simps)
     (simp add: BUFFER_RECORDS_value sizeof_StarsDatRecord_def readBytes_short Let_def)

lemma readStars_short:
  assumes "n \<noteq> 0" "readable inp" "\<not> 20 * min 204 n \<le> length (content inp)"
  shows "fst (readStars env n inp db) = False"
  by (simp add: readStars_short_value[OF assms])

lemma readStars_bad_value:
  assumes "n \<noteq> 0" "\<not> readable inp"
  shows "readStars env n inp db = (False, inp\<lparr>badbit := True\<rparr>, db)"
  using assms
  by (subst readStars.simps) (simp add: readBytes_bad Let_def)

lemma readStars_bad:
  assumes "n \<noteq> 0" "\<not> readable inp"
  shows "fst (readStars env n inp db) = False"
  by (simp add: readStars_bad_value[OF assms])

lemma readStars_step:
  assumes "n \<noteq> 0" "readable inp" "20 * min 204 n \<le> length (content inp)"
  shows "readStars env n inp db =
     (case decodeRecords env (min 204 n) (take (20 * min 204 n) (content inp)) db of
        (ok, db') \<Rightarrow>
          if ok then readStars env (n - min 204 n)
                      (inp\<lparr>content := drop (20 * min 204 n) (content inp)\<rparr>) db'
          else (False, inp\<lparr>content := drop (20 * min 204 n) (content inp)\<rparr>, db'))"
  using assms
  by (subst readStars.simps)
     (auto simp: BUFFER_RECORDS_value sizeof_StarsDatRecord_def readBytes_good Let_def
           split: prod.splits)

lemma readStars_accepts:
  assumes "readable inp" "content inp = drop off bytes" "off \<le> length bytes"
  shows "fst (readStars env n inp db)
         \<longleftrightarrow> off + 20 * n \<le> length bytes \<and> recordsKnown env off n bytes"
  using assms
proof (induction n arbitrary: inp db off rule: less_induct)
  case (less n)
  show ?case
  proof (cases "n = 0")
    case True
    with less.prems show ?thesis by (simp add: readStars_0 recordsKnown_iff)
  next
    case False
    define k where "k = min 204 n"
    have k: "0 < k" "k \<le> n" using False by (simp_all add: k_def)
    show ?thesis
    proof (cases "20 * k \<le> length (content inp)")
      case short: False
      then have "fst (readStars env n inp db) = False"
        using readStars_short[OF False less.prems(1)] by (simp add: k_def)
      moreover have "\<not> off + 20 * n \<le> length bytes"
        using short k less.prems(2,3) by simp
      ultimately show ?thesis by simp
    next
      case True
      let ?inp' = "inp\<lparr>content := drop (20 * k) (content inp)\<rparr>"
      obtain ok db' where d:
        "decodeRecords env k (take (20 * k) (content inp)) db = (ok, db')"
        by (cases "decodeRecords env k (take (20 * k) (content inp)) db") auto
      have tk: "take (20 * k) (content inp) = drop 0 (take (20 * k) (content inp))" by simp
      have "fst (decodeRecords env k (drop 0 (take (20 * k) (content inp))) db)
            \<longleftrightarrow> recordsKnown env 0 k (take (20 * k) (content inp))"
        using True by (intro decodeRecords_ok) simp
      then have okk: "ok \<longleftrightarrow> recordsKnown env off k bytes"
        using d recordsKnown_take[of k "20 * k" off bytes env] less.prems(2,3) by simp
      have st: "readStars env n inp db =
          (if ok then readStars env (n - k) ?inp' db' else (False, ?inp', db'))"
        using readStars_step[OF False less.prems(1), of env db] True d by (simp add: k_def)
      show ?thesis
      proof (cases ok)
        case no: False
        with st okk recordsKnown_split[OF k(2), of env off bytes] show ?thesis by simp
      next
        case yes: True
        have r': "readable ?inp'" using less.prems(1) by (simp add: readable_def)
        have c': "content ?inp' = drop (off + 20 * k) bytes"
          using less.prems(2) by (simp add: add.commute)
        have o': "off + 20 * k \<le> length bytes" using True less.prems(2,3) by simp
        have lt: "n - k < n" using k by simp
        from less.IH[OF lt r' c' o', of db']
        have "fst (readStars env (n - k) ?inp' db')
              \<longleftrightarrow> off + 20 * k + 20 * (n - k) \<le> length bytes
                  \<and> recordsKnown env (off + 20 * k) (n - k) bytes" .
        moreover have "off + 20 * k + 20 * (n - k) = off + 20 * n" using k by simp
        ultimately show ?thesis
          using st yes okk recordsKnown_split[OF k(2), of env off bytes] by simp
      qed
    qed
  qed
qed

lemma readStars_result:
  assumes "readStars env n inp db = (True, inp', db')"
  shows "inp' = inp\<lparr>content := drop (20 * n) (content inp)\<rparr>
       \<and> 20 * n \<le> length (content inp)
       \<and> nStars db' = nStars db + n
       \<and> length (unsortedStars db') = length (unsortedStars db) + n"
  using assms
proof (induction n arbitrary: inp db rule: less_induct)
  case (less n)
  show ?case
  proof (cases "n = 0")
    case True
    with less.prems show ?thesis by (simp add: readStars_0)
  next
    case False
    define k where "k = min 204 n"
    have k: "0 < k" "k \<le> n" using False by (simp_all add: k_def)
    have rd: "readable inp"
      using readStars_bad[OF False, of inp env db] less.prems by auto
    have en: "20 * k \<le> length (content inp)"
      using readStars_short[OF False rd, of env db] less.prems by (auto simp: k_def)
    let ?inp' = "inp\<lparr>content := drop (20 * k) (content inp)\<rparr>"
    obtain ok db1 where d:
      "decodeRecords env k (take (20 * k) (content inp)) db = (ok, db1)"
      by (cases "decodeRecords env k (take (20 * k) (content inp)) db") auto
    have st: "readStars env n inp db =
        (if ok then readStars env (n - k) ?inp' db1 else (False, ?inp', db1))"
      using readStars_step[OF False rd, of env db] en d by (simp add: k_def)
    with less.prems have ok: ok and rest: "readStars env (n - k) ?inp' db1 = (True, inp', db')"
      by (auto split: if_splits)
    have lt: "n - k < n" using k by simp
    from less.IH[OF lt rest] decodeRecords_counts[OF d[unfolded ok[THEN eqTrueI]]] en k
    show ?thesis by (auto simp: algebra_simps)
  qed
qed

lemma readStars_append:
  assumes "readStars env n inp db = (True, inp', db')"
  shows "readStars env n (inp\<lparr>content := content inp @ extra\<rparr>) db
         = (True, inp'\<lparr>content := content inp' @ extra\<rparr>, db')"
  using assms
proof (induction n arbitrary: inp db rule: less_induct)
  case (less n)
  show ?case
  proof (cases "n = 0")
    case True
    with less.prems show ?thesis by (simp add: readStars_0)
  next
    case False
    define k where "k = min 204 n"
    have k: "0 < k" "k \<le> n" using False by (simp_all add: k_def)
    have rd: "readable inp"
      using readStars_bad[OF False, of inp env db] less.prems by auto
    have en: "20 * k \<le> length (content inp)"
      using readStars_short[OF False rd, of env db] less.prems by (auto simp: k_def)
    let ?inp' = "inp\<lparr>content := drop (20 * k) (content inp)\<rparr>"
    let ?inx = "inp\<lparr>content := content inp @ extra\<rparr>"
    obtain ok db1 where d:
      "decodeRecords env k (take (20 * k) (content inp)) db = (ok, db1)"
      by (cases "decodeRecords env k (take (20 * k) (content inp)) db") auto
    have st: "readStars env n inp db =
        (if ok then readStars env (n - k) ?inp' db1 else (False, ?inp', db1))"
      using readStars_step[OF False rd, of env db] en d by (simp add: k_def)
    with less.prems have ok: ok and rest: "readStars env (n - k) ?inp' db1 = (True, inp', db')"
      by (auto split: if_splits)
    have rdx: "readable ?inx" using rd by (simp add: readable_def)
    have enx: "20 * min 204 n \<le> length (content ?inx)" using en by (simp add: k_def)
    have "readStars env n ?inx db = readStars env (n - k)
             (?inx\<lparr>content := drop (20 * k) (content ?inx)\<rparr>) db1"
      using readStars_step[OF False rdx enx, of env db] en d ok by (simp add: k_def)
    moreover have "?inx\<lparr>content := drop (20 * k) (content ?inx)\<rparr>
                   = ?inp'\<lparr>content := content ?inp' @ extra\<rparr>"
      using en by simp
    moreover have lt: "n - k < n" using k by simp
    ultimately show ?thesis using less.IH[OF lt rest] by simp
  qed
qed

lemma sameIndexes_refl: "sameIndexes db db"
  by (simp add: sameIndexes_def)

lemma decodeRecords_frame:
  "sameIndexes db (snd (decodeRecords env n ptr db))"
proof (induction n arbitrary: ptr db)
  case 0
  show ?case by (simp add: sameIndexes_def)
next
  case (Suc n)
  show ?case
  proof (cases "decodeStarsDatRecord env ptr")
    case None
    then show ?thesis by (simp add: sameIndexes_def logMsg_def)
  next
    case (Some star)
    let ?db1 = "db\<lparr>unsortedStars := unsortedStars db @ [star], nStars := nStars db + 1\<rparr>"
    have "sameIndexes ?db1 (snd (decodeRecords env n (drop sizeof_StarsDatRecord ptr) ?db1))"
      by (rule Suc.IH)
    then have "sameIndexes db (snd (decodeRecords env n (drop sizeof_StarsDatRecord ptr) ?db1))"
      unfolding sameIndexes_def
      by (auto dest: arg_cong[where f = "take (length (unsortedStars db))"])
    with Some show ?thesis by simp
  qed
qed

lemma sameIndexes_trans:
  assumes "sameIndexes a b" "sameIndexes b c"
  shows "sameIndexes a c"
proof -
  have l: "length (unsortedStars a) \<le> length (unsortedStars b)"
  proof -
    have "length (take (length (unsortedStars a)) (unsortedStars b)) = length (unsortedStars a)"
      using assms(1) by (simp add: sameIndexes_def)
    then show ?thesis by (simp add: min_def split: if_splits)
  qed
  have "take (length (unsortedStars a)) (unsortedStars c)
        = take (length (unsortedStars a)) (take (length (unsortedStars b)) (unsortedStars c))"
    using l by (simp add: min_absorb1)
  with assms show ?thesis by (simp add: sameIndexes_def)
qed

lemma readStars_frame:
  "sameIndexes db (snd (snd (readStars env n inp db)))"
proof (induction n arbitrary: inp db rule: less_induct)
  case (less n)
  show ?case
  proof (cases "n = 0")
    case True
    then show ?thesis by (simp add: readStars_0 sameIndexes_refl)
  next
    case False
    define k where "k = min 204 n"
    have k: "0 < k" "k \<le> n" using False by (simp_all add: k_def)
    show ?thesis
    proof (cases "readable inp")
      case no: False
      show ?thesis by (simp add: readStars_bad_value[OF False no] sameIndexes_refl)
    next
      case rd: True
      show ?thesis
      proof (cases "20 * k \<le> length (content inp)")
        case short: False
        then have "\<not> 20 * min 204 n \<le> length (content inp)" by (simp add: k_def)
        from readStars_short_value[OF False rd this] show ?thesis
          by (simp add: sameIndexes_refl)
      next
        case en: True
        let ?inp' = "inp\<lparr>content := drop (20 * k) (content inp)\<rparr>"
        obtain ok db1 where d:
          "decodeRecords env k (take (20 * k) (content inp)) db = (ok, db1)"
          by (cases "decodeRecords env k (take (20 * k) (content inp)) db") auto
        have f1: "sameIndexes db db1"
          using decodeRecords_frame[of db env k "take (20 * k) (content inp)"] d by simp
        have st: "readStars env n inp db =
            (if ok then readStars env (n - k) ?inp' db1 else (False, ?inp', db1))"
          using readStars_step[OF False rd, of env db] en d by (simp add: k_def)
        have lt: "n - k < n" using k by simp
        show ?thesis
        proof (cases ok)
          case True
          with st sameIndexes_trans[OF f1 less.IH[OF lt, of db1 ?inp']] show ?thesis by simp
        next
          case False
          with st f1 show ?thesis by simp
        qed
      qed
    qed
  qed
qed

section \<open>The binary catalog as a whole\<close>

lemma header_fields:
  assumes "14 \<le> length bytes"
  shows "take 8 (take 14 bytes) = take 8 bytes"
    and "le16 (drop 8 (take 14 bytes)) = le16 (drop 8 bytes)"
    and "le32 (drop 10 (take 14 bytes)) = le32 (drop 10 bytes)"
  using assms by (simp_all add: le16_def le32_def)

lemma header_fields_append:
  assumes "14 \<le> length bytes"
  shows "take 8 (bytes @ extra) = take 8 bytes"
    and "le16 (drop 8 (bytes @ extra)) = le16 (drop 8 bytes)"
    and "le32 (drop 10 (bytes @ extra)) = le32 (drop 10 bytes)"
proof -
  have l: "14 \<le> length (bytes @ extra)" using assms by simp
  have t: "take 14 (bytes @ extra) = take 14 bytes" using assms by simp
  show "take 8 (bytes @ extra) = take 8 bytes" using assms by simp
  have "le16 (drop 8 (bytes @ extra)) = le16 (drop 8 (take 14 (bytes @ extra)))"
    by (rule header_fields(2)[OF l, symmetric])
  also have "\<dots> = le16 (drop 8 (take 14 bytes))" by (simp only: t)
  also have "\<dots> = le16 (drop 8 bytes)" by (rule header_fields(2)[OF assms])
  finally show "le16 (drop 8 (bytes @ extra)) = le16 (drop 8 bytes)" .
  have "le32 (drop 10 (bytes @ extra)) = le32 (drop 10 (take 14 (bytes @ extra)))"
    by (rule header_fields(3)[OF l, symmetric])
  also have "\<dots> = le32 (drop 10 (take 14 bytes))" by (simp only: t)
  also have "\<dots> = le32 (drop 10 bytes)" by (rule header_fields(3)[OF assms])
  finally show "le32 (drop 10 (bytes @ extra)) = le32 (drop 10 bytes)" .
qed

lemma loadBinary_header:
  assumes "readable inp" "14 \<le> length (content inp)"
    and "take 8 (content inp) = STARSDAT_MAGIC" "le16 (drop 8 (content inp)) = 0x0100"
  shows "loadBinary env inp db =
     (case readStars env (nStarsInFile (content inp))
             (inp\<lparr>content := drop 14 (content inp)\<rparr>) db of
        (False, inp2, db2) \<Rightarrow> (False, inp2, db2)
      | (True, inp2, db2) \<Rightarrow>
          if badbit inp2 then (False, inp2, db2)
          else (True, inp2,
                buildBinFileIndex
                  (logMsg LogInfo ''{} stars in binary database''
                    (logMsg LogDebug ''StarDatabase::read: nStars = {}, time = {} ms'' db2))))"
  using assms
  by (simp add: loadBinary_def sizeof_StarsDatHeader_def readBytes_good header_fields
        nStarsInFile_def Let_def split: prod.splits bool.splits)

lemma loadBinary_rejects_header:
  assumes "\<not> (readable inp \<and> 14 \<le> length (content inp)
             \<and> take 8 (content inp) = STARSDAT_MAGIC \<and> le16 (drop 8 (content inp)) = 0x0100)"
  shows "fst (loadBinary env inp db) = False \<and> snd (snd (loadBinary env inp db)) = db"
proof (cases "readable inp")
  case False
  then show ?thesis by (simp add: loadBinary_def readBytes_bad)
next
  case rd: True
  show ?thesis
  proof (cases "14 \<le> length (content inp)")
    case False
    with rd show ?thesis
      by (simp add: loadBinary_def sizeof_StarsDatHeader_def readBytes_short)
  next
    case True
    with rd assms show ?thesis
      by (auto simp: loadBinary_def sizeof_StarsDatHeader_def readBytes_good header_fields)
  qed
qed

lemma loadBinary_accepts:
  "fst (loadBinary env inp db) \<longleftrightarrow> readable inp \<and> wellFormedCatalog env (content inp)"
proof (cases "readable inp \<and> 14 \<le> length (content inp)
             \<and> take 8 (content inp) = STARSDAT_MAGIC \<and> le16 (drop 8 (content inp)) = 0x0100")
  case False
  with loadBinary_rejects_header[OF False, of env db] show ?thesis
    by (auto simp: wellFormedCatalog_def)
next
  case True
  let ?inp1 = "inp\<lparr>content := drop 14 (content inp)\<rparr>"
  let ?n = "nStarsInFile (content inp)"
  have r1: "readable ?inp1" using True by (simp add: readable_def)
  have acc: "fst (readStars env ?n ?inp1 db)
        \<longleftrightarrow> 14 + 20 * ?n \<le> length (content inp) \<and> recordsKnown env 14 ?n (content inp)"
    using True by (intro readStars_accepts[OF r1]) simp_all
  obtain ok inp2 db2 where rs: "readStars env ?n ?inp1 db = (ok, inp2, db2)"
    by (cases "readStars env ?n ?inp1 db") auto
  have "ok \<Longrightarrow> \<not> badbit inp2"
    using readStars_result[of env ?n ?inp1 db inp2 db2] rs r1 by (auto simp: readable_def)
  then have "fst (loadBinary env inp db) = ok"
    using True rs by (cases ok) (auto simp: loadBinary_header)
  with acc rs True show ?thesis by (simp add: wellFormedCatalog_def)
qed

lemma loadBinary_no_index:
  assumes "\<not> fst (loadBinary env inp db)"
  shows "sameIndexes db (snd (snd (loadBinary env inp db)))"
proof (cases "readable inp \<and> 14 \<le> length (content inp)
             \<and> take 8 (content inp) = STARSDAT_MAGIC \<and> le16 (drop 8 (content inp)) = 0x0100")
  case False
  from loadBinary_rejects_header[OF False, of env db] show ?thesis
    by (simp add: sameIndexes_refl)
next
  case True
  let ?inp1 = "inp\<lparr>content := drop 14 (content inp)\<rparr>"
  let ?n = "nStarsInFile (content inp)"
  obtain ok inp2 db2 where rs: "readStars env ?n ?inp1 db = (ok, inp2, db2)"
    by (cases "readStars env ?n ?inp1 db") auto
  have f: "sameIndexes db db2"
    using readStars_frame[of db env ?n ?inp1] rs by simp
  from assms True rs f show ?thesis
    by (cases ok) (auto simp: loadBinary_header split: if_splits)
qed

lemma loadBinary_append:
  assumes "loadBinary env inp db = (True, inp', db')"
  shows "loadBinary env (inp\<lparr>content := content inp @ extra\<rparr>) db
           = (True, inp'\<lparr>content := content inp' @ extra\<rparr>, db')
       \<and> content inp' = drop (14 + 20 * nStarsInFile (content inp)) (content inp)
       \<and> nStars db' = nStars db + nStarsInFile (content inp)
       \<and> length (unsortedStars db') = length (unsortedStars db) + nStarsInFile (content inp)"
proof -
  let ?c = "content inp"
  let ?inx = "inp\<lparr>content := ?c @ extra\<rparr>"
  let ?inp1 = "inp\<lparr>content := drop 14 ?c\<rparr>"
  let ?n = "nStarsInFile ?c"
  have hd: "readable inp \<and> 14 \<le> length ?c \<and> take 8 ?c = STARSDAT_MAGIC
            \<and> le16 (drop 8 ?c) = 0x0100"
    using loadBinary_rejects_header[of inp env db] assms by auto
  obtain ok inp2 db2 where rs: "readStars env ?n ?inp1 db = (ok, inp2, db2)"
    by (cases "readStars env ?n ?inp1 db") auto
  from assms hd rs have ok: ok
    by (cases ok) (auto simp: loadBinary_header)
  note res = readStars_result[OF rs[unfolded ok[THEN eqTrueI]]]
  have nb: "\<not> badbit inp2" using res hd by (simp add: readable_def)
  let ?fin = "buildBinFileIndex
                  (logMsg LogInfo ''{} stars in binary database''
                    (logMsg LogDebug ''StarDatabase::read: nStars = {}, time = {} ms'' db2))"
  have e1: "inp' = inp2" "db' = ?fin"
    using assms hd rs ok nb by (simp_all add: loadBinary_header)
  have ci: "content ?inx = ?c @ extra" by simp
  have hx: "readable ?inx" "14 \<le> length (content ?inx)"
    "take 8 (content ?inx) = STARSDAT_MAGIC" "le16 (drop 8 (content ?inx)) = 0x0100"
  proof -
    show "readable ?inx" "14 \<le> length (content ?inx)"
      "take 8 (content ?inx) = STARSDAT_MAGIC"
      using hd by (simp_all add: readable_def)
    show "le16 (drop 8 (content ?inx)) = 0x0100"
      by (metis header_fields_append(2) hd ci)
  qed
  have nx: "nStarsInFile (content ?inx) = ?n"
    unfolding nStarsInFile_def by (metis header_fields_append(3) hd ci)
  have "?inx\<lparr>content := drop 14 (content ?inx)\<rparr> = ?inp1\<lparr>content := content ?inp1 @ extra\<rparr>"
    using hd by simp
  then have rx: "readStars env ?n (?inx\<lparr>content := drop 14 (content ?inx)\<rparr>) db
             = (True, inp2\<lparr>content := content inp2 @ extra\<rparr>, db2)"
    using readStars_append[OF rs[unfolded ok[THEN eqTrueI]], of extra] by simp
  have a: "loadBinary env ?inx db = (True, inp'\<lparr>content := content inp' @ extra\<rparr>, db')"
    apply (subst loadBinary_header[OF hx])
    apply (subst nx)
    apply (subst rx)
    using nb e1 apply simp
    done
  have cnt: "nStars ?fin = nStars db2" "length (unsortedStars ?fin) = length (unsortedStars db2)"
    by (simp_all add: buildBinFileIndex_def logMsg_def)
  have c: "content inp' = drop (14 + 20 * ?n) ?c"
    using res e1 by (simp add: add.commute)
  from a c cnt res e1 show ?thesis by simp
qed

section \<open>The sample binary catalogs\<close>

lemma STARSDAT_MAGIC_bytes:
  "STARSDAT_MAGIC = [0x43, 0x45, 0x4C, 0x53, 0x54, 0x41, 0x52, 0x53]"
  by (simp add: STARSDAT_MAGIC_def bytesOf_def)

lemma starsDatHeader_bytes:
  "starsDatHeader c = [0x43, 0x45, 0x4C, 0x53, 0x54, 0x41, 0x52, 0x53, 0, 1, c, 0, 0, 0]"
  by (simp add: starsDatHeader_def STARSDAT_MAGIC_bytes)

lemmas sample_bytes =
  oneRecordFile_def shortRecordFile_def badSpectralFile_def duplicateFile_def
  starsDatHeader_bytes sampleRecord_def

lemma file_lengths:
  "length oneRecordFile = 14 + 20 * 1" "length shortRecordFile = 14 + 18 * 1"
  "length badSpectralFile = 14 + 20 * 2" "length duplicateFile = 14 + 20 * 2"
  by (simp_all add: sample_bytes)

lemma header_sample:
  "take 8 oneRecordFile = STARSDAT_MAGIC \<and> le16 (drop 8 oneRecordFile) = 0x0100
   \<and> nStarsInFile oneRecordFile = 1"
  "take 8 shortRecordFile = STARSDAT_MAGIC \<and> le16 (drop 8 shortRecordFile) = 0x0100
   \<and> nStarsInFile shortRecordFile = 1"
  "take 8 badSpectralFile = STARSDAT_MAGIC \<and> le16 (drop 8 badSpectralFile) = 0x0100
   \<and> nStarsInFile badSpectralFile = 2"
  "take 8 duplicateFile = STARSDAT_MAGIC \<and> le16 (drop 8 duplicateFile) = 0x0100
   \<and> nStarsInFile duplicateFile = 2"
  by (simp_all add: sample_bytes STARSDAT_MAGIC_bytes le16_def le32_def nStarsInFile_def)

lemma decode_sample:
  "decodeStarsDatRecord sampleEnv (sampleRecord 7 5 0 @ rest) = Some (sampleBinStar 7 5)"
  "decodeStarsDatRecord sampleEnv (sampleRecord 7 3 0 @ rest) = Some (sampleBinStar 7 3)"
  "decodeStarsDatRecord sampleEnv (sampleRecord 9 1 0xF0 @ rest) = None"
  by (simp_all add: decodeStarsDatRecord_def sampleRecord_def le32_def le16_def sampleEnv_def
        sampleFloat_def sampleBinStar_def Let_def)

lemma recordsKnown_sample:
  "recordsKnown sampleEnv 14 1 oneRecordFile"
  "recordsKnown sampleEnv 14 2 duplicateFile"
  "\<not> recordsKnown sampleEnv 14 2 badSpectralFile"
  by (simp_all add: recordsKnown_def spectralTypeAt_def sample_bytes sampleEnv_def upt_rec)

lemma wellFormed_sample:
  "wellFormedCatalog sampleEnv oneRecordFile"
  "wellFormedCatalog sampleEnv duplicateFile"
  "\<not> wellFormedCatalog sampleEnv shortRecordFile"
  "\<not> wellFormedCatalog sampleEnv badSpectralFile"
  using recordsKnown_sample
  by (simp_all add: wellFormedCatalog_def header_sample file_lengths)

lemma sampleRecord_length: "length (sampleRecord n m st) = 20"
  by (simp add: sampleRecord_def)

lemma readable_streamOf: "readable (streamOf bs)"
  by (simp add: readable_def streamOf_def)

lemma readStars_small:
  assumes "n \<noteq> 0" "n \<le> 204" "20 * n \<le> length bs"
  shows "readStars env n (streamOf bs) db =
     (case decodeRecords env n (take (20 * n) bs) db of
        (ok, db') \<Rightarrow>
          if ok then readStars env 0 (streamOf (drop (20 * n) bs)) db'
          else (False, streamOf (drop (20 * n) bs), db'))"
  using readStars_step[OF assms(1) readable_streamOf, of bs env db] assms(2,3)
  by (auto simp: streamOf_def min_absorb2 split: prod.splits)

lemma loadBinary_duplicateFile:
  "loadBinary sampleEnv (streamOf duplicateFile) (newStarDatabase sampleEnv)
   = (True, streamOf [], duplicateLoaded)"
proof -
  have h: "take 8 (content (streamOf duplicateFile)) = STARSDAT_MAGIC"
    "le16 (drop 8 (content (streamOf duplicateFile))) = 0x0100"
    "14 \<le> length (content (streamOf duplicateFile))"
    "nStarsInFile (content (streamOf duplicateFile)) = 2"
    by (simp_all add: streamOf_def header_sample file_lengths)
  have i: "(streamOf duplicateFile)\<lparr>content := drop 14 (content (streamOf duplicateFile))\<rparr>
           = streamOf (sampleRecord 7 5 0 @ sampleRecord 7 3 0)"
    by (simp add: streamOf_def duplicateFile_def starsDatHeader_bytes)
  have d: "decodeRecords sampleEnv 2 (sampleRecord 7 5 0 @ sampleRecord 7 3 0)
             (newStarDatabase sampleEnv)
           = (True, (newStarDatabase sampleEnv)
                \<lparr>unsortedStars := [sampleBinStar 7 5, sampleBinStar 7 3], nStars := 2\<rparr>)"
    using decode_sample(2)[of "[]"]
    by (simp add: numeral_2_eq_2 decode_sample(1) sizeof_StarsDatRecord_def
          newStarDatabase_def sampleRecord_length)
  have r: "readStars sampleEnv 2 (streamOf (sampleRecord 7 5 0 @ sampleRecord 7 3 0))
             (newStarDatabase sampleEnv)
           = (True, streamOf [], (newStarDatabase sampleEnv)
                \<lparr>unsortedStars := [sampleBinStar 7 5, sampleBinStar 7 3], nStars := 2\<rparr>)"
    by (subst readStars_small) (simp_all add: d readStars_0 sampleRecord_length)
  show ?thesis
    apply (subst loadBinary_header[OF readable_streamOf h(3,1,2)])
    apply (subst h(4))
    apply (subst i)
    apply (subst r)
    apply (simp add: streamOf_def buildBinFileIndex_def logMsg_def duplicateLoaded_def
             newStarDatabase_def stdSort_def binaryLog_def sampleBinStar_def)
    done
qed

lemma loadBinary_badSpectralFile:
  "loadBinary sampleEnv (streamOf badSpectralFile) (newStarDatabase sampleEnv)
   = (False, streamOf [], badSpectralLoaded)"
proof -
  have h: "take 8 (content (streamOf badSpectralFile)) = STARSDAT_MAGIC"
    "le16 (drop 8 (content (streamOf badSpectralFile))) = 0x0100"
    "14 \<le> length (content (streamOf badSpectralFile))"
    "nStarsInFile (content (streamOf badSpectralFile)) = 2"
    by (simp_all add: streamOf_def header_sample file_lengths)
  have i: "(streamOf badSpectralFile)\<lparr>content := drop 14 (content (streamOf badSpectralFile))\<rparr>
           = streamOf (sampleRecord 7 5 0 @ sampleRecord 9 1 0xF0)"
    by (simp add: streamOf_def badSpectralFile_def starsDatHeader_bytes)
  have d: "decodeRecords sampleEnv 2 (sampleRecord 7 5 0 @ sampleRecord 9 1 0xF0)
             (newStarDatabase sampleEnv)
           = (False, badSpectralLoaded)"
    using decode_sample(3)[of "[]"]
    by (simp add: numeral_2_eq_2 decode_sample(1) sizeof_StarsDatRecord_def
          newStarDatabase_def sampleRecord_length badSpectralLoaded_def logMsg_def)
  have r: "readStars sampleEnv 2 (streamOf (sampleRecord 7 5 0 @ sampleRecord 9 1 0xF0))
             (newStarDatabase sampleEnv)
           = (False, streamOf [], badSpectralLoaded)"
    by (subst readStars_small) (simp_all add: d sampleRecord_length)
  show ?thesis
    apply (subst loadBinary_header[OF readable_streamOf h(3,1,2)])
    apply (subst h(4))
    apply (subst i)
    apply (subst r)
    apply simp
    done
qed

section \<open>The three-part catalog number\<close>

lemmas tycho_defs =
  parseTychoCatalogNumber_def compareIgnoringCaseEq_def TychoCatalogPrefix_def toUpper_def
  isBlank_def from_chars_def isDigit_def decimalValue_def digitValue_def TYC123_MIN_def
  TYC1_MAX_def TYC2_MAX_def TYC3_MAX_def TDSC_TYC3_MAX_def TDSC_TYC3_MAX_RANGE_TYC1_def
  TYC3_MULTIPLIER_def TYC2_MULTIPLIER_def

lemmas format_defs =
  catalogNumberToString_def formatNat.simps digitChar_def TYC3_MULTIPLIER_def
  TYC2_MULTIPLIER_def

text \<open>
  Claim C5. Parsing \<^verbatim>\<open>"TYC a-b-c"\<close> is said to yield \<open>c * 1000000000 + b * 10000 + a\<close>,
  and the display name to reverse the packing. The ranges the parser accepts let
  \<open>c = 4\<close> meet any \<open>b\<close> up to 99999, and then the 32-bit sum wraps around:
  \<^verbatim>\<open>"TYC 1-29497-4"\<close> is accepted, \<open>4 * 1000000000 + 29497 * 10000 + 1\<close> is
  \<open>2 ^ 32 + 2705\<close>, the number stored is 2705 and it is displayed as \<^verbatim>\<open>"HIP 2705"\<close>;
  \<^verbatim>\<open>"TYC 1-30000-4"\<close> is stored as 5032705 and displayed as \<^verbatim>\<open>"TYC 2705-503-0"\<close>.
  (The ceiling 999999 of the Hipparcos range is the threshold
  \<^verbatim>\<open>getStarNameList\<close> uses for the same decision.)
\<close>

theorem C5_tycho_packing_wraps:
  "parseTychoCatalogNumber ''TYC 1-29497-4'' = Some 2705
   \<and> (4 * 1000000000 + 29497 * 10000 + 1 :: nat) = 2 ^ 32 + 2705
   \<and> catalogNumberToString 999999 2705 = ''HIP 2705''
   \<and> parseTychoCatalogNumber ''TYC 1-30000-4'' = Some 5032705
   \<and> catalogNumberToString 999999 5032705 = ''TYC 2705-503-0''"
proof -
  have a: "parseTychoCatalogNumber ''TYC 1-29497-4'' = Some 2705"
    by (simp add: tycho_defs)
  have b: "parseTychoCatalogNumber ''TYC 1-30000-4'' = Some 5032705"
    by (simp add: tycho_defs)
  have c: "catalogNumberToString 999999 2705 = ''HIP 2705''"
    by (simp add: format_defs)
  have d: "catalogNumberToString 999999 5032705 = ''TYC 2705-503-0''"
    by (simp add: format_defs)
  from a b c d show ?thesis by simp
qed

section \<open>Claims about the cross-index tables\<close>

text \<open>
  Claim C2. A reload of a cross-index table that fails is said to leave the table loaded
  before intact and queryable. \<^verbatim>\<open>loadCrossIndex\<close> deletes the table of the slot before it
  reads the header and leaves the slot pointing to the freed table when it returns
  false: after the file with the record (1, 7) has been loaded for \<^verbatim>\<open>HenryDraper\<close>,
  number 1 resolves to 7; after a reload from an empty stream has failed, the same query
  reads freed memory.
\<close>

theorem C2_failed_reload_frees_table:
  "loadCrossIndex HenryDraper (streamOf sampleCrossIndexFile) (newStarDatabase sampleEnv)
     = Inr (True, streamOf [], loadedOnce)
   \<and> searchCrossIndexForCatalogNumber loadedOnce HenryDraper 1 = Inr 7
   \<and> loadCrossIndex HenryDraper (streamOf []) loadedOnce
     = Inr (False, streamOf [], loadedOnce\<lparr>crossIndexes := [Freed, Null, Null]\<rparr>)
   \<and> searchCrossIndexForCatalogNumber (loadedOnce\<lparr>crossIndexes := [Freed, Null, Null]\<rparr>)
        HenryDraper 1 = Inl UseAfterFree"
  using loadCrossIndex_first search_loadedOnce loadCrossIndex_second search_freed
  by simp

section \<open>Claims about the textual merge\<close>



text \<open>
  Claim C4. A \<^verbatim>\<open>Modify\<close> definition whose catalog number, written or resolved from its
  first name, is the invalid index or is not found by the load-time lookup is rejected:
  the database is left as it was but for a warning and a notice in the log, and \<^verbatim>\<open>load\<close>
  goes on with the definitions that follow.
\<close>

theorem C4_modify_missing_target:
  assumes "dispositionToken blk = Some Modify" and "blockIsStar blk = Some isStar"
    and "beginGroup blk" and "groupHash blk = Some starData"
    and "(if blockCatalogNumber blk = InvalidIndex \<and> blockFirstName blk \<noteq> []
          then findCatalogNumberByName env db (blockFirstName blk)
          else Inr (blockCatalogNumber blk)) = Inr target"
    and "target = InvalidIndex \<or> findWhileLoading db target = Inr None"
  shows "loadBlock env blk db
           = Inr (True, db\<lparr>logged := logged db
                    @ [(LogWarn, ''Modify requested for nonexistent star.''),
                       (LogInfo, ''Bad star definition--will continue parsing file.'')]\<rparr>)
         \<and> load env (blk # blks) db
           = load env blks (db\<lparr>logged := logged db
                    @ [(LogWarn, ''Modify requested for nonexistent star.''),
                       (LogInfo, ''Bad star definition--will continue parsing file.'')]\<rparr>)"
proof -
  have sel: "selectStar env Modify isStar (blockCatalogNumber blk) (blockFirstName blk) db
             = Inr (Some (target, None, db))"
    using assms(5,6) by (auto simp: selectStar_def split: if_splits)
  have lb: "loadBlock env blk db
           = Inr (True, db\<lparr>logged := logged db
                    @ [(LogWarn, ''Modify requested for nonexistent star.''),
                       (LogInfo, ''Bad star definition--will continue parsing file.'')]\<rparr>)"
    using assms(1-4) sel
    by (simp add: loadBlock_def blockDisposition_def logMsg_def Let_def)
  then show ?thesis by simp
qed

theorem C4_modify_missing_target_witness:
  "dispositionToken (stcBlock Modify (Some 42) None [(''AbsMag'', NumberValue 3)]) = Some Modify
   \<and> blockIsStar (stcBlock Modify (Some 42) None [(''AbsMag'', NumberValue 3)]) = Some True
   \<and> findWhileLoading sampleCatalog 42 = Inr None
   \<and> loadBlock sampleEnv (stcBlock Modify (Some 42) None [(''AbsMag'', NumberValue 3)]) sampleCatalog
      = Inr (True, sampleCatalog\<lparr>logged := 
                     [(LogWarn, ''Modify requested for nonexistent star.''),
                       (LogInfo, ''Bad star definition--will continue parsing file.'')]\<rparr>)
   \<and> blockCatalogNumber (stcBlock Modify (Some (- 1 / 2)) (Some ''Nine'')
          [(''AbsMag'', NumberValue 3)]) = 0
   \<and> findWhileLoading sampleCatalog 0 = Inr None
   \<and> loadBlock sampleEnv (stcBlock Modify (Some (- 1 / 2)) (Some ''Nine'')
          [(''AbsMag'', NumberValue 3)]) sampleCatalog
      = Inr (True, sampleCatalog\<lparr>logged := 
                     [(LogWarn, ''Modify requested for nonexistent star.''),
                       (LogInfo, ''Bad star definition--will continue parsing file.'')]\<rparr>)"
proof -
  let ?b = "stcBlock Modify (Some 42) None [(''AbsMag'', NumberValue 3)]"
  let ?c = "stcBlock Modify (Some (- 1 / 2)) (Some ''Nine'') [(''AbsMag'', NumberValue 3)]"
  note f = findWhileLoading_sampleCatalog(3)
  note f0 = findWhileLoading_sampleCatalog(6)
  have n: "blockCatalogNumber ?b = 42"
    by (simp add: blockCatalogNumber_def stcBlock_def toIndexNumber_def truncateToZero_def)
  have c: "\<lceil>- (1 / 2) :: real\<rceil> = 0" by (simp add: ceiling_eq_iff)
  have n0: "blockCatalogNumber ?c = 0"
    by (simp add: blockCatalogNumber_def stcBlock_def toIndexNumber_def truncateToZero_def c)
  have l: "logged sampleCatalog = []"
    by (simp add: sampleCatalog_def newStarDatabase_def)
  have b: "dispositionToken (stcBlock Modify x nm kvs) = Some Modify"
    "blockIsStar (stcBlock Modify x nm kvs) = Some True"
    "beginGroup (stcBlock Modify x nm kvs)"
    "groupHash (stcBlock Modify x nm kvs) = Some (hashOf kvs)" for x nm kvs
    by (simp_all add: stcBlock_def blockIsStar_def)
  have t: "(if blockCatalogNumber ?b = InvalidIndex \<and> blockFirstName ?b \<noteq> []
          then findCatalogNumberByName sampleEnv sampleCatalog (blockFirstName ?b)
          else Inr (blockCatalogNumber ?b)) = Inr 42"
    by (simp add: n InvalidIndex_def)
  have t0: "(if blockCatalogNumber ?c = InvalidIndex \<and> blockFirstName ?c \<noteq> []
          then findCatalogNumberByName sampleEnv sampleCatalog (blockFirstName ?c)
          else Inr (blockCatalogNumber ?c)) = Inr 0"
    using n0 by (simp add: InvalidIndex_def)
  from C4_modify_missing_target[OF b(1) b(2) b(3) b(4) t, of "[]"] f
  have r: "loadBlock sampleEnv ?b sampleCatalog
      = Inr (True, sampleCatalog\<lparr>logged := 
                     [(LogWarn, ''Modify requested for nonexistent star.''),
                       (LogInfo, ''Bad star definition--will continue parsing file.'')]\<rparr>)"
    by (simp add: l)
  from C4_modify_missing_target[OF b(1) b(2) b(3) b(4) t0, of "[]"] f0
  have r0: "loadBlock sampleEnv ?c sampleCatalog
      = Inr (True, sampleCatalog\<lparr>logged := 
                     [(LogWarn, ''Modify requested for nonexistent star.''),
                       (LogInfo, ''Bad star definition--will continue parsing file.'')]\<rparr>)"
    by (simp add: l)
  from b f f0 n0 r r0 show ?thesis by simp
qed

text \<open>
  Claim C10, as stated: the definition is rejected, its entry is not committed, and its
  pair has been appended to the pending barycenters. On the code it fails in two ways.
  \<^verbatim>\<open>Add 7 { SpectralType "G2V" EllipticalOrbit { } OrbitBarycenter 55 }\<close> on the catalog
  that holds the stars 7 and 9 is rejected and leaves the pair (7, 55), but the entry of
  star 7 has been changed in place: it has new details, with the orbit. The same
  properties under \<^verbatim>\<open>Modify 42\<close> are rejected without a pair being appended.
\<close>

theorem C10_existing_entry_counterexample:
  "findWhileLoading sampleCatalog 7 = Inr (Some 0)
   \<and> unsortedStars sampleCatalog ! 0 = sampleStar7
   \<and> orbitBarycenterNumber sampleEnv sampleCatalog (hashOf sampleOrbitProperties) = Inr (Some 55)
   \<and> findWhileLoading sampleCatalog 55 = Inr None
   \<and> loadBlock sampleEnv (stcBlock Add (Some 7) None sampleOrbitProperties) sampleCatalog
       = Inr (True, sampleCatalog
                \<lparr>unsortedStars := [sampleStar7\<lparr>getDetails := Some sampleOrbitDetails\<rparr>, sampleStar9],
                 barycenters := [\<lparr>bc_catNo = 7, bc_barycenterCatNo = 55\<rparr>],
                 logged := [(LogError, ''Barycenter {} does not exist.''),
                            (LogInfo, ''Bad star definition--will continue parsing file.'')]\<rparr>)
   \<and> sampleStar7\<lparr>getDetails := Some sampleOrbitDetails\<rparr> \<noteq> sampleStar7
   \<and> findWhileLoading sampleCatalog 42 = Inr None
   \<and> loadBlock sampleEnv (stcBlock Modify (Some 42) None sampleOrbitProperties) sampleCatalog
       = Inr (True, sampleCatalog
                \<lparr>logged := [(LogWarn, ''Modify requested for nonexistent star.''),
                            (LogInfo, ''Bad star definition--will continue parsing file.'')]\<rparr>)
   \<and> barycenters sampleCatalog = []"
proof -
  have n: "blockCatalogNumber (stcBlock d (Some 7) None kvs) = 7"
    "blockCatalogNumber (stcBlock d (Some 42) None kvs) = 42" for d kvs
    by (simp_all add: blockCatalogNumber_def stcBlock_def toIndexNumber_def truncateToZero_def)
  have b: "blockDisposition (stcBlock d x None kvs) = d"
    "blockIsStar (stcBlock d x None kvs) = Some True"
    "beginGroup (stcBlock d x None kvs)"
    "groupHash (stcBlock d x None kvs) = Some (hashOf kvs)"
    "blockObjName (stcBlock d x None kvs) = []" for d x kvs
    by (simp_all add: stcBlock_def blockDisposition_def blockIsStar_def blockObjName_def)
  have s7: "selectStar sampleEnv Add True 7 nm sampleCatalog = Inr (Some (7, Some 0, sampleCatalog))"
    for nm
    by (simp add: selectStar_def InvalidIndex_def findWhileLoading_sampleCatalog)
  have s42: "selectStar sampleEnv Modify True 42 nm sampleCatalog
             = Inr (Some (42, None, sampleCatalog))" for nm
    by (simp add: selectStar_def InvalidIndex_def findWhileLoading_sampleCatalog)
  have u: "unsortedStars sampleCatalog = [sampleStar7, sampleStar9]"
    "barycenters sampleCatalog = []" "logged sampleCatalog = []"
    by (simp_all add: sampleCatalog_fields)
  have c: "getCategories sampleStar7 = []"
    "loadCategories sampleEnv (hashOf sampleOrbitProperties) Add [] = []"
    by (simp_all add: sampleStar7_def sampleStar_def sampleEnv_def hashOf_def
          sampleOrbitProperties_def)
  have l7: "loadBlock sampleEnv (stcBlock Add (Some 7) None sampleOrbitProperties) sampleCatalog
       = Inr (True, sampleCatalog
                \<lparr>unsortedStars := [sampleStar7\<lparr>getDetails := Some sampleOrbitDetails\<rparr>, sampleStar9],
                 barycenters := [\<lparr>bc_catNo = 7, bc_barycenterCatNo = 55\<rparr>],
                 logged := [(LogError, ''Barycenter {} does not exist.''),
                            (LogInfo, ''Bad star definition--will continue parsing file.'')]\<rparr>)"
    unfolding loadBlock_def
    by (simp add: n b s7 u c Let_def logMsg_def
          createStar_sampleOrbit[OF _ findWhileLoading_sampleCatalog(4)])
  have l42: "loadBlock sampleEnv (stcBlock Modify (Some 42) None sampleOrbitProperties) sampleCatalog
       = Inr (True, sampleCatalog
                \<lparr>logged := [(LogWarn, ''Modify requested for nonexistent star.''),
                            (LogInfo, ''Bad star definition--will continue parsing file.'')]\<rparr>)"
    unfolding loadBlock_def
    by (simp add: n b s42 u Let_def logMsg_def)
  have ne: "sampleStar7\<lparr>getDetails := Some sampleOrbitDetails\<rparr> \<noteq> sampleStar7"
    by (simp add: sampleStar7_def sampleStar_def sampleOrbitDetails_def sampleDetails_def)
  from findWhileLoading_sampleCatalog(1,3,4) u sampleOrbitProperties_lookup(4) l7 l42 ne
  show ?thesis by simp
qed

text \<open>
  Claim C10, amended. A definition of a barycenter, or of a star whose spectral type is
  known (or absent, under \<^verbatim>\<open>Modify\<close>), with an orbit whose \<^verbatim>\<open>OrbitBarycenter\<close> resolves to
  a catalog number other than the invalid index that the load-time lookup does not find
  is rejected and the load goes on.
  \<^item> A \<^verbatim>\<open>Modify\<close> of an entry that does not exist is rejected before its properties are
    read: no pair is appended.
  \<^item> A definition of a new entry (not a \<^verbatim>\<open>Modify\<close>) adds no entry, and the pair (number
    of the definition, number of the barycenter) is left at the end of the pending
    barycenters.
  \<^item> A definition for an existing entry leaves the same pair, and the entry has been
    changed in place: it has new details, which carry the orbit, and its categories
    have been loaded; every other entry is as before.
\<close>

theorem C10_stale_pending_barycenter:
  assumes "blockIsStar blk = Some isStar" and "beginGroup blk" and "groupHash blk = Some starData"
    and "selectStar env (blockDisposition blk) isStar (blockCatalogNumber blk)
           (blockFirstName blk) db = Inr (Some (catalogNumber, found, db1))"
    and "\<forall>i. found = Some i \<longrightarrow> i < length (unsortedStars db)
            \<and> (blockDisposition blk = Modify \<longrightarrow> getDetails (unsortedStars db ! i) \<noteq> None)"
    and "\<not> isStar
         \<or> (\<exists>st d. getString starData ''SpectralType'' = Some st
                  \<and> spectralDetails env st = Some d)
         \<or> (blockDisposition blk = Modify \<and> getString starData ''SpectralType'' = None)"
    and "CreateOrbit env starData = Some orb"
    and "orbitBarycenterNumber env db1 starData = Inr (Some bno)"
    and "bno \<noteq> InvalidIndex" and "findWhileLoading db1 bno = Inr None"
  shows "(found = None \<and> blockDisposition blk = Modify \<longrightarrow>
            loadBlock env blk db
            = Inr (True, db\<lparr>logged := logged db
                     @ [(LogWarn, ''Modify requested for nonexistent star.''),
                        (LogInfo, ''Bad star definition--will continue parsing file.'')]\<rparr>))
       \<and> (found = None \<and> blockDisposition blk \<noteq> Modify \<longrightarrow>
            loadBlock env blk db
            = Inr (True, db1\<lparr>barycenters := barycenters db
                             @ [\<lparr>bc_catNo = catalogNumber, bc_barycenterCatNo = bno\<rparr>],
                          logged := logged db
                             @ [(LogError, ''Barycenter {} does not exist.''),
                                (LogInfo, ''Bad star definition--will continue parsing file.'')]\<rparr>)
            \<and> unsortedStars db1 = unsortedStars db \<and> nStars db1 = nStars db
            \<and> stcFileCatalogNumberIndex db1 = stcFileCatalogNumberIndex db
            \<and> binFileCatalogNumberIndex db1 = binFileCatalogNumberIndex db
            \<and> namesDB db1 = namesDB db)
       \<and> (\<forall>i. found = Some i \<longrightarrow>
            (\<exists>d. getOrbit d = Some orb
               \<and> loadBlock env blk db
                 = Inr (True, db\<lparr>unsortedStars := (unsortedStars db)
                          [i := (unsortedStars db ! i)
                             \<lparr>getDetails := Some d,
                              getCategories := loadCategories env starData (blockDisposition blk)
                                                 (getCategories (unsortedStars db ! i))\<rparr>],
                        barycenters := barycenters db
                             @ [\<lparr>bc_catNo = catalogNumber, bc_barycenterCatNo = bno\<rparr>],
                        logged := logged db
                             @ [(LogError, ''Barycenter {} does not exist.''),
                                (LogInfo, ''Bad star definition--will continue parsing file.'')]\<rparr>)))"
proof -
  have c1: "(found = None \<and> blockDisposition blk = Modify \<longrightarrow>
            loadBlock env blk db
            = Inr (True, db\<lparr>logged := logged db
                     @ [(LogWarn, ''Modify requested for nonexistent star.''),
                        (LogInfo, ''Bad star definition--will continue parsing file.'')]\<rparr>))"
  proof
  assume a: "found = None \<and> blockDisposition blk = Modify"
  with assms(4) have "db1 = db" by (auto dest: selectStar_Modify_frame)
  with a assms(1-4) show "loadBlock env blk db
            = Inr (True, db\<lparr>logged := logged db
                     @ [(LogWarn, ''Modify requested for nonexistent star.''),
                        (LogInfo, ''Bad star definition--will continue parsing file.'')]\<rparr>)"
    by (simp add: loadBlock_def logMsg_def Let_def)
qed
  have c2: "(found = None \<and> blockDisposition blk \<noteq> Modify \<longrightarrow>
            loadBlock env blk db
            = Inr (True, db1\<lparr>barycenters := barycenters db
                             @ [\<lparr>bc_catNo = catalogNumber, bc_barycenterCatNo = bno\<rparr>],
                          logged := logged db
                             @ [(LogError, ''Barycenter {} does not exist.''),
                                (LogInfo, ''Bad star definition--will continue parsing file.'')]\<rparr>)
            \<and> unsortedStars db1 = unsortedStars db \<and> nStars db1 = nStars db
            \<and> stcFileCatalogNumberIndex db1 = stcFileCatalogNumberIndex db
            \<and> binFileCatalogNumberIndex db1 = binFileCatalogNumberIndex db
            \<and> namesDB db1 = namesDB db)"
  proof
  assume a: "found = None \<and> blockDisposition blk \<noteq> Modify"
  from a assms(4) have sel: "selectStar env (blockDisposition blk) isStar (blockCatalogNumber blk)
           (blockFirstName blk) db = Inr (Some (catalogNumber, None, db1))" by simp
  from selectStar_new_frame[OF sel]
  have fr: "db1 = db \<or> db1 = db\<lparr>nextAutoCatalogNumber := nextAutoCatalogNumber db - 1\<rparr>" .
  have ref: "(\<not> isStar)
         \<or> (\<exists>st d. getString starData ''SpectralType'' = Some st
                  \<and> spectralDetails env st = Some d)
         \<or> (blockDisposition blk = Modify \<and> getString starData ''SpectralType'' = None)"
    using assms(6) .
  have md: "blockDisposition blk = Modify \<longrightarrow> getDetails (defaultStar env) \<noteq> None"
    using a by simp
  from createStar_missing_barycenter_star[OF ref md assms(7-10), of catalogNumber]
  obtain d where cs:
    "createStar env db1 (defaultStar env) (blockDisposition blk) catalogNumber starData (\<not> isStar)
       = Inr (False, (defaultStar env)\<lparr>getDetails := Some d\<rparr>,
                logMsg LogError ''Barycenter {} does not exist.''
                  (db1\<lparr>barycenters := barycenters db1
                        @ [\<lparr>bc_catNo = catalogNumber, bc_barycenterCatNo = bno\<rparr>]\<rparr>))"
    by blast
  have "loadBlock env blk db
         = Inr (True, db1\<lparr>barycenters := barycenters db1
                             @ [\<lparr>bc_catNo = catalogNumber, bc_barycenterCatNo = bno\<rparr>],
                          logged := logged db1
                             @ [(LogError, ''Barycenter {} does not exist.''),
                                (LogInfo, ''Bad star definition--will continue parsing file.'')]\<rparr>)"
    unfolding loadBlock_def using assms(1-3) sel cs a
    by (simp add: Let_def logMsg_def)
  with fr show "loadBlock env blk db
            = Inr (True, db1\<lparr>barycenters := barycenters db
                             @ [\<lparr>bc_catNo = catalogNumber, bc_barycenterCatNo = bno\<rparr>],
                          logged := logged db
                             @ [(LogError, ''Barycenter {} does not exist.''),
                                (LogInfo, ''Bad star definition--will continue parsing file.'')]\<rparr>)
            \<and> unsortedStars db1 = unsortedStars db \<and> nStars db1 = nStars db
            \<and> stcFileCatalogNumberIndex db1 = stcFileCatalogNumberIndex db
            \<and> binFileCatalogNumberIndex db1 = binFileCatalogNumberIndex db
            \<and> namesDB db1 = namesDB db"
    by auto
qed
  have c3: "(\<forall>i. found = Some i \<longrightarrow>
            (\<exists>d. getOrbit d = Some orb
               \<and> loadBlock env blk db
                 = Inr (True, db\<lparr>unsortedStars := (unsortedStars db)
                          [i := (unsortedStars db ! i)
                             \<lparr>getDetails := Some d,
                              getCategories := loadCategories env starData (blockDisposition blk)
                                                 (getCategories (unsortedStars db ! i))\<rparr>],
                        barycenters := barycenters db
                             @ [\<lparr>bc_catNo = catalogNumber, bc_barycenterCatNo = bno\<rparr>],
                        logged := logged db
                             @ [(LogError, ''Barycenter {} does not exist.''),
                                (LogInfo, ''Bad star definition--will continue parsing file.'')]\<rparr>)))"
  proof (intro allI impI)
  fix i assume f: "found = Some i"
  from f assms(4) have sel: "selectStar env (blockDisposition blk) isStar (blockCatalogNumber blk)
           (blockFirstName blk) db = Inr (Some (catalogNumber, Some i, db1))" by simp
  from selectStar_found_frame[OF sel] have e: "db1 = db" by simp
  let ?old = "unsortedStars db ! i"
  have ref: "(\<not> isStar)
         \<or> (\<exists>st d. getString starData ''SpectralType'' = Some st
                  \<and> spectralDetails env st = Some d)
         \<or> (blockDisposition blk = Modify \<and> getString starData ''SpectralType'' = None)"
    using assms(6) .
  have md: "blockDisposition blk = Modify \<longrightarrow> getDetails ?old \<noteq> None"
    using assms(5) f by simp
  from createStar_missing_barycenter_star[OF ref md assms(7) assms(8-10)[unfolded e],
         of catalogNumber]
  obtain d where o: "getOrbit d = Some orb" and cs:
    "createStar env db ?old (blockDisposition blk) catalogNumber starData (\<not> isStar)
       = Inr (False, ?old\<lparr>getDetails := Some d\<rparr>,
                logMsg LogError ''Barycenter {} does not exist.''
                  (db\<lparr>barycenters := barycenters db
                        @ [\<lparr>bc_catNo = catalogNumber, bc_barycenterCatNo = bno\<rparr>]\<rparr>))"
    by blast
  have "loadBlock env blk db
                 = Inr (True, db\<lparr>unsortedStars := (unsortedStars db)
                          [i := ?old
                             \<lparr>getDetails := Some d,
                              getCategories := loadCategories env starData (blockDisposition blk)
                                                 (getCategories ?old)\<rparr>],
                        barycenters := barycenters db
                             @ [\<lparr>bc_catNo = catalogNumber, bc_barycenterCatNo = bno\<rparr>],
                        logged := logged db
                             @ [(LogError, ''Barycenter {} does not exist.''),
                                (LogInfo, ''Bad star definition--will continue parsing file.'')]\<rparr>)"
    unfolding loadBlock_def using assms(1-3) sel[unfolded e] cs
    by (simp add: Let_def logMsg_def)
  with o show "\<exists>d. getOrbit d = Some orb
               \<and> loadBlock env blk db
                 = Inr (True, db\<lparr>unsortedStars := (unsortedStars db)
                          [i := (unsortedStars db ! i)
                             \<lparr>getDetails := Some d,
                              getCategories := loadCategories env starData (blockDisposition blk)
                                                 (getCategories (unsortedStars db ! i))\<rparr>],
                        barycenters := barycenters db
                             @ [\<lparr>bc_catNo = catalogNumber, bc_barycenterCatNo = bno\<rparr>],
                        logged := logged db
                             @ [(LogError, ''Barycenter {} does not exist.''),
                                (LogInfo, ''Bad star definition--will continue parsing file.'')]\<rparr>)"
    by blast
qed
  show ?thesis by (rule conjI[OF c1 conjI[OF c2 c3]])
qed

theorem C10_stale_pending_barycenter_witness:
  "CreateOrbit sampleEnv (hashOf sampleOrbitProperties) = Some 1
   \<and> orbitBarycenterNumber sampleEnv sampleCatalog (hashOf sampleOrbitProperties) = Inr (Some 55)
   \<and> findWhileLoading sampleCatalog 55 = Inr None
   \<and> findWhileLoading sampleCatalog 100 = Inr None
   \<and> loadBlock sampleEnv (stcBlock Add (Some 100) None sampleOrbitProperties) sampleCatalog
       = Inr (True, sampleCatalog\<lparr>barycenters := [\<lparr>bc_catNo = 100, bc_barycenterCatNo = 55\<rparr>],
                  logged := [(LogError, ''Barycenter {} does not exist.''),
                             (LogInfo, ''Bad star definition--will continue parsing file.'')]\<rparr>)
   \<and> findWhileLoading sampleCatalog 7 = Inr (Some 0)
   \<and> barycenters (snd (projr (loadBlock sampleEnv
          (stcBlock Add (Some 7) None sampleOrbitProperties) sampleCatalog)))
       = [\<lparr>bc_catNo = 7, bc_barycenterCatNo = 55\<rparr>]
   \<and> map_option getOrbit (getDetails (unsortedStars (snd (projr (loadBlock sampleEnv
          (stcBlock Add (Some 7) None sampleOrbitProperties) sampleCatalog))) ! 0))
       = Some (Some 1)
   \<and> findWhileLoading sampleCatalog 42 = Inr None
   \<and> loadBlock sampleEnv (stcBlock Modify (Some 42) None sampleOrbitProperties) sampleCatalog
       = Inr (True, sampleCatalog
                \<lparr>logged := [(LogWarn, ''Modify requested for nonexistent star.''),
                            (LogInfo, ''Bad star definition--will continue parsing file.'')]\<rparr>)"
proof -
  let ?h = "hashOf sampleOrbitProperties"
  have n: "blockCatalogNumber (stcBlock d (Some 7) None kvs) = 7"
    "blockCatalogNumber (stcBlock d (Some 42) None kvs) = 42"
    "blockCatalogNumber (stcBlock d (Some 100) None kvs) = 100" for d kvs
    by (simp_all add: blockCatalogNumber_def stcBlock_def toIndexNumber_def truncateToZero_def)
  have b: "blockDisposition (stcBlock d x None kvs) = d"
    "blockIsStar (stcBlock d x None kvs) = Some True"
    "beginGroup (stcBlock d x None kvs)"
    "groupHash (stcBlock d x None kvs) = Some (hashOf kvs)" for d x kvs
    by (simp_all add: stcBlock_def blockDisposition_def blockIsStar_def)
  have sel: "selectStar sampleEnv Add True 100 nm sampleCatalog
               = Inr (Some (100, None, sampleCatalog))"
    "selectStar sampleEnv Add True 7 nm sampleCatalog = Inr (Some (7, Some 0, sampleCatalog))"
    "selectStar sampleEnv Modify True 42 nm sampleCatalog
               = Inr (Some (42, None, sampleCatalog))" for nm
    by (simp_all add: selectStar_def InvalidIndex_def findWhileLoading_sampleCatalog)
  have sp: "\<not> True
         \<or> (\<exists>st d. getString ?h ''SpectralType'' = Some st
                  \<and> spectralDetails sampleEnv st = Some d)
         \<or> (dd = Modify \<and> getString ?h ''SpectralType'' = None)" for dd
    by (simp add: sampleOrbitProperties_lookup)
  have u: "unsortedStars sampleCatalog = [sampleStar7, sampleStar9]"
    "barycenters sampleCatalog = []" "logged sampleCatalog = []"
    by (simp_all add: sampleCatalog_fields)
  note o = sampleOrbitProperties_lookup(3)
  note ob = sampleOrbitProperties_lookup(4)[of sampleCatalog]
  note ne = sampleOrbitProperties_lookup(5)
  note f55 = findWhileLoading_sampleCatalog(4)
  have new: "loadBlock sampleEnv (stcBlock Add (Some 100) None sampleOrbitProperties) sampleCatalog
       = Inr (True, sampleCatalog\<lparr>barycenters := [\<lparr>bc_catNo = 100, bc_barycenterCatNo = 55\<rparr>],
                  logged := [(LogError, ''Barycenter {} does not exist.''),
                             (LogInfo, ''Bad star definition--will continue parsing file.'')]\<rparr>)"
  proof -
    let ?b = "stcBlock Add (Some 100) None sampleOrbitProperties"
    have s: "selectStar sampleEnv (blockDisposition ?b) True (blockCatalogNumber ?b)
               (blockFirstName ?b) sampleCatalog = Inr (Some (100, None, sampleCatalog))"
      by (simp add: b n sel)
    have i: "\<forall>i. None = Some i \<longrightarrow> i < length (unsortedStars sampleCatalog)
            \<and> (blockDisposition ?b = Modify
                 \<longrightarrow> getDetails (unsortedStars sampleCatalog ! i) \<noteq> None)"
      by (simp add: b u)
    from C10_stale_pending_barycenter[OF b(2) b(3) b(4) s i sp o ob ne f55]
    show ?thesis
      by (simp add: b u)
  qed
  have old: "\<exists>d. getOrbit d = Some 1
       \<and> loadBlock sampleEnv (stcBlock Add (Some 7) None sampleOrbitProperties) sampleCatalog
         = Inr (True, sampleCatalog\<lparr>unsortedStars := (unsortedStars sampleCatalog)
                  [0 := (unsortedStars sampleCatalog ! 0)
                     \<lparr>getDetails := Some d,
                      getCategories := loadCategories sampleEnv ?h Add
                                         (getCategories (unsortedStars sampleCatalog ! 0))\<rparr>],
                barycenters := barycenters sampleCatalog
                     @ [\<lparr>bc_catNo = 7, bc_barycenterCatNo = 55\<rparr>],
                logged := logged sampleCatalog
                     @ [(LogError, ''Barycenter {} does not exist.''),
                        (LogInfo, ''Bad star definition--will continue parsing file.'')]\<rparr>)"
  proof -
    let ?b = "stcBlock Add (Some 7) None sampleOrbitProperties"
    have s: "selectStar sampleEnv (blockDisposition ?b) True (blockCatalogNumber ?b)
               (blockFirstName ?b) sampleCatalog = Inr (Some (7, Some 0, sampleCatalog))"
      by (simp add: b n sel)
    have i: "\<forall>i. Some 0 = Some i \<longrightarrow> i < length (unsortedStars sampleCatalog)
            \<and> (blockDisposition ?b = Modify
                 \<longrightarrow> getDetails (unsortedStars sampleCatalog ! i) \<noteq> None)"
      by (simp add: b u)
    from C10_stale_pending_barycenter[OF b(2) b(3) b(4) s i sp o ob ne f55]
    show ?thesis
      by (simp add: b u(1))
  qed
  have old': "barycenters (snd (projr (loadBlock sampleEnv
          (stcBlock Add (Some 7) None sampleOrbitProperties) sampleCatalog)))
       = [\<lparr>bc_catNo = 7, bc_barycenterCatNo = 55\<rparr>]
     \<and> map_option getOrbit (getDetails (unsortedStars (snd (projr (loadBlock sampleEnv
          (stcBlock Add (Some 7) None sampleOrbitProperties) sampleCatalog))) ! 0))
       = Some (Some 1)"
    using old by (auto simp: u)
  have mis: "loadBlock sampleEnv (stcBlock Modify (Some 42) None sampleOrbitProperties) sampleCatalog
       = Inr (True, sampleCatalog
                \<lparr>logged := [(LogWarn, ''Modify requested for nonexistent star.''),
                            (LogInfo, ''Bad star definition--will continue parsing file.'')]\<rparr>)"
  proof -
    let ?b = "stcBlock Modify (Some 42) None sampleOrbitProperties"
    have s: "selectStar sampleEnv (blockDisposition ?b) True (blockCatalogNumber ?b)
               (blockFirstName ?b) sampleCatalog = Inr (Some (42, None, sampleCatalog))"
      by (simp add: b n sel)
    have i: "\<forall>i. None = Some i \<longrightarrow> i < length (unsortedStars sampleCatalog)
            \<and> (blockDisposition ?b = Modify
                 \<longrightarrow> getDetails (unsortedStars sampleCatalog ! i) \<noteq> None)"
      by (simp add: b u)
    from C10_stale_pending_barycenter[OF b(2) b(3) b(4) s i sp o ob ne f55]
    show ?thesis
      by (simp add: b u)
  qed
  from o ob f55 findWhileLoading_sampleCatalog(1,3,5) new old' mis show ?thesis by simp
qed

text \<open>
  Claim C7, as stated: the stored extinction becomes the value divided by the distance,
  zero when the distance is zero, and the correction scaled by 1/distance is subtracted
  from the absolute magnitude. On the code it fails: \<^verbatim>\<open>Modify 7 { Extinction 1 }\<close> on
  the star at distance 2 with magnitude 5 stores the coefficient 1/2 and the magnitude
  \<open>5 - 1 = 4\<close>, not \<open>5 - 1/2\<close>; the same definition for the star at the origin
  leaves its stored extinction 1/4 as it was.
\<close>

theorem C7_extinction_counterexample:
  "createStar sampleEnv sampleCatalog sampleStar7 Modify 7 (hashOf sampleExtinction) False
     = Inr (True, sampleStar7\<lparr>getAbsoluteMagnitude := 4, getExtinction := 1 / 2\<rparr>,
            sampleCatalog)
   \<and> norm3 (getPosition sampleStar7) = 2
   \<and> getAbsoluteMagnitude sampleStar7 = 5
   \<and> (5 - 1 * (1 / 2) :: real) \<noteq> 4
   \<and> createStar sampleEnv sampleCatalog sampleStar9 Modify 9 (hashOf sampleExtinction) False
     = Inr (True, sampleStar9, sampleCatalog)
   \<and> norm3 (getPosition sampleStar9) = 0
   \<and> getExtinction sampleStar9 = 1 / 4"
proof -
  have n0: "norm3 (getPosition sampleStar7) = 2"
    by (simp add: sampleStar7_def norm3_def)
  have n1: "norm3 (getPosition sampleStar9) = 0"
    by (simp add: sampleStar9_def norm3_def)
  have d: "getDetails sampleStar7 = Some sampleDetails"
    "getDetails sampleStar9 = Some sampleDetails"
    by (simp_all add: sampleStar7_def sampleStar9_def)
  have m: "getAbsoluteMagnitude sampleStar7 = 5" "getExtinction sampleStar9 = 1 / 4"
    by (simp_all add: sampleStar7_def sampleStar9_def)
  have a: "createStar sampleEnv sampleCatalog sampleStar7 Modify 7 (hashOf sampleExtinction) False
     = Inr (True, sampleStar7\<lparr>getAbsoluteMagnitude := 4, getExtinction := 1 / 2\<rparr>,
            sampleCatalog)"
    by (simp add: createStar_sampleExtinction[OF d(1)] n0 m)
  have b: "createStar sampleEnv sampleCatalog sampleStar9 Modify 9 (hashOf sampleExtinction) False
     = Inr (True, sampleStar9, sampleCatalog)"
    by (simp add: createStar_sampleExtinction[OF d(2)] n1)
  from a b n0 n1 m show ?thesis by simp
qed

text \<open>
  Claim C7, amended. For a star (not a barycenter) whose definition \<^verbatim>\<open>createStar\<close>
  accepts and which supplies \<^verbatim>\<open>Extinction\<close>: at a distance other than zero the stored
  extinction becomes the value divided by the distance, at distance zero it is left
  as it was; a magnitude given as \<^verbatim>\<open>AbsMag\<close> is stored as given; a magnitude derived
  from \<^verbatim>\<open>AppMag\<close> has the extinction value itself subtracted; a magnitude left alone by
  a \<^verbatim>\<open>Modify\<close> has the value subtracted at a distance other than zero and nothing at
  distance zero.
\<close>

theorem C7_extinction_amended:
  assumes "createStar env db star disposition n starData False = Inr (True, star', db')"
    and "getNumber starData ''Extinction'' = Some e"
  shows "(norm3 (getPosition star') \<noteq> 0
            \<longrightarrow> getExtinction star' = e / norm3 (getPosition star'))
       \<and> (norm3 (getPosition star') = 0 \<longrightarrow> getExtinction star' = getExtinction star)
       \<and> (\<forall>m. getNumber starData ''AbsMag'' = Some m \<longrightarrow> getAbsoluteMagnitude star' = m)
       \<and> (getNumber starData ''AbsMag'' = None \<longrightarrow>
            (\<forall>a. getNumber starData ''AppMag'' = Some a \<longrightarrow>
                 getAbsoluteMagnitude star'
                   = appToAbsMag env a (norm3 (getPosition star')) - e)
            \<and> (getNumber starData ''AppMag'' = None \<longrightarrow>
                 getAbsoluteMagnitude star'
                   = getAbsoluteMagnitude star
                     - (if norm3 (getPosition star') \<noteq> 0 then e else 0)))"
proof -
  from assms(1) obtain star1 bp star3 where
    c: "createOrUpdateStarDetails env db star disposition n starData False = Inr (True, star1, db', bp)"
    and p: "starPosition env (if disposition \<noteq> Modify then star1\<lparr>getIndex := n\<rparr> else star1)
              disposition starData bp = Inr star3"
    and m: "starMagnitude env star3 disposition starData False = Inr star'"
    by (rule createStar_success_steps)
  have k3: "getAbsoluteMagnitude star3 = getAbsoluteMagnitude star
          \<and> getExtinction star3 = getExtinction star"
    using createOrUpdateStarDetails_keeps[OF c] starPosition_shape[OF p]
    by (auto split: if_splits)
  have pos: "getPosition star' = getPosition star3"
    using starMagnitude_shape[OF m] by simp
  from m assms(2) k3 show ?thesis
    unfolding pos starMagnitude_def Let_def
    by (auto split: option.splits if_splits)
qed


theorem C7_extinction_amended_witness:
  "createStar sampleEnv sampleCatalog sampleStar7 Modify 7 (hashOf sampleExtinction) False
     = Inr (True, sampleStar7\<lparr>getAbsoluteMagnitude := 4, getExtinction := 1 / 2\<rparr>,
            sampleCatalog)
   \<and> getNumber (hashOf sampleExtinction) ''Extinction'' = Some 1
   \<and> getExtinction (sampleStar7\<lparr>getAbsoluteMagnitude := 4, getExtinction := 1 / 2\<rparr>)
       = 1 / norm3 (getPosition sampleStar7)
   \<and> getAbsoluteMagnitude (sampleStar7\<lparr>getAbsoluteMagnitude := 4, getExtinction := 1 / 2\<rparr>)
       = getAbsoluteMagnitude sampleStar7 - 1"
proof -
  have n0: "norm3 (getPosition sampleStar7) = 2"
    by (simp add: sampleStar7_def norm3_def)
  have d: "getDetails sampleStar7 = Some sampleDetails"
    by (simp add: sampleStar7_def)
  have m: "getAbsoluteMagnitude sampleStar7 = 5"
    by (simp add: sampleStar7_def)
  have a: "createStar sampleEnv sampleCatalog sampleStar7 Modify 7 (hashOf sampleExtinction) False
     = Inr (True, sampleStar7\<lparr>getAbsoluteMagnitude := 4, getExtinction := 1 / 2\<rparr>,
            sampleCatalog)"
    by (simp add: createStar_sampleExtinction[OF d] n0 m)
  from C7_extinction_amended[OF a sampleExtinction_lookup(3)]
  show ?thesis using a n0 sampleExtinction_lookup(3,4) by simp
qed

section \<open>Claims about the finish pass\<close>

text \<open>
  Claim C1, as stated: after \<^verbatim>\<open>finish\<close>, \<^verbatim>\<open>find\<close> of an entry's number returns that entry,
  and the index is strictly increasing. On the code it fails when two entries carry the
  same number, which nothing in \<^verbatim>\<open>loadBinary\<close> excludes: a binary catalog with two
  records numbered 7 is accepted, both stars are in the finished store, the index holds
  the number 7 twice, and \<^verbatim>\<open>find(7)\<close> returns the first of them, not the second.
\<close>

theorem C1_duplicate_numbers_counterexample:
  "loadBinary sampleEnv (streamOf duplicateFile) (newStarDatabase sampleEnv)
     = (True, streamOf [], duplicateLoaded)
   \<and> finish sampleEnv duplicateLoaded = Inr duplicateFinished
   \<and> stars duplicateFinished = [sampleBinStar 7 5, sampleBinStar 7 3]
   \<and> catalogNumberIndex duplicateFinished = [0, 1]
   \<and> getIndex (stars duplicateFinished ! 0) = 7
   \<and> getIndex (stars duplicateFinished ! 1) = 7
   \<and> stars duplicateFinished ! 1 \<noteq> stars duplicateFinished ! 0
   \<and> find_star duplicateFinished 7 = Some 0"
proof -
  have s: "stars duplicateFinished = [sampleBinStar 7 5, sampleBinStar 7 3]"
    "catalogNumberIndex duplicateFinished = [0, 1]"
    by (simp_all add: duplicateFinished_def finishedFrom_fields)
  have d: "sampleBinStar 7 3 \<noteq> sampleBinStar 7 5"
    by (simp add: sampleBinStar_def sampleStar_def)
  from loadBinary_duplicateFile finish_duplicateLoaded s d find_star_finished(4)
  show ?thesis by (simp add: sample_indexes)
qed

text \<open>
  Claim C1, amended. After \<^verbatim>\<open>finish\<close> the index holds every entry of the store once and
  is sorted by catalog number, not strictly. \<^verbatim>\<open>find\<close> returns not-found for a number
  that no entry has, and otherwise an entry with that number. When the numbers in the
  store are pairwise distinct, the index is strictly increasing and \<^verbatim>\<open>find\<close> of an
  entry's number returns that entry. The hypotheses: \<open>nStars\<close> counts the stored stars,
  and the octree returns as many stars as it was given.
\<close>

theorem C1_final_index_amended:
  assumes "nStars db = length (unsortedStars db)"
    and "length (octreeOrder env (unsortedStars db)) = length (unsortedStars db)"
    and "finish env db = Inr db'"
  shows "length (catalogNumberIndex db') = length (stars db')
       \<and> set (catalogNumberIndex db') = {0..<length (stars db')}
       \<and> distinct (catalogNumberIndex db')
       \<and> sorted (map (\<lambda>i. getIndex (stars db' ! i)) (catalogNumberIndex db'))
       \<and> (\<forall>v. (\<forall>p<length (stars db'). getIndex (stars db' ! p) \<noteq> v)
               \<longrightarrow> find_star db' v = None)
       \<and> (\<forall>v p. find_star db' v = Some p
               \<longrightarrow> p < length (stars db') \<and> getIndex (stars db' ! p) = v)
       \<and> (\<forall>p<length (stars db'). \<exists>q. find_star db' (getIndex (stars db' ! p)) = Some q)
       \<and> (distinct (map getIndex (stars db'))
            \<longrightarrow> sorted_wrt (<) (map (\<lambda>i. getIndex (stars db' ! i)) (catalogNumberIndex db'))
               \<and> (\<forall>p<length (stars db').
                      find_star db' (getIndex (stars db' ! p)) = Some p))"
proof -
  have ok: "indexOK db'" by (rule finish_indexOK[OF assms])
  have n: "nStars db' = length (stars db')" using ok by (simp add: indexOK_def)
  have c1: "length (catalogNumberIndex db') = length (stars db')"
    using indexOK_facts(1)[OF ok] n by simp
  have c5: "\<forall>v. (\<forall>p<length (stars db'). getIndex (stars db' ! p) \<noteq> v)
               \<longrightarrow> find_star db' v = None"
    using find_star_absent[OF ok] by blast
  have c6: "\<forall>v p. find_star db' v = Some p
               \<longrightarrow> p < length (stars db') \<and> getIndex (stars db' ! p) = v"
    using find_star_Some[OF ok] by blast
  have c7: "\<forall>p<length (stars db'). \<exists>q. find_star db' (getIndex (stars db' ! p)) = Some q"
    using find_star_present[OF ok] by blast
  have c8: "distinct (map getIndex (stars db'))
            \<longrightarrow> sorted_wrt (<) (map (\<lambda>i. getIndex (stars db' ! i)) (catalogNumberIndex db'))
               \<and> (\<forall>p<length (stars db').
                      find_star db' (getIndex (stars db' ! p)) = Some p)"
    using find_star_exact[OF ok] index_strictly_sorted[OF ok] by blast
  from c1 indexOK_facts(2,3,4)[OF ok] c5 c6 c7 c8 show ?thesis by blast
qed

theorem C1_final_index_amended_witness:
  "nStars sampleCatalog = length (unsortedStars sampleCatalog)
   \<and> length (octreeOrder sampleEnv (unsortedStars sampleCatalog))
       = length (unsortedStars sampleCatalog)
   \<and> finish sampleEnv sampleCatalog
       = Inr (finishedFrom sampleCatalog [sampleStar7, sampleStar9])
   \<and> distinct (map getIndex (stars (finishedFrom sampleCatalog [sampleStar7, sampleStar9])))
   \<and> catalogNumberIndex (finishedFrom sampleCatalog [sampleStar7, sampleStar9]) = [0, 1]
   \<and> find_star (finishedFrom sampleCatalog [sampleStar7, sampleStar9]) 7 = Some 0
   \<and> find_star (finishedFrom sampleCatalog [sampleStar7, sampleStar9]) 9 = Some 1
   \<and> find_star (finishedFrom sampleCatalog [sampleStar7, sampleStar9]) 42 = None"
proof -
  have h: "nStars sampleCatalog = length (unsortedStars sampleCatalog)"
    "length (octreeOrder sampleEnv (unsortedStars sampleCatalog))
       = length (unsortedStars sampleCatalog)"
    by (simp_all add: sampleCatalog_fields sampleEnv_fields)
  let ?db = "finishedFrom sampleCatalog [sampleStar7, sampleStar9]"
  have s: "stars ?db = [sampleStar7, sampleStar9]" "catalogNumberIndex ?db = [0, 1]"
    by (simp_all add: finishedFrom_fields)
  have d: "distinct (map getIndex (stars ?db))"
    by (simp add: s sample_indexes)
  note t = C1_final_index_amended[OF h finish_sampleCatalog]
  from t d have e: "\<forall>p<length (stars ?db). find_star ?db (getIndex (stars ?db ! p)) = Some p"
    by blast
  from t have n: "\<forall>v. (\<forall>p<length (stars ?db). getIndex (stars ?db ! p) \<noteq> v)
                     \<longrightarrow> find_star ?db v = None"
    by blast
  have l: "length (stars ?db) = 2" by (simp add: s)
  have f7: "find_star ?db 7 = Some 0"
    using e[rule_format, of 0] by (simp add: l) (simp add: s sample_indexes)
  have f9: "find_star ?db 9 = Some 1"
    using e[rule_format, of 1] by (simp add: l) (simp add: s sample_indexes)
  have "getIndex (stars ?db ! p) \<noteq> 42" if "p < length (stars ?db)" for p
  proof -
    from that l have "p = 0 \<or> p = 1" by arith
    then show ?thesis by (auto simp: s sample_indexes)
  qed
  with n have f42: "find_star ?db 42 = None" by blast
  note f7 f9 f42
  with h d s finish_sampleCatalog show ?thesis by simp
qed

text \<open>
  Claim C8, as stated: for a pending pair that does not resolve, \<^verbatim>\<open>finish\<close> logs the
  defect and does not abort. On the code it fails. With the pending pair (100, 55) on a
  catalog that holds the numbers 7 and 9, a build with assertions stops at the failed
  \<^verbatim>\<open>assert\<close>; a build without them finishes, and its log holds the five entries that
  every \<^verbatim>\<open>finish\<close> writes and nothing about the pair.
\<close>

theorem C8_unresolved_pair_counterexample:
  "barycenters pendingCatalog = [\<lparr>bc_catNo = 9, bc_barycenterCatNo = 7\<rparr>,
                                 \<lparr>bc_catNo = 100, bc_barycenterCatNo = 55\<rparr>]
   \<and> logged pendingCatalog = []
   \<and> finish (sampleEnv\<lparr>NDEBUG := False\<rparr>) pendingCatalog = Inl AssertionFailed
   \<and> finish sampleEnv pendingCatalog = Inr pendingFinished
   \<and> find_star pendingFinished 100 = None
   \<and> logged pendingFinished =
       [(LogInfo, ''Total star count: {}''),
        (LogDebug, ''Sorting stars into octree . . .''),
        (LogDebug, ''Spatially sorting stars for improved locality of reference . . .''),
        (LogDebug, ''{} stars total\<newline>Octree has {} nodes and {} stars.''),
        (LogInfo, ''Building catalog number indexes . . .'')]"
proof -
  have l: "logged pendingFinished = finishLog"
    by (simp add: pendingFinished_def finishedFrom_fields pendingCatalog_fields)
  from pendingCatalog_fields(4,5) finish_pendingCatalog find_star_finished(5) l
  show ?thesis by (simp add: finishLog_def)
qed

text \<open>
  Claim C8, amended. \<^verbatim>\<open>finish\<close> logs nothing about a pending pair. A pair can be
  resolved when both its numbers are numbers of stars in the finished store. When
  assertions are compiled out, or every pending pair can be resolved, \<^verbatim>\<open>finish\<close>
  returns, logs its five entries and nothing else, and clears the pending list; every
  pending pair that can be resolved is linked (\<^verbatim>\<open>find\<close> gives the two stars with the
  pair's numbers, the star is among the orbiting stars of its barycenter, and a star of
  some resolving pair has the barycenter of one of them); a pair that cannot be
  resolved is skipped, and a star of no resolving pair keeps the link it had. When
  assertions are compiled in and some pending pair cannot be resolved, \<^verbatim>\<open>finish\<close> stops
  at the failed assertion. The hypotheses: \<open>nStars\<close> counts the stored stars, the octree
  returns as many stars as it was given, and the loading index has not been freed.
\<close>

theorem C8_barycenters_amended:
  assumes "nStars db = length (unsortedStars db)"
    and "length (octreeOrder env (unsortedStars db)) = length (unsortedStars db)"
    and "binFileCatalogNumberIndex db \<noteq> Freed"
  shows "(NDEBUG env \<or> (\<forall>b\<in>set (barycenters db). resolvable env db b) \<longrightarrow>
           (\<exists>db'. finish env db = Inr db'
              \<and> logged db' = logged db @ finishLog
              \<and> barycenters db' = []
              \<and> (\<forall>b\<in>set (barycenters db). resolvable env db b = (\<exists>s bc. resolves db' b s bc))
              \<and> (\<forall>b\<in>set (barycenters db). \<forall>s bc. resolves db' b s bc
                    \<longrightarrow> getIndex (stars db' ! s) = bc_catNo b
                      \<and> getIndex (stars db' ! bc) = bc_barycenterCatNo b
                      \<and> s \<in> set (getOrbitingStars (stars db' ! bc)))
              \<and> (\<forall>s. if \<exists>b\<in>set (barycenters db). \<exists>bc. resolves db' b s bc
                      then \<exists>b\<in>set (barycenters db). \<exists>bc. resolves db' b s bc
                             \<and> getOrbitBarycenter (stars db' ! s) = Some bc
                      else getOrbitBarycenter (stars db' ! s)
                           = getOrbitBarycenter (octreeOrder env (unsortedStars db) ! s))))
       \<and> (\<not> NDEBUG env \<and> (\<exists>b\<in>set (barycenters db). \<not> resolvable env db b)
            \<longrightarrow> finish env db = Inl AssertionFailed)"
proof (intro conjI impI)
  assume a: "NDEBUG env \<or> (\<forall>b\<in>set (barycenters db). resolvable env db b)"
  let ?e = "env\<lparr>NDEBUG := True\<rparr>"
  have h: "length (octreeOrder ?e (unsortedStars db)) = length (unsortedStars db)"
    "NDEBUG ?e" using assms(2) by simp_all
  have o: "octreeOrder ?e = octreeOrder env" by simp
  have e: "finish env db = finish ?e db"
  proof (cases "NDEBUG env")
    case True
    then have "?e = env" by simp
    then show ?thesis by simp
  next
    case False
    with a show ?thesis by (intro finish_resolved[OF assms(1,2)]) simp
  qed
  from finish_release[OF assms(1) h(1) assms(3) h(2)]
  show "\<exists>db'. finish env db = Inr db'
              \<and> logged db' = logged db @ finishLog
              \<and> barycenters db' = []
              \<and> (\<forall>b\<in>set (barycenters db). resolvable env db b = (\<exists>s bc. resolves db' b s bc))
              \<and> (\<forall>b\<in>set (barycenters db). \<forall>s bc. resolves db' b s bc
                    \<longrightarrow> getIndex (stars db' ! s) = bc_catNo b
                      \<and> getIndex (stars db' ! bc) = bc_barycenterCatNo b
                      \<and> s \<in> set (getOrbitingStars (stars db' ! bc)))
              \<and> (\<forall>s. if \<exists>b\<in>set (barycenters db). \<exists>bc. resolves db' b s bc
                      then \<exists>b\<in>set (barycenters db). \<exists>bc. resolves db' b s bc
                             \<and> getOrbitBarycenter (stars db' ! s) = Some bc
                      else getOrbitBarycenter (stars db' ! s)
                           = getOrbitBarycenter (octreeOrder env (unsortedStars db) ! s))"
    unfolding e resolvable_NDEBUG o .
next
  assume "\<not> NDEBUG env \<and> (\<exists>b\<in>set (barycenters db). \<not> resolvable env db b)"
  then show "finish env db = Inl AssertionFailed"
    using finish_asserts[OF assms] by blast
qed

theorem C8_barycenters_amended_witness:
  "nStars pendingCatalog = length (unsortedStars pendingCatalog)
   \<and> length (octreeOrder sampleEnv (unsortedStars pendingCatalog))
       = length (unsortedStars pendingCatalog)
   \<and> binFileCatalogNumberIndex pendingCatalog \<noteq> Freed
   \<and> NDEBUG sampleEnv
   \<and> finish sampleEnv pendingCatalog = Inr pendingFinished
   \<and> logged pendingFinished = logged pendingCatalog @ finishLog
   \<and> barycenters pendingFinished = []
   \<and> resolves pendingFinished \<lparr>bc_catNo = 9, bc_barycenterCatNo = 7\<rparr> 1 0
   \<and> 1 \<in> set (getOrbitingStars (stars pendingFinished ! 0))
   \<and> getOrbitBarycenter (stars pendingFinished ! 1) = Some 0
   \<and> getOrbitBarycenter (stars pendingFinished ! 0) = None
   \<and> \<not> NDEBUG (sampleEnv\<lparr>NDEBUG := False\<rparr>)
   \<and> \<not> resolvable (sampleEnv\<lparr>NDEBUG := False\<rparr>) pendingCatalog
          \<lparr>bc_catNo = 100, bc_barycenterCatNo = 55\<rparr>
   \<and> finish (sampleEnv\<lparr>NDEBUG := False\<rparr>) pendingCatalog = Inl AssertionFailed
   \<and> resolvable (sampleEnv\<lparr>NDEBUG := False\<rparr>) resolvedCatalog
          \<lparr>bc_catNo = 9, bc_barycenterCatNo = 7\<rparr>
   \<and> finish (sampleEnv\<lparr>NDEBUG := False\<rparr>) resolvedCatalog = Inr resolvedFinished
   \<and> 1 \<in> set (getOrbitingStars (stars resolvedFinished ! 0))
   \<and> getOrbitBarycenter (stars resolvedFinished ! 1) = Some 0"
proof -
  let ?d = "sampleEnv\<lparr>NDEBUG := False\<rparr>"
  have h: "nStars pendingCatalog = length (unsortedStars pendingCatalog)"
    "length (octreeOrder sampleEnv (unsortedStars pendingCatalog))
       = length (unsortedStars pendingCatalog)"
    "binFileCatalogNumberIndex pendingCatalog \<noteq> Freed"
    by (simp_all add: pendingCatalog_fields sampleEnv_fields)
  have hd: "length (octreeOrder ?d (unsortedStars pendingCatalog))
       = length (unsortedStars pendingCatalog)"
    by (simp add: sampleEnv_fields)
  have hr: "nStars resolvedCatalog = length (unsortedStars resolvedCatalog)"
    "length (octreeOrder ?d (unsortedStars resolvedCatalog))
       = length (unsortedStars resolvedCatalog)"
    "binFileCatalogNumberIndex resolvedCatalog \<noteq> Freed"
    by (simp_all add: resolvedCatalog_fields sampleEnv_fields)
  have r: "resolves pendingFinished \<lparr>bc_catNo = 9, bc_barycenterCatNo = 7\<rparr> 1 0"
    by (simp add: resolves_def find_star_finished)
  have s: "stars pendingFinished
      = [sampleStar7\<lparr>getOrbitingStars := [1]\<rparr>, sampleStar9\<lparr>getOrbitBarycenter := Some 0\<rparr>]"
    "logged pendingFinished = logged pendingCatalog @ finishLog"
    "barycenters pendingFinished = []"
    "stars resolvedFinished
      = [sampleStar7\<lparr>getOrbitingStars := [1]\<rparr>, sampleStar9\<lparr>getOrbitBarycenter := Some 0\<rparr>]"
    by (simp_all add: pendingFinished_def resolvedFinished_def finishedFrom_fields)
  have b: "getOrbitBarycenter sampleStar7 = None"
    by (simp add: sampleStar7_def sampleStar_def)
  have nd: "\<not> NDEBUG ?d" by simp
  from C8_barycenters_amended[OF h(1) hd h(3)] nd resolvable_sample(3)[of False]
  have a: "finish ?d pendingCatalog = Inl AssertionFailed"
    by (simp add: pendingCatalog_fields)
  from C8_barycenters_amended[OF hr] resolvable_sample(1)[of False]
  obtain db' where
    "finish ?d resolvedCatalog = Inr db'"
    "\<forall>b\<in>set (barycenters resolvedCatalog). \<forall>s bc. resolves db' b s bc
        \<longrightarrow> getIndex (stars db' ! s) = bc_catNo b
          \<and> getIndex (stars db' ! bc) = bc_barycenterCatNo b
          \<and> s \<in> set (getOrbitingStars (stars db' ! bc))"
    by (auto simp: resolvedCatalog_fields)
  with finish_resolvedCatalog have fr: "finish ?d resolvedCatalog = Inr resolvedFinished" by simp
  from C8_barycenters_amended[OF h] sampleEnv_fields(2) finish_pendingCatalog(1) r
  have o: "1 \<in> set (getOrbitingStars (stars pendingFinished ! 0))"
    by (simp add: pendingCatalog_fields)
  have o2: "1 \<in> set (getOrbitingStars (stars resolvedFinished ! 0))"
    by (simp add: s)
  from h sampleEnv_fields(2) finish_pendingCatalog(1) r s b a o o2 fr
    resolvable_sample(1)[of False] resolvable_sample(3)[of False]
  show ?thesis by simp
qed

section \<open>Claims about the binary catalog\<close>

text \<open>
  Claim C6, as stated: a stream is accepted exactly when it has the magic, the version
  0x0100 and a record count followed by at least that many complete 18-byte records. On
  the code it fails. A header that declares one record, followed by 18 bytes, is
  rejected: a record has 20 bytes. A header that declares two records, followed by two
  complete records, is rejected when the second has a spectral code that does not
  unpack; the star of the first record is then left in the store.
\<close>

theorem C6_record_size_counterexample:
  "take 8 shortRecordFile = STARSDAT_MAGIC
   \<and> le16 (drop 8 shortRecordFile) = 0x0100
   \<and> le32 (drop 10 shortRecordFile) = 1
   \<and> length shortRecordFile = 14 + 18 * 1
   \<and> \<not> fst (loadBinary sampleEnv (streamOf shortRecordFile) (newStarDatabase sampleEnv))
   \<and> take 8 badSpectralFile = STARSDAT_MAGIC
   \<and> le16 (drop 8 badSpectralFile) = 0x0100
   \<and> le32 (drop 10 badSpectralFile) = 2
   \<and> length badSpectralFile = 14 + 20 * 2
   \<and> loadBinary sampleEnv (streamOf badSpectralFile) (newStarDatabase sampleEnv)
       = (False, streamOf [], badSpectralLoaded)
   \<and> unsortedStars badSpectralLoaded = [sampleBinStar 7 5]"
proof -
  have a: "\<not> fst (loadBinary sampleEnv (streamOf shortRecordFile) (newStarDatabase sampleEnv))"
    by (simp add: loadBinary_accepts wellFormed_sample streamOf_def)
  have b: "le32 (drop 10 shortRecordFile) = 1" "le32 (drop 10 badSpectralFile) = 2"
    by (simp_all add: sample_bytes le32_def)
  have c: "unsortedStars badSpectralLoaded = [sampleBinStar 7 5]"
    by (simp add: badSpectralLoaded_def)
  from a b c header_sample(2,3) file_lengths(2,3) loadBinary_badSpectralFile
  show ?thesis by simp
qed

text \<open>
  Claim C6, amended. A stream is accepted exactly when it can be read and holds a
  well-formed catalog: the magic, the version 0x0100, a record count, at least that many
  complete 20-byte records, and in each declared record a spectral code that unpacks.
  A load that fails builds no lookup index and keeps the stars stored before it.
\<close>

theorem C6_loadBinary_accepts_amended:
  "(fst (loadBinary env inp db) \<longleftrightarrow> readable inp \<and> wellFormedCatalog env (content inp))
   \<and> (\<not> fst (loadBinary env inp db)
        \<longrightarrow> sameIndexes db (snd (snd (loadBinary env inp db))))"
  using loadBinary_accepts[of env inp db] loadBinary_no_index[of env inp db] by blast

theorem C6_loadBinary_accepts_amended_witness:
  "readable (streamOf oneRecordFile)
   \<and> wellFormedCatalog sampleEnv oneRecordFile
   \<and> fst (loadBinary sampleEnv (streamOf oneRecordFile) (newStarDatabase sampleEnv))
   \<and> \<not> wellFormedCatalog sampleEnv shortRecordFile
   \<and> \<not> fst (loadBinary sampleEnv (streamOf shortRecordFile) (newStarDatabase sampleEnv))
   \<and> sameIndexes (newStarDatabase sampleEnv)
        (snd (snd (loadBinary sampleEnv (streamOf shortRecordFile) (newStarDatabase sampleEnv))))"
proof -
  have c: "content (streamOf oneRecordFile) = oneRecordFile"
    "content (streamOf shortRecordFile) = shortRecordFile"
    by (simp_all add: streamOf_def)
  from C6_loadBinary_accepts_amended[of sampleEnv "streamOf oneRecordFile"
         "newStarDatabase sampleEnv"]
       C6_loadBinary_accepts_amended[of sampleEnv "streamOf shortRecordFile"
         "newStarDatabase sampleEnv"]
  show ?thesis
    by (simp add: c wellFormed_sample readable_streamOf)
qed

text \<open>
  Claim C9. For a stream that can be read and holds a well-formed catalog of \<open>n\<close>
  declared records, \<^verbatim>\<open>loadBinary\<close> succeeds, decodes \<open>n\<close> records and leaves the stream
  right after the last of them. With any bytes appended it succeeds with the same
  database, and the appended bytes are left in the stream, unread.
\<close>

theorem C9_surplus_ignored:
  assumes "readable inp" and "wellFormedCatalog env (content inp)"
  shows "\<exists>inp' db'.
           loadBinary env inp db = (True, inp', db')
         \<and> loadBinary env (inp\<lparr>content := content inp @ surplus\<rparr>) db
             = (True, inp'\<lparr>content := content inp' @ surplus\<rparr>, db')
         \<and> content inp' = drop (14 + 20 * nStarsInFile (content inp)) (content inp)
         \<and> nStars db' = nStars db + nStarsInFile (content inp)
         \<and> length (unsortedStars db')
             = length (unsortedStars db) + nStarsInFile (content inp)"
proof -
  from assms have "fst (loadBinary env inp db)" by (simp add: loadBinary_accepts)
  then obtain inp' db' where l: "loadBinary env inp db = (True, inp', db')"
    by (cases "loadBinary env inp db") auto
  from loadBinary_append[OF l, of surplus] l show ?thesis by blast
qed

theorem C9_surplus_ignored_witness:
  "readable (streamOf oneRecordFile)
   \<and> wellFormedCatalog sampleEnv oneRecordFile
   \<and> length oneRecordFile = 14 + 20 * nStarsInFile oneRecordFile
   \<and> fst (loadBinary sampleEnv (streamOf (oneRecordFile @ [0xFF, 0xFF, 0xFF]))
            (newStarDatabase sampleEnv))
   \<and> content (fst (snd (loadBinary sampleEnv (streamOf (oneRecordFile @ [0xFF, 0xFF, 0xFF]))
            (newStarDatabase sampleEnv)))) = [0xFF, 0xFF, 0xFF]
   \<and> nStars (snd (snd (loadBinary sampleEnv (streamOf (oneRecordFile @ [0xFF, 0xFF, 0xFF]))
            (newStarDatabase sampleEnv)))) = 1
   \<and> snd (snd (loadBinary sampleEnv (streamOf (oneRecordFile @ [0xFF, 0xFF, 0xFF]))
            (newStarDatabase sampleEnv)))
       = snd (snd (loadBinary sampleEnv (streamOf oneRecordFile) (newStarDatabase sampleEnv)))"
proof -
  have c: "content (streamOf oneRecordFile) = oneRecordFile"
    "(streamOf oneRecordFile)\<lparr>content := oneRecordFile @ [0xFF, 0xFF, 0xFF]\<rparr>
       = streamOf (oneRecordFile @ [0xFF, 0xFF, 0xFF])"
    by (simp_all add: streamOf_def)
  have n: "nStarsInFile oneRecordFile = 1" "nStars (newStarDatabase sampleEnv) = 0"
    using header_sample(1) by (simp_all add: newStarDatabase_def)
  from C9_surplus_ignored[OF readable_streamOf, of sampleEnv oneRecordFile
         "newStarDatabase sampleEnv" "[0xFF, 0xFF, 0xFF]"]
       wellFormed_sample(1)
  obtain inp' db' where
    "loadBinary sampleEnv (streamOf oneRecordFile) (newStarDatabase sampleEnv) = (True, inp', db')"
    "loadBinary sampleEnv (streamOf (oneRecordFile @ [0xFF, 0xFF, 0xFF])) (newStarDatabase sampleEnv)
       = (True, inp'\<lparr>content := content inp' @ [0xFF, 0xFF, 0xFF]\<rparr>, db')"
    "content inp' = drop (14 + 20 * 1) oneRecordFile"
    "nStars db' = 1"
    by (auto simp: c n)
  then show ?thesis
    using wellFormed_sample(1) by (simp add: readable_streamOf file_lengths n)
qed

end
